theory Spec2Isabelle
  imports Main "HOL-Library.AList" "HOL-Library.Sublist"
begin

section \<open>The converged-package migration generator\<close>

text \<open>
  A shallow embedding of \<^verbatim>\<open>tools/generators/migrate-converged-pkg/index.ts\<close>.
  The generator edits an Nx \<^verbatim>\<open>Tree\<close> (a store of files addressed by path), reads the
  workspace's project registry, and collects messages in a user log.  Exceptions are values:
  a step either finishes with a new state or throws an error in the state reached so far.
\<close>

subsection \<open>JavaScript strings\<close>

text \<open>\<^verbatim>\<open>s.includes(pat)\<close>: \<^verbatim>\<open>pat\<close> occurs somewhere in \<^verbatim>\<open>s\<close>.\<close>

fun includesStr :: "string \<Rightarrow> string \<Rightarrow> bool" where
  "includesStr [] pat = (pat = [])"
| "includesStr (c # cs) pat = (prefix pat (c # cs) \<or> includesStr cs pat)"

text \<open>
  \<^verbatim>\<open>s.replace(pat, rep)\<close> with a string pattern: only the first occurrence of \<^verbatim>\<open>pat\<close> is
  replaced.  (The replacement strings of this program contain no \<^verbatim>\<open>$\<close>, so no replacement
  pattern is involved.)
\<close>

fun replaceFirst :: "string \<Rightarrow> string \<Rightarrow> string \<Rightarrow> string" where
  "replaceFirst pat rep [] = (if pat = [] then rep else [])"
| "replaceFirst pat rep (c # cs) =
     (if prefix pat (c # cs) then rep @ drop (length pat) (c # cs)
      else c # replaceFirst pat rep cs)"

text \<open>\<^verbatim>\<open>s.split(sep)\<close> for a one-character separator; the result is never empty.\<close>

fun splitOn :: "char \<Rightarrow> string \<Rightarrow> string list" where
  "splitOn sep [] = [[]]"
| "splitOn sep (c # cs) =
     (if c = sep then [] # splitOn sep cs
      else (case splitOn sep cs of [] \<Rightarrow> [[c]] | seg # segs \<Rightarrow> (c # seg) # segs))"

text \<open>\<^verbatim>\<open>Array.from(new Set(value))\<close>: the first occurrence of every element is kept, in order.\<close>

fun uniqueArray :: "'a list \<Rightarrow> 'a list" where
  "uniqueArray [] = []"
| "uniqueArray (x # xs) = x # uniqueArray (removeAll x xs)"

subsection \<open>JSON documents and JavaScript objects\<close>

text \<open>
  An object is an association list in insertion order: \<^const>\<open>AList.update\<close> assigns a
  property (in place when the key exists, appended otherwise), \<^const>\<open>AList.delete\<close> is
  the \<^verbatim>\<open>delete\<close> operator, \<^const>\<open>map_of\<close> reads a property.
\<close>

datatype json =
    JNull
  | JBool bool
  | JNum int
  | JStr string
  | JArr "json list"
  | JObj "(string \<times> json) list"

text \<open>
  The content of a file.  \<open>Json j\<close> is a file holding the serialised document \<open>j\<close>;
  \<open>Text s\<close> is a file whose text \<open>s\<close> is not a JSON document.
\<close>

datatype content = Text string | Json json

datatype error =
    ConflictingMode string
  | MissingName
  | NotConverged string
  | ProjectNotFound string
  | FileNotFound string
  | JsonParseError string
  | TypeError string
  | StoryMoveError string

subsection \<open>The workspace: tree, project registry, user log\<close>

record project_configuration =
  root :: string
  sourceRoot :: "string option"
  tags :: "string list option"

datatype severity = LogWarn | LogError | LogInfo

text \<open>
  \<open>files\<close> is the tree; \<open>projects\<close> and \<open>npmScope\<close> are the workspace configuration that
  \<^verbatim>\<open>getProjects\<close>, \<^verbatim>\<open>readProjectConfiguration\<close> and \<^verbatim>\<open>readWorkspaceConfiguration\<close> read;
  \<open>userLog\<close> is the \<^verbatim>\<open>UserLog\<close> array; \<open>logger\<close> is what the Nx \<^verbatim>\<open>logger\<close> has printed;
  \<open>tsconfigTypes\<close> is the array
  \<^verbatim>\<open>templates.tsconfig.compilerOptions.types\<close>, which \<^verbatim>\<open>updatedLocalTsConfig\<close> assigns through
  its shallow copy of the template.
\<close>

record state =
  files :: "(string \<times> content) list"
  projects :: "(string \<times> project_configuration) list"
  npmScope :: string
  userLog :: "(severity \<times> string) list"
  logger :: "(severity \<times> string) list"
  tsconfigTypes :: "string list"

text \<open>The tree addresses files relative to the workspace root: leading slashes are dropped.\<close>

definition rp :: "string \<Rightarrow> string" where
  "rp p = dropWhile (\<lambda>c. c = CHR ''/'') p"

definition inDir :: "string \<Rightarrow> string \<Rightarrow> bool" where
  "inDir dir p = prefix (dir @ ''/'') p"

definition treeRead :: "state \<Rightarrow> string \<Rightarrow> content option" where
  "treeRead st p = map_of (files st) (rp p)"

definition treeWrite :: "string \<Rightarrow> content \<Rightarrow> state \<Rightarrow> state" where
  "treeWrite p c st = st\<lparr>files := AList.update (rp p) c (files st)\<rparr>"

definition treeExists :: "state \<Rightarrow> string \<Rightarrow> bool" where
  "treeExists st p = (\<exists>q \<in> set (map fst (files st)). q = rp p \<or> inDir (rp p) q)"

definition treeDelete :: "string \<Rightarrow> state \<Rightarrow> state" where
  "treeDelete p st =
     st\<lparr>files := filter (\<lambda>(q, c). \<not> (q = rp p \<or> inDir (rp p) q)) (files st)\<rparr>"

text \<open>
  \<^verbatim>\<open>joinPathFragments\<close>: the non-empty fragments joined by \<^verbatim>\<open>/\<close> (project roots are stored
  normalised, so no \<^verbatim>\<open>.\<close> or \<^verbatim>\<open>..\<close> segment is resolved here).
\<close>

fun joinPathFragments :: "string list \<Rightarrow> string" where
  "joinPathFragments [] = []"
| "joinPathFragments (f # fs) =
     (if f = [] then joinPathFragments fs
      else if joinPathFragments fs = [] then f
      else f @ ''/'' @ joinPathFragments fs)"

definition readJson :: "state \<Rightarrow> string \<Rightarrow> error + json" where
  "readJson st p =
     (case treeRead st p of
        None \<Rightarrow> Inl (FileNotFound p)
      | Some (Text s) \<Rightarrow> Inl (JsonParseError p)
      | Some (Json j) \<Rightarrow> Inr j)"

definition readProjectConfiguration :: "state \<Rightarrow> string \<Rightarrow> error + project_configuration" where
  "readProjectConfiguration st name =
     (case map_of (projects st) name of
        None \<Rightarrow> Inl (ProjectNotFound name)
      | Some cfg \<Rightarrow> Inr cfg)"

subsection \<open>Eligibility\<close>

text \<open>
  \<^verbatim>\<open>isPackageConverged\<close>: \<^verbatim>\<open>packageJson.version.startsWith('9.')\<close>.  Reading the manifest
  throws when the file is missing or is not JSON; the property access throws when the
  document has no string \<^verbatim>\<open>version\<close>.
\<close>

definition isPackageConverged :: "state \<Rightarrow> project_configuration \<Rightarrow> error + bool" where
  "isPackageConverged st project =
     (case readJson st (joinPathFragments [root project, ''package.json'']) of
        Inl e \<Rightarrow> Inl e
      | Inr (JObj packageJson) \<Rightarrow>
          (case map_of packageJson ''version'' of
             Some (JStr version) \<Rightarrow> Inr (prefix ''9.'' version)
           | _ \<Rightarrow> Inl (TypeError ''version''))
      | Inr _ \<Rightarrow> Inl (TypeError ''version''))"

text \<open>
  \<^verbatim>\<open>isProjectMigrated\<close>:
  \<^verbatim>\<open>project.sourceRoot != null && Boolean(project.tags?.includes('vNext'))\<close>.
\<close>

definition isProjectMigrated :: "project_configuration \<Rightarrow> bool" where
  "isProjectMigrated project =
     (sourceRoot project \<noteq> None \<and>
      (case tags project of None \<Rightarrow> False | Some ts \<Rightarrow> ''vNext'' \<in> set ts))"

subsection \<open>Exceptions, steps and options\<close>

text \<open>
  A step of the generator either finishes in a new state or throws; the state in which an
  error was thrown is kept, since nothing rolls the tree back.
\<close>

datatype outcome = Done state | Threw error state

fun andThen :: "outcome \<Rightarrow> (state \<Rightarrow> outcome) \<Rightarrow> outcome" where
  "andThen (Done st) f = f st"
| "andThen (Threw e st) f = Threw e st"

fun runSteps :: "(state \<Rightarrow> outcome) list \<Rightarrow> state \<Rightarrow> outcome" where
  "runSteps [] st = Done st"
| "runSteps (step # steps) st = andThen (step st) (runSteps steps)"

text \<open>\<^verbatim>\<open>array.forEach(callback)\<close> where the callback may throw.\<close>

fun forEach :: "'a list \<Rightarrow> ('a \<Rightarrow> state \<Rightarrow> outcome) \<Rightarrow> state \<Rightarrow> outcome" where
  "forEach [] callback st = Done st"
| "forEach (x # xs) callback st = andThen (callback x st) (forEach xs callback)"

text \<open>
  \<^verbatim>\<open>updateJson(tree, path, updater)\<close>: read the document, apply the updater, write the result.
\<close>

definition updateJson :: "string \<Rightarrow> (json \<Rightarrow> error + json) \<Rightarrow> state \<Rightarrow> outcome" where
  "updateJson p updater st =
     (case readJson st p of
        Inl e \<Rightarrow> Threw e st
      | Inr j \<Rightarrow>
          (case updater j of
             Inl e \<Rightarrow> Threw e st
           | Inr j' \<Rightarrow> Done (treeWrite p (Json j') st)))"

text \<open>
  The functions this file imports from elsewhere and whose code is not part of it:
  \<^verbatim>\<open>arePromptsEnabled\<close> and \<^verbatim>\<open>prompt\<close> (the answer the operator types), \<^verbatim>\<open>updateJestConfig\<close>
  (tools/utils), \<^verbatim>\<open>serializeJson\<close> and \<^verbatim>\<open>formatFiles\<close> of the Nx libraries, and the matcher of
  ignore patterns that \<^verbatim>\<open>visitNotIgnoredFiles\<close> consults: \<open>gitignoreMatches patterns path\<close> is
  \<^verbatim>\<open>ignore().add(patterns).ignores(path)\<close>.
\<close>

record env =
  arePromptsEnabled :: bool
  promptAnswer :: string
  updateJestConfig :: "string \<Rightarrow> state \<Rightarrow> outcome"
  serializeJson :: "json \<Rightarrow> string"
  formatFiles :: "state \<Rightarrow> state"
  gitignoreMatches :: "string \<Rightarrow> string \<Rightarrow> bool"

text \<open>\<^verbatim>\<open>MigrateConvergedPkgGeneratorSchema\<close>: every flag is optional.\<close>

record schema =
  name :: "string option"
  all :: "bool option"
  stats :: "bool option"

record paths =
  configRoot :: string
  packageJson :: string
  tsconfig :: string
  jestConfig :: string
  rootTsconfig :: string
  rootJestPreset :: string
  rootJestConfig :: string
  npmConfig :: string
  storybookTsconfig :: string
  storybookMain :: string
  storybookPreview :: string

text \<open>
  \<^verbatim>\<open>NormalizedSchema\<close>; \<open>pkgName\<close> is the field \<^verbatim>\<open>name\<close> of the asserted schema.
\<close>

record options =
  pkgName :: string
  projectConfig :: project_configuration
  workspaceNpmScope :: string
  normalizedPkgName :: string
  optPaths :: paths

definition normalizeOptions :: "state \<Rightarrow> string \<Rightarrow> error + options" where
  "normalizeOptions st nm =
     (case readProjectConfiguration st nm of
        Inl e \<Rightarrow> Inl e
      | Inr cfg \<Rightarrow>
          Inr \<lparr> pkgName = nm,
                projectConfig = cfg,
                workspaceNpmScope = npmScope st,
                normalizedPkgName = replaceFirst (''@'' @ npmScope st @ ''/'') [] nm,
                optPaths =
                  \<lparr> configRoot = joinPathFragments [root cfg, ''config''],
                    packageJson = joinPathFragments [root cfg, ''package.json''],
                    tsconfig = joinPathFragments [root cfg, ''tsconfig.json''],
                    jestConfig = joinPathFragments [root cfg, ''jest.config.js''],
                    rootTsconfig = ''/tsconfig.base.json'',
                    rootJestPreset = ''/jest.preset.js'',
                    rootJestConfig = ''/jest.config.js'',
                    npmConfig = joinPathFragments [root cfg, ''.npmignore''],
                    storybookTsconfig = joinPathFragments [root cfg, ''.storybook/tsconfig.json''],
                    storybookMain = joinPathFragments [root cfg, ''.storybook/main.js''],
                    storybookPreview = joinPathFragments [root cfg, ''.storybook/preview.js''] \<rparr> \<rparr>)"

text \<open>\<^verbatim>\<open>hasSchemaFlag\<close> is \<^verbatim>\<open>Boolean(schema[flag])\<close>: the empty string and \<^verbatim>\<open>false\<close> are falsy.\<close>

definition truthyStr :: "string option \<Rightarrow> bool" where
  "truthyStr v = (case v of None \<Rightarrow> False | Some s \<Rightarrow> s \<noteq> [])"

definition truthyFlag :: "bool option \<Rightarrow> bool" where
  "truthyFlag v = (case v of None \<Rightarrow> False | Some b \<Rightarrow> b)"

subsection \<open>Schema validation\<close>

text \<open>
  \<^verbatim>\<open>validateSchema\<close> only reads the tree, so it returns the validated schema or the error.
  The prompt answers with a name, which is spread over the schema.
\<close>

definition shouldValidateNameInput :: "schema \<Rightarrow> bool" where
  "shouldValidateNameInput newSchema =
     (\<not> truthyStr (name newSchema) \<and> \<not> (truthyFlag (all newSchema) \<or> truthyFlag (stats newSchema)))"

definition validateSchema :: "env \<Rightarrow> state \<Rightarrow> schema \<Rightarrow> error + schema" where
  "validateSchema ev st sch =
     (if truthyStr (name sch) \<and> truthyFlag (stats sch)
        then Inl (ConflictingMode ''--name and --stats are mutually exclusive'')
      else if truthyStr (name sch) \<and> truthyFlag (all sch)
        then Inl (ConflictingMode ''--name and --all are mutually exclusive'')
      else if truthyFlag (stats sch) \<and> truthyFlag (all sch)
        then Inl (ConflictingMode ''--stats and --all are mutually exclusive'')
      else
        let shouldTriggerPrompt = arePromptsEnabled ev \<and> shouldValidateNameInput sch;
            newSchema = (if shouldTriggerPrompt then sch\<lparr>name := Some (promptAnswer ev)\<rparr> else sch)
        in
          if shouldValidateNameInput newSchema then Inl MissingName
          else
            (case name newSchema of
               Some nm \<Rightarrow>
                 if nm \<noteq> [] then
                   (case readProjectConfiguration st nm of
                      Inl e \<Rightarrow> Inl e
                    | Inr cfg \<Rightarrow>
                        (case isPackageConverged st cfg of
                           Inl e \<Rightarrow> Inl e
                         | Inr converged \<Rightarrow>
                             if converged then Inr newSchema else Inl (NotConverged nm)))
                 else Inr newSchema
             | None \<Rightarrow> Inr newSchema))"

subsection \<open>Templates\<close>

text \<open>
  The texts below are the values of the \<^verbatim>\<open>stripIndents\<close> template literals: every line
  trimmed, the lines joined by a line feed.
\<close>

text \<open>A JavaScript string literal in single quotes.\<close>

definition quoted :: "string \<Rightarrow> string" where
  "quoted s = [CHR 0x27] @ s @ [CHR 0x27]"

fun joinLines :: "string list \<Rightarrow> string" where
  "joinLines [] = []"
| "joinLines [l] = l"
| "joinLines (l # ls) = l @ ''\<newline>'' @ joinLines ls"

definition apiExtractorLocal :: json where
  "apiExtractorLocal = JObj
     [(''$schema'', JStr ''https://developer.microsoft.com/json-schemas/api-extractor/v7/api-extractor.schema.json''),
      (''extends'', JStr ''./api-extractor.json''),
      (''mainEntryPointFilePath'', JStr ''<projectFolder>/dist/<unscopedPackageName>/src/index.d.ts'')]"

definition apiExtractor :: json where
  "apiExtractor = JObj
     [(''$schema'', JStr ''https://developer.microsoft.com/json-schemas/api-extractor/v7/api-extractor.schema.json''),
      (''extends'', JStr ''@fluentui/scripts/api-extractor/api-extractor.common.json'')]"

text \<open>The array \<^verbatim>\<open>templates.tsconfig.compilerOptions.types\<close> when the module is loaded.\<close>

definition initialTsconfigTypes :: "string list" where
  "initialTsconfigTypes =
     [''jest'', ''custom-global'', ''inline-style-expand-shorthand'', ''storybook__addons'']"

text \<open>\<^verbatim>\<open>templates.tsconfig\<close>, with the current value of its \<^verbatim>\<open>types\<close> array.\<close>

definition tsconfigTemplate :: "string list \<Rightarrow> json" where
  "tsconfigTemplate types = JObj
     [(''extends'', JStr ''../../tsconfig.base.json''),
      (''include'', JArr [JStr ''src'']),
      (''compilerOptions'', JObj
         [(''target'', JStr ''ES2020''),
          (''module'', JStr ''CommonJS''),
          (''lib'', JArr [JStr ''ES2020'', JStr ''dom'']),
          (''outDir'', JStr ''dist''),
          (''jsx'', JStr ''react''),
          (''declaration'', JBool True),
          (''experimentalDecorators'', JBool True),
          (''importHelpers'', JBool True),
          (''noUnusedLocals'', JBool True),
          (''preserveConstEnums'', JBool True),
          (''types'', JArr (map JStr types))])]"

definition jestSetup :: string where
  "jestSetup = ''/** Jest test setup file. */''"

definition jestTemplate :: "string \<Rightarrow> bool \<Rightarrow> string \<Rightarrow> string" where
  "jestTemplate displayName addSnapshotSerializers testSetupFilePath = joinLines
     [''// @ts-check'',
      [],
      ''/**'',
      ''* @type {jest.InitialOptions}'',
      ''*/'',
      ''module.exports = {'',
      ''displayName: '' @ quoted displayName @ '','',
      ''preset: '../../jest.preset.js','',
      ''globals: {'',
      quoted ''ts-jest'' @ '': {'',
      ''tsConfig: '<rootDir>/tsconfig.json','',
      ''diagnostics: false,'',
      ''},'',
      ''},'',
      ''transform: {'',
      quoted (''^.+'' @ [CHR 0x5C, CHR 0x5C] @ ''.tsx?$'') @ '': 'ts-jest','',
      ''},'',
      ''coverageDirectory: './coverage','',
      ''setupFilesAfterEnv: ['' @ quoted testSetupFilePath @ ''],'',
      (if addSnapshotSerializers
       then ''snapshotSerializers: ['@fluentui/jest-serializer-make-styles'],'' else []),
      ''};'']"

definition storybookMain_template :: string where
  "storybookMain_template = joinLines
     [''const rootMain = require('../../../.storybook/main');'',
      [],
      ''module.exports = /** @type {Pick<import('../../../.storybook/main').StorybookConfig,'addons'|'stories'|'webpackFinal'>} */ ({'',
      ''stories: [...rootMain.stories, '../src/**/*.stories.mdx', '../src/**/*.stories.@(ts|tsx)'],'',
      ''addons: [...rootMain.addons],'',
      ''webpackFinal: (config, options) => {'',
      ''const localConfig = { ...rootMain.webpackFinal(config, options) };'',
      [],
      ''return localConfig;'',
      ''},'',
      ''});'']"

definition storybookPreview_template :: string where
  "storybookPreview_template = joinLines
     [''import * as rootPreview from '../../../.storybook/preview';'',
      [],
      ''/** @type {typeof rootPreview.decorators} */'',
      ''export const decorators = [...rootPreview.decorators];'',
      [],
      ''/** @type {typeof rootPreview.parameters} */'',
      ''export const parameters = { ...rootPreview.parameters };'']"

definition storybookTsconfig_template :: json where
  "storybookTsconfig_template = JObj
     [(''extends'', JStr ''../tsconfig.json''),
      (''compilerOptions'', JObj [(''allowJs'', JBool True), (''checkJs'', JBool True)]),
      (''exclude'', JArr [JStr ''../**/*.test.ts'', JStr ''../**/*.test.js'',
                          JStr ''../**/*.test.tsx'', JStr ''../**/*.test.jsx'']),
      (''include'', JArr [JStr ''../src/**/*'', JStr ''*.js''])]"

definition npmIgnoreConfig :: string where
  "npmIgnoreConfig = joinLines
     [''.cache/'', ''.storybook/'', ''.vscode/'', ''bundle-size/'', ''config/'', ''coverage/'',
      ''e2e/'', ''etc/'', ''node_modules/'', ''src/'', ''temp/'', ''__fixtures__'', ''__mocks__'',
      ''__tests__'', [], ''*.api.json'', ''*.log'', ''*.spec.*'', ''*.stories.*'', ''*.test.*'',
      ''*.yml'', [], ''# config files'', ''*config.*'', ''*rc.*'', ''.editorconfig'', ''.eslint*'',
      ''.git*'', ''.prettierignore'']"

text \<open>The default export appended to a moved story.\<close>

definition storyDefaultExport :: "string \<Rightarrow> string" where
  "storyDefaultExport componentName = joinLines
     [''export default {'',
      ''title: '' @ quoted (''Components/'' @ componentName) @ '','',
      ''component: '' @ componentName @ '','',
      ''}'']"

subsection \<open>Transform steps\<close>

text \<open>
  The manifests and TypeScript configurations are typed (\<^verbatim>\<open>PackageJson\<close>, \<^verbatim>\<open>TsConfig\<close>): a
  property that the code dereferences must hold an object.  Dereferencing \<^verbatim>\<open>undefined\<close> or
  \<^verbatim>\<open>null\<close> is a \<^verbatim>\<open>TypeError\<close>; a value of another JSON type, which these types exclude, is
  reported as a \<^verbatim>\<open>TypeError\<close> as well.
\<close>

definition asObject :: "string \<Rightarrow> json option \<Rightarrow> error + (string \<times> json) list" where
  "asObject what v = (case v of Some (JObj obj) \<Rightarrow> Inr obj | _ \<Rightarrow> Inl (TypeError what))"

text \<open>\<^verbatim>\<open>value ?? {}\<close> for a property typed as an object.\<close>

definition objectOrEmpty :: "string \<Rightarrow> json option \<Rightarrow> error + (string \<times> json) list" where
  "objectOrEmpty what v =
     (case v of
        None \<Rightarrow> Inr []
      | Some JNull \<Rightarrow> Inr []
      | Some (JObj obj) \<Rightarrow> Inr obj
      | Some _ \<Rightarrow> Inl (TypeError what))"

fun strings :: "json list \<Rightarrow> string list option" where
  "strings [] = Some []"
| "strings (JStr s # js) = (case strings js of None \<Rightarrow> None | Some ss \<Rightarrow> Some (s # ss))"
| "strings (_ # js) = None"

text \<open>\<^verbatim>\<open>value ?? []\<close> for a property typed as an array of strings.\<close>

definition stringsOrEmpty :: "string \<Rightarrow> json option \<Rightarrow> error + string list" where
  "stringsOrEmpty what v =
     (case v of
        None \<Rightarrow> Inr []
      | Some JNull \<Rightarrow> Inr []
      | Some (JArr js) \<Rightarrow> (case strings js of None \<Rightarrow> Inl (TypeError what) | Some ss \<Rightarrow> Inr ss)
      | Some _ \<Rightarrow> Inl (TypeError what))"

text \<open>\<^verbatim>\<open>Object.assign(target, source)\<close>.\<close>

definition objectAssign :: "('k \<times> 'v) list \<Rightarrow> ('k \<times> 'v) list \<Rightarrow> ('k \<times> 'v) list" where
  "objectAssign target source = foldl (\<lambda>acc (k, v). AList.update k v acc) target source"

text \<open>Step 1a: \<^verbatim>\<open>updatedLocalTsConfig\<close>.\<close>

definition oldConfigTypes :: "json \<Rightarrow> error + string list" where
  "oldConfigTypes oldConfig =
     (case asObject ''tsconfig'' (Some oldConfig) of
        Inl e \<Rightarrow> Inl e
      | Inr obj \<Rightarrow>
          (case asObject ''compilerOptions'' (map_of obj ''compilerOptions'') of
             Inl e \<Rightarrow> Inl e
           | Inr compilerOptions \<Rightarrow> stringsOrEmpty ''types'' (map_of compilerOptions ''types'')))"

definition updatedLocalTsConfig :: "options \<Rightarrow> state \<Rightarrow> outcome" where
  "updatedLocalTsConfig opts st =
     (case readJson st (tsconfig (optPaths opts)) of
        Inl e \<Rightarrow> Threw e st
      | Inr oldConfig \<Rightarrow>
          (case oldConfigTypes oldConfig of
             Inl e \<Rightarrow> Threw e st
           | Inr oldTypes \<Rightarrow>
               let newConfigTypes = tsconfigTypes st;
                   updatedTypes = uniqueArray (newConfigTypes @ oldTypes)
               in Done (treeWrite (tsconfig (optPaths opts)) (Json (tsconfigTemplate updatedTypes))
                          (st\<lparr>tsconfigTypes := updatedTypes\<rparr>))))"

text \<open>
  Step 1b: \<^verbatim>\<open>updatedBaseTsConfig\<close>.  \<^verbatim>\<open>allProjects.get(pkgName)?.root\<close> is \<^verbatim>\<open>undefined\<close> for a
  package that is no project of the workspace, and the template literal prints it so.
\<close>

definition aliasTarget :: "state \<Rightarrow> string \<Rightarrow> json" where
  "aliasTarget st dep =
     JArr [JStr ((case map_of (projects st) dep of None \<Rightarrow> ''undefined'' | Some cfg \<Rightarrow> root cfg)
                 @ ''/src/index.ts'')]"

definition depsThatNeedToBecomeAliases :: "state \<Rightarrow> (string \<times> json) list \<Rightarrow> (string \<times> json) list" where
  "depsThatNeedToBecomeAliases st dependencies =
     foldl (\<lambda>acc dep. AList.update dep (aliasTarget st dep) acc) []
       (filter (\<lambda>dep. prefix (''@'' @ npmScope st) dep) (map fst dependencies))"

definition addPathAliases :: "options \<Rightarrow> (string \<times> json) list \<Rightarrow> json \<Rightarrow> error + json" where
  "addPathAliases opts aliases j =
     (case asObject ''tsconfig'' (Some j) of
        Inl e \<Rightarrow> Inl e
      | Inr obj \<Rightarrow>
          (case asObject ''compilerOptions'' (map_of obj ''compilerOptions'') of
             Inl e \<Rightarrow> Inl e
           | Inr compilerOptions \<Rightarrow>
               (case objectOrEmpty ''paths'' (map_of compilerOptions ''paths'') of
                  Inl e \<Rightarrow> Inl e
                | Inr oldPaths \<Rightarrow>
                    let ownAlias = JArr [JStr (root (projectConfig opts) @ ''/src/index.ts'')];
                        newPaths = objectAssign (AList.update (pkgName opts) ownAlias oldPaths) aliases
                    in Inr (JObj (AList.update ''compilerOptions''
                                   (JObj (AList.update ''paths'' (JObj newPaths) compilerOptions)) obj)))))"

definition updatedBaseTsConfig :: "options \<Rightarrow> state \<Rightarrow> outcome" where
  "updatedBaseTsConfig opts st =
     (case readJson st (packageJson (optPaths opts)) of
        Inl e \<Rightarrow> Threw e st
      | Inr projectPkgJson \<Rightarrow>
          (case asObject ''package.json'' (Some projectPkgJson) of
             Inl e \<Rightarrow> Threw e st
           | Inr pkg \<Rightarrow>
               (case objectOrEmpty ''dependencies'' (map_of pkg ''dependencies'') of
                  Inl e \<Rightarrow> Threw e st
                | Inr dependencies \<Rightarrow>
                    updateJson (rootTsconfig (optPaths opts))
                      (addPathAliases opts (depsThatNeedToBecomeAliases st dependencies)) st)))"

text \<open>Step 2a: \<^verbatim>\<open>updateLocalJestConfig\<close>.\<close>

definition splitPathFragments :: "string \<Rightarrow> string list" where
  "splitPathFragments filePath = splitOn CHR ''/'' filePath"

definition basename :: "string \<Rightarrow> string" where
  "basename p = last (splitPathFragments p)"

definition updateLocalJestConfig :: "options \<Rightarrow> state \<Rightarrow> outcome" where
  "updateLocalJestConfig opts st =
     (let jestSetupFilePath = joinPathFragments [configRoot (optPaths opts), ''tests.js''];
          packagesThatTriggerAddingSnapshots = [''@'' @ workspaceNpmScope opts @ ''/react-make-styles'']
      in case readJson st (packageJson (optPaths opts)) of
           Inl e \<Rightarrow> Threw e st
         | Inr pkgJson \<Rightarrow>
             (case asObject ''package.json'' (Some pkgJson) of
                Inl e \<Rightarrow> Threw e st
              | Inr pkg \<Rightarrow>
                  (case objectOrEmpty ''dependencies'' (map_of pkg ''dependencies'') of
                     Inl e \<Rightarrow> Threw e st
                   | Inr dependencies \<Rightarrow>
                       let addSnapshotSerializers =
                             (\<exists>pkgDepName \<in> set (map fst dependencies).
                                 pkgDepName \<in> set packagesThatTriggerAddingSnapshots);
                           testSetupFilePath = ''./'' @ basename (configRoot (optPaths opts)) @ ''/tests.js'';
                           st1 = treeWrite (jestConfig (optPaths opts))
                                   (Text (jestTemplate (normalizedPkgName opts) addSnapshotSerializers
                                            testSetupFilePath)) st
                       in if \<not> treeExists st1 jestSetupFilePath
                          then Done (treeWrite jestSetupFilePath (Text jestSetup) st1)
                          else Done st1)))"

text \<open>Step 2b: \<^verbatim>\<open>updateRootJestConfig\<close> calls the imported \<^verbatim>\<open>updateJestConfig\<close>.\<close>

definition updateRootJestConfig :: "env \<Rightarrow> options \<Rightarrow> state \<Rightarrow> outcome" where
  "updateRootJestConfig ev opts st = updateJestConfig ev (pkgName opts) st"

text \<open>Step 3: \<^verbatim>\<open>setupStorybook\<close>.\<close>

definition setupStorybook :: "options \<Rightarrow> state \<Rightarrow> outcome" where
  "setupStorybook opts st =
     Done (treeWrite (storybookPreview (optPaths opts)) (Text storybookPreview_template)
          (treeWrite (storybookMain (optPaths opts)) (Text storybookMain_template)
          (treeWrite (storybookTsconfig (optPaths opts)) (Json storybookTsconfig_template) st)))"

text \<open>Step 4a: \<^verbatim>\<open>moveStorybookFromReactExamples\<close>.\<close>

definition getReactExamplesProjectConfig :: "state \<Rightarrow> options \<Rightarrow> error + project_configuration" where
  "getReactExamplesProjectConfig st opts =
     readProjectConfiguration st (''@'' @ workspaceNpmScope opts @ ''/react-examples'')"

text \<open>\<^verbatim>\<open>fileName.replace(/\.stories\.tsx?$/, '')\<close>.\<close>

definition componentNameOf :: "string \<Rightarrow> string" where
  "componentNameOf fileName =
     (if suffix ''.stories.tsx'' fileName then take (length fileName - 12) fileName
      else if suffix ''.stories.ts'' fileName then take (length fileName - 11) fileName
      else fileName)"

text \<open>\<^verbatim>\<open>tree.read(path)?.toString('utf-8')\<close>.\<close>

definition readText :: "env \<Rightarrow> state \<Rightarrow> string \<Rightarrow> string option" where
  "readText ev st p =
     (case treeRead st p of
        None \<Rightarrow> None
      | Some (Text s) \<Rightarrow> Some s
      | Some (Json j) \<Rightarrow> Some (serializeJson ev j))"

text \<open>
  \<^verbatim>\<open>visitNotIgnoredFiles(tree, dirPath, visitor)\<close> of the Nx devkit walks the tree directory by
  directory: for every child of the directory, in the order of \<^verbatim>\<open>tree.children\<close>, a path that
  the ignore file matches is skipped, a file is visited, a directory is walked.  The
  children of a directory are the first segments of the paths below it, each once, in the
  order in which the tree lists them.

  \<open>visitDir\<close> works on the paths of the files below \<open>dirPath\<close>, relative to it; a child that
  is one of these paths is a file.
\<close>

definition firstSegment :: "string \<Rightarrow> string" where
  "firstSegment p = takeWhile (\<lambda>c. c \<noteq> CHR ''/'') p"

definition childrenOf :: "string list \<Rightarrow> string list" where
  "childrenOf relativePaths = uniqueArray (map firstSegment relativePaths)"

definition below :: "string \<Rightarrow> string list \<Rightarrow> string list" where
  "below dir ps = map (drop (length dir + 1)) (filter (inDir dir) ps)"

definition joinDir :: "string \<Rightarrow> string \<Rightarrow> string" where
  "joinDir dirPath child = (if dirPath = [] then child else dirPath @ ''/'' @ child)"

function visitDir :: "(string \<Rightarrow> bool) \<Rightarrow> string \<Rightarrow> string list \<Rightarrow> string list" where
  "visitDir ignores dirPath [] = []"
| "visitDir ignores dirPath (r # rs) =
     concat (map (\<lambda>child.
         if ignores (joinDir dirPath child) then []
         else if child \<in> set (r # rs) then [joinDir dirPath child]
         else visitDir ignores (joinDir dirPath child) (below child (r # rs)))
       (childrenOf (r # rs)))"
  by pat_completeness auto
termination
proof (relation "measure (\<lambda>(ignores, dirPath, relativePaths). sum_list (map length relativePaths))")
  show "wf (measure (\<lambda>(ignores, dirPath, relativePaths). sum_list (map length relativePaths)))"
    by simp
next
  fix ignores :: "string \<Rightarrow> bool" and dirPath r rs child
  assume c: "child \<in> set (childrenOf (r # rs))" and nf: "child \<notin> set (r # rs)"
  have "set (uniqueArray xs) = set xs" for xs :: "string list"
    by (induction xs rule: uniqueArray.induct) auto
  with c obtain q where q: "q \<in> set (r # rs)" "firstSegment q = child"
    by (auto simp: childrenOf_def)
  have "q = firstSegment q @ dropWhile (\<lambda>c. c \<noteq> CHR ''/'') q"
    by (simp add: firstSegment_def)
  moreover have "dropWhile (\<lambda>c. c \<noteq> CHR ''/'') q \<noteq> []"
    using q nf by (metis append_Nil2 calculation)
  moreover have "hd (dropWhile (\<lambda>c. c \<noteq> CHR ''/'') q) = CHR ''/''"
    using hd_dropWhile [of "\<lambda>c. c \<noteq> CHR ''/''" q] calculation(2) by blast
  ultimately have "\<exists>rest. q = child @ ''/'' @ rest"
    using q(2) by (metis append_Cons append_Nil list.collapse)
  then have below: "inDir child q"
    by (auto simp: inDir_def)
  have le: "sum_list (map length (below child ps)) \<le> sum_list (map length ps)" for ps
    by (induction ps) (auto simp: below_def)
  have "p \<in> set ps \<Longrightarrow> inDir child p \<Longrightarrow>
        sum_list (map length (below child ps)) < sum_list (map length ps)" for p ps
  proof (induction ps)
    case Nil
    then show ?case by simp
  next
    case (Cons a ps)
    show ?case
    proof (cases "inDir child a")
      case True
      then have "length child + 1 \<le> length a"
        using prefix_length_le by (fastforce simp: inDir_def)
      with True le [of ps] show ?thesis by (simp add: below_def)
    next
      case False
      with Cons have "sum_list (map length (below child ps)) < sum_list (map length ps)" by auto
      with False show ?thesis by (simp add: below_def)
    qed
  qed
  from this [OF q(1) below]
  show "((ignores, joinDir dirPath child, below child (r # rs)), (ignores, dirPath, r # rs))
        \<in> measure (\<lambda>(ignores, dirPath, relativePaths). sum_list (map length relativePaths))"
    by simp
qed

text \<open>
  The ignore file is the \<^verbatim>\<open>.gitignore\<close> at the root of the tree, when there is one; the
  directory itself is tested first, unless it is the root.
\<close>

definition visitNotIgnoredFiles :: "env \<Rightarrow> state \<Rightarrow> string \<Rightarrow> string list" where
  "visitNotIgnoredFiles ev st dir =
     (let dirPath = rp dir;
          ignores = (case readText ev st ''.gitignore'' of
                       None \<Rightarrow> (\<lambda>path. False)
                     | Some patterns \<Rightarrow> gitignoreMatches ev patterns)
      in if dirPath \<noteq> [] \<and> ignores dirPath then []
         else visitDir ignores dirPath
                (if dirPath = [] then map fst (files st) else below dirPath (map fst (files st))))"

text \<open>The body of the loop over \<^verbatim>\<open>storyPaths\<close>; an empty text is falsy.\<close>

definition moveStory :: "env \<Rightarrow> options \<Rightarrow> string \<Rightarrow> state \<Rightarrow> outcome" where
  "moveStory ev opts originPath st =
     (let pathSegments = splitPathFragments originPath;
          fileName = last pathSegments;
          componentName = componentNameOf fileName
      in case readText ev st originPath of
           None \<Rightarrow> Threw (StoryMoveError fileName) st
         | Some contents \<Rightarrow>
             if contents \<noteq> [] then
               Done (treeWrite (joinPathFragments [root (projectConfig opts), ''src'', fileName])
                       (Text (replaceFirst (pkgName opts) ''./index'' contents
                              @ ''\<newline>\<newline>'' @ storyDefaultExport componentName)) st)
             else Threw (StoryMoveError fileName) st)"

definition storyPathsOf :: "env \<Rightarrow> state \<Rightarrow> string \<Rightarrow> string list" where
  "storyPathsOf ev st pathToStoriesWithinReactExamples =
     filter (\<lambda>treePath. includesStr treePath ''.stories.'')
       (visitNotIgnoredFiles ev st pathToStoriesWithinReactExamples)"

definition moveStorybookFromReactExamples :: "env \<Rightarrow> options \<Rightarrow> state \<Rightarrow> outcome" where
  "moveStorybookFromReactExamples ev opts st =
     (case getReactExamplesProjectConfig st opts of
        Inl e \<Rightarrow> Threw e st
      | Inr reactExamplesConfig \<Rightarrow>
          let pathToStoriesWithinReactExamples =
                root reactExamplesConfig @ ''/src/'' @ normalizedPkgName opts;
              storyPaths = storyPathsOf ev st pathToStoriesWithinReactExamples
          in if storyPaths = [] then
               Done (st\<lparr>userLog := userLog st @
                 [(LogWarn, ''No package stories found within react-examples. Skipping storybook stories migration...'')]\<rparr>)
             else forEach storyPaths (moveStory ev opts) st)"

text \<open>Step 4b: \<^verbatim>\<open>removeMigratedPackageFromReactExamples\<close>.\<close>

definition removeDependency :: "string \<Rightarrow> json \<Rightarrow> error + json" where
  "removeDependency dep j =
     (case j of
        JNull \<Rightarrow> Inl (TypeError ''package.json'')
      | JObj obj \<Rightarrow>
          (case map_of obj ''dependencies'' of
             Some (JObj dependencies) \<Rightarrow>
               Inr (JObj (AList.update ''dependencies'' (JObj (AList.delete dep dependencies)) obj))
           | _ \<Rightarrow> Inr j)
      | _ \<Rightarrow> Inr j)"

definition removeMigratedPackageFromReactExamples :: "options \<Rightarrow> state \<Rightarrow> outcome" where
  "removeMigratedPackageFromReactExamples opts st =
     (case getReactExamplesProjectConfig st opts of
        Inl e \<Rightarrow> Threw e st
      | Inr reactExamplesConfig \<Rightarrow>
          let packageStoriesWithinReactExamples =
                root reactExamplesConfig @ ''/src/'' @ normalizedPkgName opts;
              examplesPackageJson = root reactExamplesConfig @ ''/package.json''
          in if \<not> treeExists st packageStoriesWithinReactExamples then Done st
             else
               let st1 = treeDelete packageStoriesWithinReactExamples st;
                   st2 = st1\<lparr>userLog := userLog st1 @
                     [(LogWarn, ''NOTE: Deleting '' @ root reactExamplesConfig @ ''/src/''
                                  @ normalizedPkgName opts),
                      (LogWarn, ''      - Please update your moved stories to follow standard storybook format\<newline>'')]\<rparr>
               in updateJson examplesPackageJson (removeDependency (pkgName opts)) st2)"

text \<open>Step 5a: \<^verbatim>\<open>updateNpmScripts\<close>.\<close>

definition buildLocalCommand :: "string \<Rightarrow> string" where
  "buildLocalCommand normalizedName =
     ''tsc -p . --module esnext --emitDeclarationOnly && node ../../scripts/typescript/normalize-import --output dist/''
     @ normalizedName @ ''/src && yarn docs''"

definition rewriteScripts :: "options \<Rightarrow> json \<Rightarrow> error + json" where
  "rewriteScripts opts j =
     (case asObject ''package.json'' (Some j) of
        Inl e \<Rightarrow> Inl e
      | Inr obj \<Rightarrow>
          (case asObject ''scripts'' (map_of obj ''scripts'') of
             Inl e \<Rightarrow> Inl e
           | Inr scripts \<Rightarrow>
               let s1 = AList.delete ''update-snapshots'' scripts;
                   s2 = AList.delete ''start-test'' s1;
                   s3 = AList.delete ''test:watch'' s2;
                   s4 = AList.update ''docs''
                          (JStr ''api-extractor run --config=config/api-extractor.local.json --local'') s3;
                   s5 = AList.update ''build:local'' (JStr (buildLocalCommand (normalizedPkgName opts))) s4;
                   s6 = AList.update ''storybook'' (JStr ''start-storybook'') s5;
                   s7 = AList.update ''start'' (JStr ''yarn storybook'') s6;
                   s8 = AList.update ''test'' (JStr ''jest'') s7
               in Inr (JObj (AList.update ''scripts'' (JObj s8) obj))))"

definition updateNpmScripts :: "options \<Rightarrow> state \<Rightarrow> outcome" where
  "updateNpmScripts opts st = updateJson (packageJson (optPaths opts)) (rewriteScripts opts) st"

text \<open>Step 5b: \<^verbatim>\<open>updateApiExtractorForLocalBuilds\<close>, then \<^verbatim>\<open>setupNpmConfig\<close>.\<close>

definition updateApiExtractorForLocalBuilds :: "options \<Rightarrow> state \<Rightarrow> outcome" where
  "updateApiExtractorForLocalBuilds opts st =
     Done (treeWrite (joinPathFragments [configRoot (optPaths opts), ''api-extractor.json''])
             (Json apiExtractor)
          (treeWrite (joinPathFragments [configRoot (optPaths opts), ''api-extractor.local.json''])
             (Json apiExtractorLocal) st))"

definition setupNpmConfig :: "options \<Rightarrow> state \<Rightarrow> outcome" where
  "setupNpmConfig opts st = Done (treeWrite (npmConfig (optPaths opts)) (Text npmIgnoreConfig) st)"

text \<open>
  \<^verbatim>\<open>updateNxWorkspace\<close>; \<^verbatim>\<open>updateProjectConfiguration\<close> throws for a project that the
  workspace does not have.
\<close>

definition updateProjectConfiguration :: "string \<Rightarrow> project_configuration \<Rightarrow> state \<Rightarrow> outcome" where
  "updateProjectConfiguration nm cfg st =
     (if map_of (projects st) nm = None then Threw (ProjectNotFound nm) st
      else Done (st\<lparr>projects := AList.update nm cfg (projects st)\<rparr>))"

definition updateNxWorkspace :: "options \<Rightarrow> state \<Rightarrow> outcome" where
  "updateNxWorkspace opts st =
     updateProjectConfiguration (pkgName opts)
       ((projectConfig opts)
          \<lparr> sourceRoot := Some (joinPathFragments [root (projectConfig opts), ''src'']),
            tags := Some (uniqueArray
                      ((case tags (projectConfig opts) of None \<Rightarrow> [] | Some ts \<Rightarrow> ts)
                       @ [''vNext'', ''platform:web''])) \<rparr>) st"

subsection \<open>Running the migration\<close>

definition runMigrationOnProject :: "env \<Rightarrow> string \<Rightarrow> state \<Rightarrow> outcome" where
  "runMigrationOnProject ev nm st =
     (case normalizeOptions st nm of
        Inl e \<Rightarrow> Threw e st
      | Inr opts \<Rightarrow>
          runSteps
            [updatedLocalTsConfig opts,
             updatedBaseTsConfig opts,
             updateLocalJestConfig opts,
             updateRootJestConfig ev opts,
             setupStorybook opts,
             moveStorybookFromReactExamples ev opts,
             removeMigratedPackageFromReactExamples opts,
             updateNpmScripts opts,
             updateApiExtractorForLocalBuilds opts,
             setupNpmConfig opts,
             updateNxWorkspace opts] st)"

text \<open>
  The callback of \<^verbatim>\<open>runBatchMigration\<close>, applied by \<^verbatim>\<open>projects.forEach\<close> to every entry of
  the map that \<^verbatim>\<open>getProjects\<close> returned.
\<close>

definition migrateOrSkip :: "env \<Rightarrow> string \<times> project_configuration \<Rightarrow> state \<Rightarrow> outcome" where
  "migrateOrSkip ev entry st =
     (case entry of (projectName, project) \<Rightarrow>
        (case isPackageConverged st project of
           Inl e \<Rightarrow> Threw e st
         | Inr converged \<Rightarrow>
             if \<not> converged then
               Done (st\<lparr>userLog := userLog st @
                 [(LogError, projectName @ '' is not converged package. Skipping migration...'')]\<rparr>)
             else runMigrationOnProject ev projectName st))"

definition runBatchMigration :: "env \<Rightarrow> state \<Rightarrow> outcome" where
  "runBatchMigration ev st = forEach (projects st) (migrateOrSkip ev) st"

subsection \<open>Statistics\<close>

record migration_stats =
  migrated :: "(string \<times> project_configuration) list"
  notMigrated :: "(string \<times> project_configuration) list"

text \<open>The loop \<^verbatim>\<open>allProjects.forEach\<close> of \<^verbatim>\<open>printStats\<close>.\<close>

fun collectStats ::
  "state \<Rightarrow> (string \<times> project_configuration) list \<Rightarrow> migration_stats \<Rightarrow> error + migration_stats" where
  "collectStats st [] acc = Inr acc"
| "collectStats st ((projectName, project) # rest) acc =
     (case isPackageConverged st project of
        Inl e \<Rightarrow> Inl e
      | Inr converged \<Rightarrow>
          if \<not> converged then collectStats st rest acc
          else if isProjectMigrated project
            then collectStats st rest (acc\<lparr>migrated := migrated acc @ [(projectName, project)]\<rparr>)
          else collectStats st rest (acc\<lparr>notMigrated := notMigrated acc @ [(projectName, project)]\<rparr>))"

text \<open>A number inside a template literal: its decimal digits.\<close>

fun showNat :: "nat \<Rightarrow> string" where
  "showNat n =
     (if n < 10 then [char_of (48 + n)] else showNat (n div 10) @ [char_of (48 + n mod 10)])"

definition statsReport :: "migration_stats \<Rightarrow> (severity \<times> string) list" where
  "statsReport s =
     [(LogInfo, ''Convergence DX migration stats:''),
      (LogInfo, replicate 80 CHR ''=''),
      (LogInfo, ''Migrated ('' @ showNat (length (migrated s)) @ ''):''),
      (LogInfo, joinLines (map (\<lambda>projectStat. ''- '' @ fst projectStat) (migrated s))),
      (LogInfo, replicate 80 CHR ''=''),
      (LogInfo, ''Not migrated ('' @ showNat (length (notMigrated s)) @ ''):''),
      (LogInfo, joinLines (map (\<lambda>projectStat. ''- '' @ fst projectStat) (notMigrated s)))]"

definition printStats :: "state \<Rightarrow> outcome" where
  "printStats st =
     (case collectStats st (projects st) \<lparr>migrated = [], notMigrated = []\<rparr> of
        Inl e \<Rightarrow> Threw e st
      | Inr s \<Rightarrow> Done (st\<lparr>logger := logger st @ statsReport s\<rparr>))"

subsection \<open>The generator\<close>

text \<open>
  The default export.  The user log starts empty; it is printed by the callback that the
  generator returns, \<^verbatim>\<open>printUserLogs\<close>.
\<close>

definition printUserLogs :: "state \<Rightarrow> state" where
  "printUserLogs st =
     st\<lparr>logger := logger st @ [(LogInfo, replicate 80 CHR ''='' @ ''\<newline>'')] @ userLog st
                     @ [(LogInfo, replicate 80 CHR ''='' @ ''\<newline>'')]\<rparr>"

definition generator :: "env \<Rightarrow> schema \<Rightarrow> state \<Rightarrow> outcome" where
  "generator ev sch st =
     (case validateSchema ev st sch of
        Inl e \<Rightarrow> Threw e st
      | Inr validatedSchema \<Rightarrow>
          if truthyFlag (stats validatedSchema) then printStats st
          else
            runSteps
              [\<lambda>s. if truthyFlag (all validatedSchema) then runBatchMigration ev s else Done s,
               \<lambda>s. (case name validatedSchema of
                       Some nm \<Rightarrow> if nm \<noteq> [] then runMigrationOnProject ev nm s else Done s
                     | None \<Rightarrow> Done s),
               \<lambda>s. Done (formatFiles ev s)]
              (st\<lparr>userLog := []\<rparr>))"

section \<open>Example workspaces and auxiliary notions\<close>

text \<open>
  A matcher for the ignore files of the examples, which hold plain patterns only (no
  wildcard, no negation, no trailing slash): a pattern with a slash is a path from the
  root and matches that path and the paths below it; a pattern without one matches every
  path that has it as a segment.  Empty lines and comments match nothing.
\<close>

definition ignoresPlainPatterns :: "string \<Rightarrow> string \<Rightarrow> bool" where
  "ignoresPlainPatterns patterns path =
     (\<exists>line \<in> set (splitOn CHR ''\<newline>'' patterns).
        line \<noteq> [] \<and> hd line \<noteq> CHR ''#'' \<and>
        (if CHR ''/'' \<in> set line then path = rp line \<or> inDir (rp line) path
         else line \<in> set (splitOn CHR ''/'' path)))"

text \<open>
  An environment without prompts, in which \<^verbatim>\<open>updateJestConfig\<close> finds nothing to change.
\<close>

definition exampleEnv :: env where
  "exampleEnv =
     \<lparr> arePromptsEnabled = False, promptAnswer = [],
       updateJestConfig = (\<lambda>project st. Done st),
       serializeJson = (\<lambda>j. ''{}''),
       formatFiles = (\<lambda>st. st),
       gitignoreMatches = ignoresPlainPatterns \<rparr>"

text \<open>The two manifests of the repository: one on version 9, one on version 8.\<close>

definition popoverWorkspace :: state where
  "popoverWorkspace =
     \<lparr> files =
         [(''packages/react-popover/package.json'',
             Json (JObj [(''name'', JStr ''@fluentui/react-popover''),
                         (''version'', JStr ''9.0.0-alpha.30'')])),
          (''packages/react-experiments/package.json'',
             Json (JObj [(''name'', JStr ''@fluentui/react-experiments''),
                         (''version'', JStr ''8.2.7'')]))],
       projects =
         [(''@fluentui/react-popover'',
             \<lparr>root = ''packages/react-popover'', sourceRoot = None, tags = None\<rparr>),
          (''@fluentui/react-experiments'',
             \<lparr>root = ''packages/react-experiments'', sourceRoot = None, tags = None\<rparr>)],
       npmScope = ''fluentui'', userLog = [], logger = [],
       tsconfigTypes = initialTsconfigTypes \<rparr>"

text \<open>Requests used as examples.\<close>

definition conflictingSchema :: schema where
  "conflictingSchema = \<lparr>name = Some ''@fluentui/react-popover'', all = None, stats = Some True\<rparr>"

text \<open>
  The part of \<^verbatim>\<open>validateSchema\<close> that follows the three checks of exclusive flags and the
  prompt, as a function of the schema reached there.
\<close>

definition validateName :: "state \<Rightarrow> schema \<Rightarrow> error + schema" where
  "validateName st newSchema =
     (if shouldValidateNameInput newSchema then Inl MissingName
      else
        (case name newSchema of
           Some nm \<Rightarrow>
             if nm \<noteq> [] then
               (case readProjectConfiguration st nm of
                  Inl e \<Rightarrow> Inl e
                | Inr cfg \<Rightarrow>
                    (case isPackageConverged st cfg of
                       Inl e \<Rightarrow> Inl e
                     | Inr converged \<Rightarrow>
                         if converged then Inr newSchema else Inl (NotConverged nm)))
             else Inr newSchema
         | None \<Rightarrow> Inr newSchema))"

text \<open>The name that validation looks up: the one given, or the one the prompt answered.\<close>

definition resolvedName :: "env \<Rightarrow> schema \<Rightarrow> string option" where
  "resolvedName ev sch =
     (if truthyStr (name sch) then name sch
      else if arePromptsEnabled ev \<and> \<not> truthyFlag (all sch) \<and> \<not> truthyFlag (stats sch)
             \<and> promptAnswer ev \<noteq> []
        then Some (promptAnswer ev)
      else None)"

definition statsSchema :: schema where
  "statsSchema = \<lparr>name = None, all = None, stats = Some True\<rparr>"

text \<open>
  Three converged projects, two of them migrated, and one project on version 8.
\<close>

definition statsWorkspace :: state where
  "statsWorkspace =
     \<lparr> files =
         [(''packages/a/package.json'', Json (JObj [(''version'', JStr ''9.0.0-alpha.1'')])),
          (''packages/b/package.json'', Json (JObj [(''version'', JStr ''9.0.0'')])),
          (''packages/c/package.json'', Json (JObj [(''version'', JStr ''9.1.2'')])),
          (''packages/d/package.json'', Json (JObj [(''version'', JStr ''8.2.7'')]))],
       projects =
         [(''@scope/a'', \<lparr>root = ''packages/a'', sourceRoot = Some ''packages/a/src'',
                          tags = Some [''vNext'', ''platform:web'']\<rparr>),
          (''@scope/c'', \<lparr>root = ''packages/c'', sourceRoot = None, tags = Some [''vNext'']\<rparr>),
          (''@scope/d'', \<lparr>root = ''packages/d'', sourceRoot = Some ''packages/d/src'',
                          tags = Some [''vNext'']\<rparr>),
          (''@scope/b'', \<lparr>root = ''packages/b'', sourceRoot = Some ''packages/b/src'',
                          tags = Some [''vNext'']\<rparr>)],
       npmScope = ''scope'', userLog = [], logger = [],
       tsconfigTypes = initialTsconfigTypes \<rparr>"

definition emptySchema :: schema where
  "emptySchema = \<lparr>name = None, all = None, stats = None\<rparr>"

definition experimentsSchema :: schema where
  "experimentsSchema = \<lparr>name = Some ''@fluentui/react-experiments'', all = None, stats = None\<rparr>"

text \<open>
  A workspace with the packages \<^verbatim>\<open>@scope/x\<close> (version 8) and \<^verbatim>\<open>@scope/y\<close> (version 9, depending
  on \<^verbatim>\<open>@scope/x\<close>), and the examples project holding one story of \<^verbatim>\<open>@scope/y\<close>.
\<close>

definition yManifest :: "(string \<times> json) list" where
  "yManifest =
     [(''name'', JStr ''@scope/y''),
      (''version'', JStr ''9.0.0''),
      (''scripts'', JObj [(''update-snapshots'', JStr ''just-scripts jest -u''),
                          (''start-test'', JStr ''just-scripts jest-watch''),
                          (''test:watch'', JStr ''just-scripts jest-watch''),
                          (''other'', JStr ''just-scripts other'')]),
      (''dependencies'', JObj [(''@scope/x'', JStr ''^8.2.7''), (''tslib'', JStr ''^2.1.0'')])]"

definition migrationWorkspace :: state where
  "migrationWorkspace =
     \<lparr> files =
         [(''tsconfig.base.json'',
             Json (JObj [(''compilerOptions'', JObj
               [(''paths'', JObj [(''@scope/z'', JArr [JStr ''packages/z/src/index.ts''])])])])),
          (''packages/x/package.json'', Json (JObj [(''version'', JStr ''8.2.7'')])),
          (''packages/y/package.json'', Json (JObj yManifest)),
          (''packages/y/tsconfig.json'',
             Json (JObj [(''compilerOptions'', JObj [(''types'', JArr [JStr ''jest'', JStr ''node''])])])),
          (''packages/react-examples/package.json'',
             Json (JObj [(''version'', JStr ''8.0.0''),
                         (''dependencies'', JObj [(''@scope/y'', JStr ''^9.0.0''),
                                                  (''react'', JStr ''16.8.6'')])])),
          (''packages/react-examples/src/y/Button.stories.tsx'',
             Text ''import { Button } from '@scope/y';'')],
       projects =
         [(''@scope/x'', \<lparr>root = ''packages/x'', sourceRoot = None, tags = None\<rparr>),
          (''@scope/y'', \<lparr>root = ''packages/y'', sourceRoot = None, tags = None\<rparr>),
          (''@scope/react-examples'',
             \<lparr>root = ''packages/react-examples'', sourceRoot = None, tags = None\<rparr>)],
       npmScope = ''scope'', userLog = [], logger = [],
       tsconfigTypes = initialTsconfigTypes \<rparr>"


text \<open>The options that \<^verbatim>\<open>normalizeOptions\<close> computes for \<^verbatim>\<open>@scope/y\<close>.\<close>

definition yOptions :: options where
  "yOptions =
     \<lparr> pkgName = ''@scope/y'',
       projectConfig = \<lparr>root = ''packages/y'', sourceRoot = None, tags = None\<rparr>,
       workspaceNpmScope = ''scope'',
       normalizedPkgName = ''y'',
       optPaths =
         \<lparr> configRoot = ''packages/y/config'',
           packageJson = ''packages/y/package.json'',
           tsconfig = ''packages/y/tsconfig.json'',
           jestConfig = ''packages/y/jest.config.js'',
           rootTsconfig = ''/tsconfig.base.json'',
           rootJestPreset = ''/jest.preset.js'',
           rootJestConfig = ''/jest.config.js'',
           npmConfig = ''packages/y/.npmignore'',
           storybookTsconfig = ''packages/y/.storybook/tsconfig.json'',
           storybookMain = ''packages/y/.storybook/main.js'',
           storybookPreview = ''packages/y/.storybook/preview.js'' \<rparr> \<rparr>"

text \<open>The path a story is written to, and the text written there.\<close>

definition storyDestination :: "options \<Rightarrow> string \<Rightarrow> string" where
  "storyDestination opts originPath =
     joinPathFragments [root (projectConfig opts), ''src'', last (splitPathFragments originPath)]"

definition movedStoryText :: "options \<Rightarrow> string \<Rightarrow> string \<Rightarrow> string" where
  "movedStoryText opts originPath contents =
     replaceFirst (pkgName opts) ''./index'' contents @ ''\<newline>\<newline>''
     @ storyDefaultExport (componentNameOf (last (splitPathFragments originPath)))"

text \<open>
  The examples project holds three stories of \<^verbatim>\<open>@scope/y\<close> in two directories, two of them
  named \<^verbatim>\<open>Button.stories.tsx\<close>, and one more in a directory that the ignore file lists.
\<close>

definition nestedStoriesWorkspace :: state where
  "nestedStoriesWorkspace =
     \<lparr> files =
         [(''.gitignore'', Text (joinLines [''# not published'', ''node_modules'', ''/packages/react-examples/src/y/drafts''])),
          (''packages/react-examples/src/y/a/One.stories.tsx'', Text ''export const One = 1;''),
          (''packages/react-examples/src/y/b/Button.stories.tsx'', Text ''export const B = 2;''),
          (''packages/react-examples/src/y/a/Button.stories.tsx'', Text ''export const A = 3;''),
          (''packages/react-examples/src/y/drafts/Draft.stories.tsx'', Text ''export const Draft = 4;'')],
       projects =
         [(''@scope/y'', \<lparr>root = ''packages/y'', sourceRoot = None, tags = None\<rparr>),
          (''@scope/react-examples'',
             \<lparr>root = ''packages/react-examples'', sourceRoot = None, tags = None\<rparr>)],
       npmScope = ''scope'', userLog = [], logger = [],
       tsconfigTypes = initialTsconfigTypes \<rparr>"

text \<open>The same workspace after the first story has been moved, after two, and after all.\<close>

definition nestedStoriesOne :: state where
  "nestedStoriesOne =
     nestedStoriesWorkspace\<lparr>files := files nestedStoriesWorkspace @
       [(''packages/y/src/One.stories.tsx'',
         Text (''export const One = 1;'' @ ''\<newline>\<newline>'' @ storyDefaultExport ''One''))]\<rparr>"

definition nestedStoriesMid :: state where
  "nestedStoriesMid =
     nestedStoriesWorkspace\<lparr>files := files nestedStoriesWorkspace @
       [(''packages/y/src/One.stories.tsx'',
         Text (''export const One = 1;'' @ ''\<newline>\<newline>'' @ storyDefaultExport ''One'')),
        (''packages/y/src/Button.stories.tsx'',
         Text (''export const A = 3;'' @ ''\<newline>\<newline>'' @ storyDefaultExport ''Button''))]\<rparr>"

definition nestedStoriesMoved :: state where
  "nestedStoriesMoved =
     nestedStoriesWorkspace\<lparr>files := files nestedStoriesWorkspace @
       [(''packages/y/src/One.stories.tsx'',
         Text (''export const One = 1;'' @ ''\<newline>\<newline>'' @ storyDefaultExport ''One'')),
        (''packages/y/src/Button.stories.tsx'',
         Text (''export const B = 2;'' @ ''\<newline>\<newline>'' @ storyDefaultExport ''Button''))]\<rparr>"

text \<open>A story of \<^verbatim>\<open>@scope/y\<close> that imports from the package twice.\<close>

definition twoImportsWorkspace :: state where
  "twoImportsWorkspace =
     \<lparr> files =
         [(''packages/react-examples/src/y/Button.stories.tsx'',
           Text (joinLines [''import { Button } from '@scope/y';'',
                            ''import { ButtonProps } from '@scope/y';'']))],
       projects =
         [(''@scope/y'', \<lparr>root = ''packages/y'', sourceRoot = None, tags = None\<rparr>),
          (''@scope/react-examples'',
             \<lparr>root = ''packages/react-examples'', sourceRoot = None, tags = None\<rparr>)],
       npmScope = ''scope'', userLog = [], logger = [],
       tsconfigTypes = initialTsconfigTypes \<rparr>"

text \<open>The workspace of \<^verbatim>\<open>@scope/y\<close> after its migration.\<close>

definition yMigrated :: state where
  "yMigrated =
     \<lparr> files =
         [(''tsconfig.base.json'',
             Json (JObj [(''compilerOptions'', JObj
               [(''paths'', JObj [(''@scope/z'', JArr [JStr ''packages/z/src/index.ts'']),
                                  (''@scope/y'', JArr [JStr ''packages/y/src/index.ts'']),
                                  (''@scope/x'', JArr [JStr ''packages/x/src/index.ts''])])])])),
          (''packages/x/package.json'', Json (JObj [(''version'', JStr ''8.2.7'')])),
          (''packages/y/package.json'',
             Json (JObj
               [(''name'', JStr ''@scope/y''),
                (''version'', JStr ''9.0.0''),
                (''scripts'', JObj
                   [(''other'', JStr ''just-scripts other''),
                    (''docs'', JStr ''api-extractor run --config=config/api-extractor.local.json --local''),
                    (''build:local'', JStr (buildLocalCommand ''y'')),
                    (''storybook'', JStr ''start-storybook''),
                    (''start'', JStr ''yarn storybook''),
                    (''test'', JStr ''jest'')]),
                (''dependencies'', JObj [(''@scope/x'', JStr ''^8.2.7''), (''tslib'', JStr ''^2.1.0'')])])),
          (''packages/y/tsconfig.json'',
             Json (tsconfigTemplate [''jest'', ''custom-global'', ''inline-style-expand-shorthand'',
                                     ''storybook__addons'', ''node''])),
          (''packages/react-examples/package.json'',
             Json (JObj [(''version'', JStr ''8.0.0''),
                         (''dependencies'', JObj [(''react'', JStr ''16.8.6'')])])),
          (''packages/y/jest.config.js'', Text (jestTemplate ''y'' False ''./config/tests.js'')),
          (''packages/y/config/tests.js'', Text jestSetup),
          (''packages/y/.storybook/tsconfig.json'', Json storybookTsconfig_template),
          (''packages/y/.storybook/main.js'', Text storybookMain_template),
          (''packages/y/.storybook/preview.js'', Text storybookPreview_template),
          (''packages/y/src/Button.stories.tsx'',
             Text (''import { Button } from './index';'' @ ''\<newline>\<newline>''
                   @ storyDefaultExport ''Button'')),
          (''packages/y/config/api-extractor.local.json'', Json apiExtractorLocal),
          (''packages/y/config/api-extractor.json'', Json apiExtractor),
          (''packages/y/.npmignore'', Text npmIgnoreConfig)],
       projects =
         [(''@scope/x'', \<lparr>root = ''packages/x'', sourceRoot = None, tags = None\<rparr>),
          (''@scope/y'', \<lparr>root = ''packages/y'', sourceRoot = Some ''packages/y/src'',
                          tags = Some [''vNext'', ''platform:web'']\<rparr>),
          (''@scope/react-examples'',
             \<lparr>root = ''packages/react-examples'', sourceRoot = None, tags = None\<rparr>)],
       npmScope = ''scope'',
       userLog =
         [(LogWarn, ''NOTE: Deleting packages/react-examples/src/y''),
          (LogWarn, ''      - Please update your moved stories to follow standard storybook format\<newline>'')],
       logger = [],
       tsconfigTypes = [''jest'', ''custom-global'', ''inline-style-expand-shorthand'',
                        ''storybook__addons'', ''node''] \<rparr>"

text \<open>A workspace whose only project is on version 8.\<close>

definition experimentsWorkspace :: state where
  "experimentsWorkspace =
     \<lparr> files =
         [(''packages/react-experiments/package.json'',
             Json (JObj [(''name'', JStr ''@fluentui/react-experiments''),
                         (''version'', JStr ''8.2.7'')]))],
       projects =
         [(''@fluentui/react-experiments'',
             \<lparr>root = ''packages/react-experiments'', sourceRoot = None, tags = None\<rparr>)],
       npmScope = ''fluentui'', userLog = [], logger = [],
       tsconfigTypes = initialTsconfigTypes \<rparr>"

text \<open>The entry that \<^verbatim>\<open>runBatchMigration\<close> logs for a project it skips.\<close>

definition skipEntry :: "string \<Rightarrow> severity \<times> string" where
  "skipEntry projectName =
     (LogError, projectName @ '' is not converged package. Skipping migration...'')"

text \<open>
  The directory of the package's stories in the examples project, and the manifest of the
  examples project, as \<^verbatim>\<open>removeMigratedPackageFromReactExamples\<close> names them.
\<close>

definition storiesDirectory :: "project_configuration \<Rightarrow> options \<Rightarrow> string" where
  "storiesDirectory reactExamplesConfig opts =
     root reactExamplesConfig @ ''/src/'' @ normalizedPkgName opts"

definition examplesManifest :: "project_configuration \<Rightarrow> string" where
  "examplesManifest reactExamplesConfig = root reactExamplesConfig @ ''/package.json''"

text \<open>The files that the steps read and write for one project, the moved stories apart.\<close>

definition maintainedFiles :: "options \<Rightarrow> project_configuration \<Rightarrow> string list" where
  "maintainedFiles opts reactExamplesConfig =
     [tsconfig (optPaths opts),
      rootTsconfig (optPaths opts),
      packageJson (optPaths opts),
      jestConfig (optPaths opts),
      joinPathFragments [configRoot (optPaths opts), ''tests.js''],
      rootJestConfig (optPaths opts),
      storybookTsconfig (optPaths opts),
      storybookMain (optPaths opts),
      storybookPreview (optPaths opts),
      examplesManifest reactExamplesConfig,
      joinPathFragments [configRoot (optPaths opts), ''api-extractor.local.json''],
      joinPathFragments [configRoot (optPaths opts), ''api-extractor.json''],
      npmConfig (optPaths opts)]"

text \<open>Neither path is the other or lies below it.\<close>

definition unrelated :: "string \<Rightarrow> string \<Rightarrow> bool" where
  "unrelated d p = (rp p \<noteq> rp d \<and> \<not> inDir (rp d) (rp p) \<and> \<not> inDir (rp p) (rp d))"

text \<open>
  A layout in which the maintained files are different files, none of them is related to
  the stories directory that is deleted, and no story is moved onto one of them.
\<close>

definition separateLayout :: "options \<Rightarrow> project_configuration \<Rightarrow> bool" where
  "separateLayout opts reactExamplesConfig =
     (distinct (map rp (maintainedFiles opts reactExamplesConfig))
      \<and> (\<forall>p \<in> set (maintainedFiles opts reactExamplesConfig).
            unrelated (storiesDirectory reactExamplesConfig opts) p)
      \<and> (\<forall>fileName. rp (joinPathFragments [root (projectConfig opts), ''src'', fileName])
            \<notin> set (map rp (maintainedFiles opts reactExamplesConfig))))"

text \<open>
  Modelled from the spec: \<^verbatim>\<open>updateJestConfig\<close> of \<^verbatim>\<open>tools/utils\<close>, which \<^verbatim>\<open>updateRootJestConfig\<close> calls
  and whose code is not among the sources.  The spec has every step share nothing but the
  tree and be safe to re-invoke; the step is the one for the root Jest configuration,
  \<^verbatim>\<open>/jest.config.js\<close>.  So: a call that returns has at most written that file; and once a call
  has returned, a call in a state with the same root Jest configuration and the same root
  of the project changes nothing.
\<close>

definition rootJestConfigUpdater :: "env \<Rightarrow> string \<Rightarrow> bool" where
  "rootJestConfigUpdater ev project =
     ((\<forall>st st'. updateJestConfig ev project st = Done st'
          \<longrightarrow> st' = st \<or> (\<exists>c. st' = treeWrite ''/jest.config.js'' c st))
      \<and> (\<forall>st st' st''.
            updateJestConfig ev project st = Done st'
            \<and> treeRead st'' ''/jest.config.js'' = treeRead st' ''/jest.config.js''
            \<and> map_option root (map_of (projects st'') project)
                = map_option root (map_of (projects st) project)
          \<longrightarrow> updateJestConfig ev project st'' = Done st''))"

text \<open>The test for the snapshot serializer in \<^verbatim>\<open>updateLocalJestConfig\<close>.\<close>

definition needsSnapshotSerializers :: "options \<Rightarrow> (string \<times> json) list \<Rightarrow> bool" where
  "needsSnapshotSerializers opts dependencies =
     (\<exists>pkgDepName \<in> set (map fst dependencies).
        pkgDepName \<in> set [''@'' @ workspaceNpmScope opts @ ''/react-make-styles''])"

text \<open>
  A state reached from another one by writing files whose paths satisfy \<open>P\<close>, and by
  logging.
\<close>

definition applyWrites :: "(string \<times> content) list \<Rightarrow> state \<Rightarrow> state" where
  "applyWrites ws s = foldl (\<lambda>s (p, c). treeWrite p c s) s ws"

definition writesWithin :: "(string \<Rightarrow> bool) \<Rightarrow> state \<Rightarrow> state \<Rightarrow> bool" where
  "writesWithin P s s' =
     (\<exists>ws l. s' = (applyWrites ws s)\<lparr>userLog := l\<rparr> \<and> (\<forall>(p, c) \<in> set ws. P p))"

text \<open>
  What a state looks like for a project once its migration has run: every maintained file
  holds what its step writes, the stories directory is gone.
\<close>

definition settled :: "env \<Rightarrow> options \<Rightarrow> project_configuration \<Rightarrow> state \<Rightarrow> bool" where
  "settled ev opts reactExamplesConfig s =
     ((\<exists>types. treeRead s (tsconfig (optPaths opts)) = Some (Json (tsconfigTemplate (uniqueArray types)))
          \<and> tsconfigTypes s = uniqueArray types)
      \<and> (\<exists>pkg dependencies base.
            treeRead s (packageJson (optPaths opts)) = Some (Json (JObj pkg))
          \<and> rewriteScripts opts (JObj pkg) = Inr (JObj pkg)
          \<and> objectOrEmpty ''dependencies'' (map_of pkg ''dependencies'') = Inr dependencies
          \<and> treeRead s (rootTsconfig (optPaths opts)) = Some (Json base)
          \<and> addPathAliases opts (depsThatNeedToBecomeAliases s dependencies) base = Inr base
          \<and> treeRead s (jestConfig (optPaths opts)) =
               Some (Text (jestTemplate (normalizedPkgName opts)
                             (needsSnapshotSerializers opts dependencies)
                             (''./'' @ basename (configRoot (optPaths opts)) @ ''/tests.js''))))
      \<and> treeExists s (joinPathFragments [configRoot (optPaths opts), ''tests.js''])
      \<and> (\<exists>sa sb. updateJestConfig ev (pkgName opts) sa = Done sb
            \<and> treeRead s ''/jest.config.js'' = treeRead sb ''/jest.config.js''
            \<and> map_option root (map_of (projects s) (pkgName opts))
                = map_option root (map_of (projects sa) (pkgName opts)))
      \<and> treeRead s (storybookTsconfig (optPaths opts)) = Some (Json storybookTsconfig_template)
      \<and> treeRead s (storybookMain (optPaths opts)) = Some (Text storybookMain_template)
      \<and> treeRead s (storybookPreview (optPaths opts)) = Some (Text storybookPreview_template)
      \<and> (\<exists>ex2. readProjectConfiguration s (''@'' @ workspaceNpmScope opts @ ''/react-examples'') = Inr ex2
            \<and> root ex2 = root reactExamplesConfig)
      \<and> \<not> treeExists s (storiesDirectory reactExamplesConfig opts)
      \<and> treeRead s (joinPathFragments [configRoot (optPaths opts), ''api-extractor.local.json'']) =
           Some (Json apiExtractorLocal)
      \<and> treeRead s (joinPathFragments [configRoot (optPaths opts), ''api-extractor.json'']) =
           Some (Json apiExtractor)
      \<and> treeRead s (npmConfig (optPaths opts)) = Some (Text npmIgnoreConfig))"

text \<open>The record that \<^verbatim>\<open>updateNxWorkspace\<close> stores for the project.\<close>

definition migratedConfig :: "project_configuration \<Rightarrow> project_configuration" where
  "migratedConfig cfg =
     cfg\<lparr> sourceRoot := Some (joinPathFragments [root cfg, ''src'']),
          tags := Some (uniqueArray ((case tags cfg of None \<Rightarrow> [] | Some ts \<Rightarrow> ts)
                                     @ [''vNext'', ''platform:web''])) \<rparr>"

text \<open>
  A workspace in which the package \<^verbatim>\<open>@scope/config\<close> lives in the source directory of the
  examples project, so that its stories directory is its own \<^verbatim>\<open>config\<close> directory, and the
  path of the examples project contains \<^verbatim>\<open>.stories.\<close>.
\<close>

definition overlappingWorkspace :: state where
  "overlappingWorkspace =
     \<lparr> files =
         [(''tsconfig.base.json'', Json (JObj [(''compilerOptions'', JObj [])])),
          (''apps/ui.stories.examples/package.json'',
             Json (JObj [(''version'', JStr ''8.0.0'')])),
          (''apps/ui.stories.examples/src/package.json'',
             Json (JObj [(''version'', JStr ''9.0.0''), (''scripts'', JObj [])])),
          (''apps/ui.stories.examples/src/tsconfig.json'',
             Json (JObj [(''compilerOptions'', JObj [])]))],
       projects =
         [(''@scope/config'',
             \<lparr>root = ''apps/ui.stories.examples/src'', sourceRoot = None, tags = None\<rparr>),
          (''@scope/react-examples'',
             \<lparr>root = ''apps/ui.stories.examples'', sourceRoot = None, tags = None\<rparr>)],
       npmScope = ''scope'', userLog = [], logger = [],
       tsconfigTypes = initialTsconfigTypes \<rparr>"

text \<open>The same workspace after one migration of that package, and after two.\<close>

definition overlappingMigrated :: state where
  "overlappingMigrated =
     \<lparr> files =
         [(''tsconfig.base.json'',
             Json (JObj [(''compilerOptions'', JObj
               [(''paths'', JObj [(''@scope/config'',
                                   JArr [JStr ''apps/ui.stories.examples/src/src/index.ts''])])])])),
          (''apps/ui.stories.examples/package.json'', Json (JObj [(''version'', JStr ''8.0.0'')])),
          (''apps/ui.stories.examples/src/package.json'',
             Json (JObj
               [(''version'', JStr ''9.0.0''),
                (''scripts'', JObj
                   [(''docs'', JStr ''api-extractor run --config=config/api-extractor.local.json --local''),
                    (''build:local'', JStr (buildLocalCommand ''config'')),
                    (''storybook'', JStr ''start-storybook''),
                    (''start'', JStr ''yarn storybook''),
                    (''test'', JStr ''jest'')])])),
          (''apps/ui.stories.examples/src/tsconfig.json'', Json (tsconfigTemplate initialTsconfigTypes)),
          (''apps/ui.stories.examples/src/jest.config.js'',
             Text (jestTemplate ''config'' False ''./config/tests.js'')),
          (''apps/ui.stories.examples/src/.storybook/tsconfig.json'', Json storybookTsconfig_template),
          (''apps/ui.stories.examples/src/.storybook/main.js'', Text storybookMain_template),
          (''apps/ui.stories.examples/src/.storybook/preview.js'', Text storybookPreview_template),
          (''apps/ui.stories.examples/src/src/tests.js'',
             Text (jestSetup @ ''\<newline>\<newline>'' @ storyDefaultExport ''tests.js'')),
          (''apps/ui.stories.examples/src/config/api-extractor.local.json'', Json apiExtractorLocal),
          (''apps/ui.stories.examples/src/config/api-extractor.json'', Json apiExtractor),
          (''apps/ui.stories.examples/src/.npmignore'', Text npmIgnoreConfig)],
       projects =
         [(''@scope/config'',
             \<lparr>root = ''apps/ui.stories.examples/src'',
              sourceRoot = Some ''apps/ui.stories.examples/src/src'',
              tags = Some [''vNext'', ''platform:web'']\<rparr>),
          (''@scope/react-examples'',
             \<lparr>root = ''apps/ui.stories.examples'', sourceRoot = None, tags = None\<rparr>)],
       npmScope = ''scope'',
       userLog =
         [(LogWarn, ''NOTE: Deleting apps/ui.stories.examples/src/config''),
          (LogWarn, ''      - Please update your moved stories to follow standard storybook format\<newline>'')],
       logger = [],
       tsconfigTypes = initialTsconfigTypes \<rparr>"

definition overlappingMigratedTwice :: state where
  "overlappingMigratedTwice =
     overlappingMigrated
       \<lparr> files :=
           take 9 (files overlappingMigrated) @
           [(''apps/ui.stories.examples/src/.npmignore'', Text npmIgnoreConfig),
            (''apps/ui.stories.examples/src/src/api-extractor.local.json'',
               Text (''{}'' @ ''\<newline>\<newline>'' @ storyDefaultExport ''api-extractor.local.json'')),
            (''apps/ui.stories.examples/src/src/api-extractor.json'',
               Text (''{}'' @ ''\<newline>\<newline>'' @ storyDefaultExport ''api-extractor.json'')),
            (''apps/ui.stories.examples/src/config/api-extractor.local.json'', Json apiExtractorLocal),
            (''apps/ui.stories.examples/src/config/api-extractor.json'', Json apiExtractor)],
         userLog := userLog overlappingMigrated @ userLog overlappingMigrated \<rparr>"

section \<open>Properties\<close>

declare showNat.simps [simp del]

subsection \<open>Eligibility\<close>

lemma prefix_9: "prefix ''9.'' v \<longleftrightarrow> take 2 v = ''9.''"
proof
  assume "prefix ''9.'' v"
  then obtain r where "v = ''9.'' @ r" by (auto simp: prefix_def)
  then show "take 2 v = ''9.''" by simp
next
  assume "take 2 v = ''9.''"
  then have "v = ''9.'' @ drop 2 v" by (metis append_take_drop_id)
  then show "prefix ''9.'' v" by (metis prefixI)
qed

lemma isPackageConverged_cases:
  "isPackageConverged st project = Inr b \<longleftrightarrow>
     (\<exists>pkg version. readJson st (joinPathFragments [root project, ''package.json'']) = Inr (JObj pkg)
        \<and> map_of pkg ''version'' = Some (JStr version) \<and> b = prefix ''9.'' version)"
  unfolding isPackageConverged_def
  by (auto split: sum.splits json.splits option.splits)

lemma readJson_popoverWorkspace:
  "readJson popoverWorkspace ''packages/react-popover/package.json'' =
     Inr (JObj [(''name'', JStr ''@fluentui/react-popover''), (''version'', JStr ''9.0.0-alpha.30'')])"
  "readJson popoverWorkspace ''packages/react-experiments/package.json'' =
     Inr (JObj [(''name'', JStr ''@fluentui/react-experiments''), (''version'', JStr ''8.2.7'')])"
  by (simp_all add: popoverWorkspace_def readJson_def treeRead_def rp_def)

text \<open>
  Claim C4.  \<^verbatim>\<open>isPackageConverged\<close> returns \<^verbatim>\<open>true\<close> exactly when the version string of the
  project's manifest starts with \<^verbatim>\<open>9.\<close>, and \<^verbatim>\<open>false\<close> exactly when the manifest has a
  version string that does not: the result is the test on the first two characters.
\<close>

theorem isPackageConverged_iff_version_prefix:
  "(isPackageConverged st project = Inr b) =
     (\<exists>pkg version.
        readJson st (joinPathFragments [root project, ''package.json'']) = Inr (JObj pkg)
        \<and> map_of pkg ''version'' = Some (JStr version) \<and> b = (take 2 version = ''9.''))"
  by (simp add: isPackageConverged_cases prefix_9)

text \<open>True for \<^verbatim>\<open>9.0.0-alpha.30\<close>, false for \<^verbatim>\<open>8.2.7\<close>.\<close>

theorem isPackageConverged_iff_version_prefix_witness:
  "isPackageConverged popoverWorkspace
       \<lparr>root = ''packages/react-popover'', sourceRoot = None, tags = None\<rparr> = Inr True
   \<and> isPackageConverged popoverWorkspace
       \<lparr>root = ''packages/react-experiments'', sourceRoot = None, tags = None\<rparr> = Inr False"
  using isPackageConverged_iff_version_prefix [of popoverWorkspace
          "\<lparr>root = ''packages/react-popover'', sourceRoot = None, tags = None\<rparr>" True]
        isPackageConverged_iff_version_prefix [of popoverWorkspace
          "\<lparr>root = ''packages/react-experiments'', sourceRoot = None, tags = None\<rparr>" False]
  by (simp add: readJson_popoverWorkspace)

subsection \<open>Schema validation\<close>

lemma readJson_error:
  "readJson st p = Inl e \<Longrightarrow> e = FileNotFound p \<or> e = JsonParseError p"
  unfolding readJson_def by (auto split: option.splits content.splits)

lemma isPackageConverged_error:
  "isPackageConverged st cfg = Inl e \<Longrightarrow> (\<exists>p. e = FileNotFound p \<or> e = JsonParseError p) \<or> e = TypeError ''version''"
  unfolding isPackageConverged_def
  by (auto split: sum.splits json.splits option.splits dest: readJson_error)

lemma readProjectConfiguration_error:
  "readProjectConfiguration st nm = Inl e \<Longrightarrow> e = ProjectNotFound nm"
  unfolding readProjectConfiguration_def by (auto split: option.splits)

lemma validateName_no_conflict: "validateName st sch \<noteq> Inl (ConflictingMode msg)"
proof
  assume a: "validateName st sch = Inl (ConflictingMode msg)"
  show False
  proof (cases "shouldValidateNameInput sch")
    case True
    with a show False by (simp add: validateName_def)
  next
    case False
    note nv = this
    show False
    proof (cases "name sch")
      case None
      with a nv show False by (simp add: validateName_def)
    next
      case (Some nm)
      show False
      proof (cases "nm = []")
        case True
        with a nv Some show False by (simp add: validateName_def)
      next
        case False
        show False
        proof (cases "readProjectConfiguration st nm")
          case (Inl e)
          with a nv Some False show False
            by (auto simp: validateName_def dest: readProjectConfiguration_error)
        next
          case (Inr cfg)
          show False
          proof (cases "isPackageConverged st cfg")
            case (Inl e)
            with a nv Some False Inr show False
              by (auto simp: validateName_def dest: isPackageConverged_error)
          next
            case (Inr c)
            with a nv Some False \<open>readProjectConfiguration st nm = Inr cfg\<close> show False
              by (simp add: validateName_def split: if_splits)
          qed
        qed
      qed
    qed
  qed
qed

lemma validateSchema_unfold:
  "validateSchema ev st sch =
     (if truthyStr (name sch) \<and> truthyFlag (stats sch)
        then Inl (ConflictingMode ''--name and --stats are mutually exclusive'')
      else if truthyStr (name sch) \<and> truthyFlag (all sch)
        then Inl (ConflictingMode ''--name and --all are mutually exclusive'')
      else if truthyFlag (stats sch) \<and> truthyFlag (all sch)
        then Inl (ConflictingMode ''--stats and --all are mutually exclusive'')
      else validateName st
             (if arePromptsEnabled ev \<and> shouldValidateNameInput sch
              then sch\<lparr>name := Some (promptAnswer ev)\<rparr> else sch))"
  unfolding validateSchema_def validateName_def Let_def by (rule refl)

lemma validateSchema_no_conflict_later:
  "\<not> (truthyStr (name sch) \<and> truthyFlag (stats sch)) \<Longrightarrow>
   \<not> (truthyStr (name sch) \<and> truthyFlag (all sch)) \<Longrightarrow>
   \<not> (truthyFlag (stats sch) \<and> truthyFlag (all sch)) \<Longrightarrow>
   validateSchema ev st sch \<noteq> Inl (ConflictingMode msg)"
  by (simp only: validateSchema_unfold if_False validateName_no_conflict not_False_eq_True)

lemma validateSchema_conflicting_later_free:
  "1 < length (filter id [truthyStr (name sch), truthyFlag (all sch), truthyFlag (stats sch)]) \<Longrightarrow>
   \<exists>msg. validateSchema ev st sch = Inl (ConflictingMode msg)"
proof -
  assume "1 < length (filter id [truthyStr (name sch), truthyFlag (all sch), truthyFlag (stats sch)])"
  then have "(truthyStr (name sch) \<and> truthyFlag (stats sch)) \<or>
              (truthyStr (name sch) \<and> truthyFlag (all sch)) \<or>
              (truthyFlag (stats sch) \<and> truthyFlag (all sch))" by (auto split: if_splits)
  then show ?thesis unfolding validateSchema_unfold by auto
qed

text \<open>
  Claim C8.  \<^verbatim>\<open>validateSchema\<close> throws one of the three errors about mutually exclusive
  flags exactly when more than one of \<^verbatim>\<open>name\<close>, \<^verbatim>\<open>all\<close> and \<^verbatim>\<open>stats\<close> is truthy; with at
  most one truthy flag no such error is thrown.
\<close>

theorem validateSchema_conflicting_mode:
  "(\<exists>msg. validateSchema ev st sch = Inl (ConflictingMode msg)) =
     (1 < length (filter id [truthyStr (name sch), truthyFlag (all sch), truthyFlag (stats sch)]))"
proof (cases "(truthyStr (name sch) \<and> truthyFlag (stats sch)) \<or>
              (truthyStr (name sch) \<and> truthyFlag (all sch)) \<or>
              (truthyFlag (stats sch) \<and> truthyFlag (all sch))")
  case True
  then have "\<exists>msg. validateSchema ev st sch = Inl (ConflictingMode msg)"
    unfolding validateSchema_def by auto
  moreover from True
  have "1 < length (filter id [truthyStr (name sch), truthyFlag (all sch), truthyFlag (stats sch)])"
    by auto
  ultimately show ?thesis by simp
next
  case False
  then have "\<And>msg. validateSchema ev st sch \<noteq> Inl (ConflictingMode msg)"
    using validateSchema_no_conflict_later by blast
  moreover from False
  have "\<not> 1 < length (filter id [truthyStr (name sch), truthyFlag (all sch), truthyFlag (stats sch)])"
    by auto
  ultimately show ?thesis by simp
qed

text \<open>A name together with \<^verbatim>\<open>stats\<close> conflicts; a name with \<^verbatim>\<open>all: false\<close> does not.\<close>

theorem validateSchema_conflicting_mode_witness:
  "(\<exists>msg. validateSchema exampleEnv popoverWorkspace conflictingSchema = Inl (ConflictingMode msg))
   \<and> \<not> (\<exists>msg. validateSchema exampleEnv popoverWorkspace
             \<lparr>name = Some ''@fluentui/react-popover'', all = Some False, stats = None\<rparr>
           = Inl (ConflictingMode msg))"
  using validateSchema_conflicting_mode [of exampleEnv popoverWorkspace conflictingSchema]
        validateSchema_conflicting_mode [of exampleEnv popoverWorkspace
           "\<lparr>name = Some ''@fluentui/react-popover'', all = Some False, stats = None\<rparr>"]
  by (simp add: conflictingSchema_def truthyStr_def truthyFlag_def)

lemma generator_validation_error:
  "validateSchema ev st sch = Inl e \<Longrightarrow> generator ev sch st = Threw e st"
  by (simp add: generator_def)

lemma count_truthy_conflict:
  "(1 < length (filter id [a, b, c])) = ((a \<and> c) \<or> (a \<and> b) \<or> (c \<and> b))"
  by auto

lemma count_truthy_none:
  "(length (filter id [a, b, c]) = 0) = (\<not> a \<and> \<not> b \<and> \<not> c)"
  by auto

lemma validateSchema_missing_name:
  assumes "length (filter id [truthyStr (name sch), truthyFlag (all sch), truthyFlag (stats sch)]) = 0"
    and "\<not> arePromptsEnabled ev \<or> promptAnswer ev = []"
  shows "validateSchema ev st sch = Inl MissingName"
proof -
  from assms(1) have n: "\<not> truthyStr (name sch)" "\<not> truthyFlag (all sch)" "\<not> truthyFlag (stats sch)"
    by (auto split: if_splits)
  then have sv: "shouldValidateNameInput sch" by (simp add: shouldValidateNameInput_def)
  show ?thesis
  proof (cases "arePromptsEnabled ev")
    case False
    with n sv show ?thesis by (simp add: validateSchema_unfold validateName_def)
  next
    case True
    with assms(2) have "promptAnswer ev = []" by simp
    with n sv True show ?thesis
      by (simp add: validateSchema_unfold validateName_def shouldValidateNameInput_def truthyStr_def)
  qed
qed

lemma validateSchema_not_converged:
  assumes nc: "\<not> 1 < length (filter id [truthyStr (name sch), truthyFlag (all sch), truthyFlag (stats sch)])"
    and rn: "resolvedName ev sch = Some nm"
    and rd: "readProjectConfiguration st nm = Inr cfg"
    and cv: "isPackageConverged st cfg = Inr False"
  shows "validateSchema ev st sch = Inl (NotConverged nm)"
proof (cases "truthyStr (name sch)")
  case True
  with rn have nm: "name sch = Some nm" "nm \<noteq> []"
    by (auto simp: resolvedName_def truthyStr_def split: option.splits)
  from True nc have f: "\<not> truthyFlag (all sch)" "\<not> truthyFlag (stats sch)"
    by (auto split: if_splits)
  from True have sv: "\<not> shouldValidateNameInput sch" by (simp add: shouldValidateNameInput_def)
  from True f sv nm rd cv show ?thesis
    by (simp add: validateSchema_unfold validateName_def)
next
  case False
  with rn have p: "arePromptsEnabled ev" "\<not> truthyFlag (all sch)" "\<not> truthyFlag (stats sch)"
     "promptAnswer ev = nm" "nm \<noteq> []"
    by (auto simp: resolvedName_def split: if_splits)
  from False p have sv: "shouldValidateNameInput sch" by (simp add: shouldValidateNameInput_def)
  have sv': "\<not> shouldValidateNameInput (sch\<lparr>name := Some nm\<rparr>)"
    using p by (simp add: shouldValidateNameInput_def truthyStr_def)
  from False p sv sv' rd cv show ?thesis
    by (simp add: validateSchema_unfold validateName_def)
qed

text \<open>
  Claim C7.  When \<^verbatim>\<open>validateSchema\<close> throws, the generator throws the same error in the
  state it was given: no file, no project and no log entry has changed.  This is so for
  each of the three causes: more than one truthy flag; no flag and no name from the prompt;
  a resolved name whose project is not converged.
\<close>

theorem validation_failure_leaves_tree_untouched:
  "(validateSchema ev st sch = Inl e \<longrightarrow> generator ev sch st = Threw e st)
   \<and> (1 < length (filter id [truthyStr (name sch), truthyFlag (all sch), truthyFlag (stats sch)])
        \<longrightarrow> (\<exists>msg. generator ev sch st = Threw (ConflictingMode msg) st))
   \<and> (length (filter id [truthyStr (name sch), truthyFlag (all sch), truthyFlag (stats sch)]) = 0
        \<and> (\<not> arePromptsEnabled ev \<or> promptAnswer ev = [])
        \<longrightarrow> generator ev sch st = Threw MissingName st)
   \<and> (\<not> 1 < length (filter id [truthyStr (name sch), truthyFlag (all sch), truthyFlag (stats sch)])
        \<and> resolvedName ev sch = Some nm \<and> readProjectConfiguration st nm = Inr cfg
        \<and> isPackageConverged st cfg = Inr False
        \<longrightarrow> generator ev sch st = Threw (NotConverged nm) st)"
proof (intro conjI impI)
  assume "validateSchema ev st sch = Inl e"
  then show "generator ev sch st = Threw e st" by (rule generator_validation_error)
next
  assume "1 < length (filter id [truthyStr (name sch), truthyFlag (all sch), truthyFlag (stats sch)])"
  then obtain msg where "validateSchema ev st sch = Inl (ConflictingMode msg)"
    using validateSchema_conflicting_later_free by blast
  then show "\<exists>msg. generator ev sch st = Threw (ConflictingMode msg) st"
    using generator_validation_error by blast
next
  assume "length (filter id [truthyStr (name sch), truthyFlag (all sch), truthyFlag (stats sch)]) = 0
        \<and> (\<not> arePromptsEnabled ev \<or> promptAnswer ev = [])"
  then have "validateSchema ev st sch = Inl MissingName"
    using validateSchema_missing_name by blast
  then show "generator ev sch st = Threw MissingName st" by (rule generator_validation_error)
next
  assume "\<not> 1 < length (filter id [truthyStr (name sch), truthyFlag (all sch), truthyFlag (stats sch)])
        \<and> resolvedName ev sch = Some nm \<and> readProjectConfiguration st nm = Inr cfg
        \<and> isPackageConverged st cfg = Inr False"
  then have "validateSchema ev st sch = Inl (NotConverged nm)"
    using validateSchema_not_converged by blast
  then show "generator ev sch st = Threw (NotConverged nm) st" by (rule generator_validation_error)
qed

subsection \<open>Statistics\<close>

lemma collectStats_readable:
  "\<forall>p \<in> set ps. \<exists>b. isPackageConverged st (snd p) = Inr b \<Longrightarrow>
   collectStats st ps acc =
     Inr \<lparr> migrated = migrated acc @
             filter (\<lambda>p. isPackageConverged st (snd p) = Inr True \<and> isProjectMigrated (snd p)) ps,
           notMigrated = notMigrated acc @
             filter (\<lambda>p. isPackageConverged st (snd p) = Inr True \<and> \<not> isProjectMigrated (snd p)) ps \<rparr>"
proof (induction ps arbitrary: acc)
  case Nil
  then show ?case by simp
next
  case (Cons p ps)
  obtain n cfg where p: "p = (n, cfg)" by (cases p)
  from Cons.prems obtain b where b: "isPackageConverged st cfg = Inr b" by (auto simp: p)
  from Cons.prems have rest: "\<forall>q \<in> set ps. \<exists>b. isPackageConverged st (snd q) = Inr b" by simp
  show ?case
    using Cons.IH [OF rest] b by (simp add: p)
qed

lemma collectStats_error:
  "collectStats st ps acc = Inl e \<Longrightarrow> \<exists>p \<in> set ps. isPackageConverged st (snd p) = Inl e"
proof (induction ps arbitrary: acc)
  case Nil
  then show ?case by simp
next
  case (Cons p ps)
  obtain n cfg where p: "p = (n, cfg)" by (cases p)
  show ?case
  proof (cases "isPackageConverged st cfg")
    case (Inl e')
    with Cons.prems show ?thesis by (simp add: p)
  next
    case (Inr b)
    with Cons.prems Cons.IH show ?thesis
      by (auto simp: p split: if_splits)
  qed
qed

lemma printStats_frame:
  "printStats st = Done st' \<or> printStats st = Threw e st' \<Longrightarrow>
   files st' = files st \<and> projects st' = projects st"
  unfolding printStats_def by (auto split: sum.splits)

lemma validateSchema_stats:
  assumes "truthyFlag (stats sch)" "\<not> truthyStr (name sch)" "\<not> truthyFlag (all sch)"
  shows "validateSchema ev st sch = Inr sch"
proof -
  from assms have sv: "\<not> shouldValidateNameInput sch" by (simp add: shouldValidateNameInput_def)
  from assms(2) have "name sch = None \<or> name sch = Some []"
    by (auto simp: truthyStr_def split: option.splits)
  with assms sv show ?thesis
    by (auto simp: validateSchema_unfold validateName_def)
qed

lemma generator_stats_frame:
  assumes "truthyFlag (stats sch)"
    and "generator ev sch st = Done st' \<or> generator ev sch st = Threw e st'"
  shows "files st' = files st \<and> projects st' = projects st"
proof (cases "validateSchema ev st sch")
  case (Inl e')
  with assms(2) show ?thesis by (simp add: generator_def)
next
  case (Inr v)
  have "truthyFlag (stats v)"
  proof (cases "truthyStr (name sch) \<or> truthyFlag (all sch)")
    case True
    with assms(1) Inr show ?thesis by (auto simp: validateSchema_unfold split: if_splits)
  next
    case False
    with assms(1) validateSchema_stats [of sch ev st] Inr show ?thesis by simp
  qed
  with Inr assms(2) have "printStats st = Done st' \<or> printStats st = Threw e st'"
    by (simp add: generator_def)
  then show ?thesis by (rule printStats_frame)
qed

text \<open>
  Claim C9.  With \<^verbatim>\<open>stats\<close> set, the generator changes neither the files nor the projects,
  whether it finishes or throws.  When every manifest can be read, it prints the report of
  the converged projects split by \<^verbatim>\<open>isProjectMigrated\<close>; a project that is not converged
  is in neither list.
\<close>

theorem stats_mode_reports_without_writing:
  assumes "truthyFlag (stats sch)"
  shows "(generator ev sch st = Done st' \<or> generator ev sch st = Threw e st'
            \<longrightarrow> files st' = files st \<and> projects st' = projects st)
     \<and> (\<not> truthyStr (name sch) \<and> \<not> truthyFlag (all sch)
          \<and> (\<forall>p \<in> set (projects st). \<exists>b. isPackageConverged st (snd p) = Inr b)
        \<longrightarrow> generator ev sch st =
              Done (st\<lparr>logger := logger st @ statsReport
                \<lparr> migrated = filter (\<lambda>p. isPackageConverged st (snd p) = Inr True
                                          \<and> isProjectMigrated (snd p)) (projects st),
                  notMigrated = filter (\<lambda>p. isPackageConverged st (snd p) = Inr True
                                          \<and> \<not> isProjectMigrated (snd p)) (projects st) \<rparr>\<rparr>))"
proof -
  have frame: "generator ev sch st = Done st' \<or> generator ev sch st = Threw e st'
            \<longrightarrow> files st' = files st \<and> projects st' = projects st"
    using assms generator_stats_frame by blast
  have report: "generator ev sch st =
              Done (st\<lparr>logger := logger st @ statsReport
                \<lparr> migrated = filter (\<lambda>p. isPackageConverged st (snd p) = Inr True
                                          \<and> isProjectMigrated (snd p)) (projects st),
                  notMigrated = filter (\<lambda>p. isPackageConverged st (snd p) = Inr True
                                          \<and> \<not> isProjectMigrated (snd p)) (projects st) \<rparr>\<rparr>)"
    if a: "\<not> truthyStr (name sch) \<and> \<not> truthyFlag (all sch)
          \<and> (\<forall>p \<in> set (projects st). \<exists>b. isPackageConverged st (snd p) = Inr b)"
  proof -
    from a assms have v: "validateSchema ev st sch = Inr sch" by (simp add: validateSchema_stats)
    from a have "\<forall>p \<in> set (projects st). \<exists>b. isPackageConverged st (snd p) = Inr b" by simp
    from collectStats_readable [OF this, of "\<lparr>migrated = [], notMigrated = []\<rparr>"]
    have "printStats st = Done (st\<lparr>logger := logger st @ statsReport
                \<lparr> migrated = filter (\<lambda>p. isPackageConverged st (snd p) = Inr True
                                          \<and> isProjectMigrated (snd p)) (projects st),
                  notMigrated = filter (\<lambda>p. isPackageConverged st (snd p) = Inr True
                                          \<and> \<not> isProjectMigrated (snd p)) (projects st) \<rparr>\<rparr>)"
      by (simp add: printStats_def)
    with v assms show ?thesis by (simp add: generator_def)
  qed
  from frame report show ?thesis by blast
qed

lemma statsWorkspace_converged:
  "isPackageConverged statsWorkspace \<lparr>root = ''packages/a'', sourceRoot = sa, tags = ta\<rparr> = Inr True"
  "isPackageConverged statsWorkspace \<lparr>root = ''packages/b'', sourceRoot = sb, tags = tb\<rparr> = Inr True"
  "isPackageConverged statsWorkspace \<lparr>root = ''packages/c'', sourceRoot = sc, tags = tc\<rparr> = Inr True"
  "isPackageConverged statsWorkspace \<lparr>root = ''packages/d'', sourceRoot = sd, tags = td\<rparr> = Inr False"
  by (simp_all add: statsWorkspace_def isPackageConverged_def readJson_def treeRead_def rp_def)

lemma statsWorkspace_projects:
  "projects statsWorkspace =
         [(''@scope/a'', \<lparr>root = ''packages/a'', sourceRoot = Some ''packages/a/src'',
                          tags = Some [''vNext'', ''platform:web'']\<rparr>),
          (''@scope/c'', \<lparr>root = ''packages/c'', sourceRoot = None, tags = Some [''vNext'']\<rparr>),
          (''@scope/d'', \<lparr>root = ''packages/d'', sourceRoot = Some ''packages/d/src'',
                          tags = Some [''vNext'']\<rparr>),
          (''@scope/b'', \<lparr>root = ''packages/b'', sourceRoot = Some ''packages/b/src'',
                          tags = Some [''vNext'']\<rparr>)]"
  "logger statsWorkspace = []"
  by (simp_all add: statsWorkspace_def)

lemma showNat_small: "showNat 1 = ''1''" "showNat 2 = ''2''"
  by code_simp+

lemma showNat_Suc: "showNat (Suc 0) = ''1''" "showNat (Suc (Suc 0)) = ''2''"
  using showNat_small by (simp_all add: numeral_2_eq_2)

lemma statsWorkspace_filters:
  "filter (\<lambda>p. isPackageConverged statsWorkspace (snd p) = Inr True \<and> isProjectMigrated (snd p))
      (projects statsWorkspace) =
         [(''@scope/a'', \<lparr>root = ''packages/a'', sourceRoot = Some ''packages/a/src'',
                          tags = Some [''vNext'', ''platform:web'']\<rparr>),
          (''@scope/b'', \<lparr>root = ''packages/b'', sourceRoot = Some ''packages/b/src'',
                          tags = Some [''vNext'']\<rparr>)]"
  "filter (\<lambda>p. isPackageConverged statsWorkspace (snd p) = Inr True \<and> \<not> isProjectMigrated (snd p))
      (projects statsWorkspace) =
         [(''@scope/c'', \<lparr>root = ''packages/c'', sourceRoot = None, tags = Some [''vNext'']\<rparr>)]"
  by (simp_all add: statsWorkspace_projects statsWorkspace_converged isProjectMigrated_def)

text \<open>Three converged projects and one on version 8: 2 migrated, 1 not migrated.\<close>

theorem stats_mode_reports_without_writing_witness:
  "generator exampleEnv statsSchema statsWorkspace =
     Done (statsWorkspace\<lparr>logger :=
       [(LogInfo, ''Convergence DX migration stats:''),
        (LogInfo, replicate 80 CHR ''=''),
        (LogInfo, ''Migrated (2):''),
        (LogInfo, ''- @scope/a\<newline>- @scope/b''),
        (LogInfo, replicate 80 CHR ''=''),
        (LogInfo, ''Not migrated (1):''),
        (LogInfo, ''- @scope/c'')]\<rparr>)"
proof -
  have s: "truthyFlag (stats statsSchema)"
    by (simp add: statsSchema_def truthyFlag_def)
  have n: "\<not> truthyStr (name statsSchema) \<and> \<not> truthyFlag (all statsSchema)
     \<and> (\<forall>p \<in> set (projects statsWorkspace). \<exists>b. isPackageConverged statsWorkspace (snd p) = Inr b)"
    by (auto simp: statsSchema_def truthyFlag_def truthyStr_def statsWorkspace_projects
          statsWorkspace_converged)
  have "generator exampleEnv statsSchema statsWorkspace =
      Done (statsWorkspace\<lparr>logger := logger statsWorkspace @ statsReport
                \<lparr> migrated = filter (\<lambda>p. isPackageConverged statsWorkspace (snd p) = Inr True
                                          \<and> isProjectMigrated (snd p)) (projects statsWorkspace),
                  notMigrated = filter (\<lambda>p. isPackageConverged statsWorkspace (snd p) = Inr True
                                          \<and> \<not> isProjectMigrated (snd p)) (projects statsWorkspace) \<rparr>\<rparr>)"
    using stats_mode_reports_without_writing [OF s, of exampleEnv statsWorkspace] n by blast
  then show ?thesis
    by (simp only: statsWorkspace_filters) (simp add: statsWorkspace_projects statsReport_def showNat_Suc)
qed

lemma popoverWorkspace_experiments:
  "readProjectConfiguration popoverWorkspace ''@fluentui/react-experiments'' =
     Inr \<lparr>root = ''packages/react-experiments'', sourceRoot = None, tags = None\<rparr>"
  "isPackageConverged popoverWorkspace
     \<lparr>root = ''packages/react-experiments'', sourceRoot = None, tags = None\<rparr> = Inr False"
  by (simp_all add: readProjectConfiguration_def popoverWorkspace_def isPackageConverged_def
        readJson_def treeRead_def rp_def)

text \<open>One request for each cause, on the workspace of the two manifests.\<close>

theorem validation_failure_leaves_tree_untouched_witness:
  "generator exampleEnv conflictingSchema popoverWorkspace =
     Threw (ConflictingMode ''--name and --stats are mutually exclusive'') popoverWorkspace
   \<and> generator exampleEnv emptySchema popoverWorkspace = Threw MissingName popoverWorkspace
   \<and> generator exampleEnv experimentsSchema popoverWorkspace =
       Threw (NotConverged ''@fluentui/react-experiments'') popoverWorkspace"
proof -
  have a: "validateSchema exampleEnv popoverWorkspace conflictingSchema =
      Inl (ConflictingMode ''--name and --stats are mutually exclusive'')"
    by (simp add: validateSchema_unfold conflictingSchema_def truthyStr_def truthyFlag_def)
  have b: "length (filter id [truthyStr (name emptySchema), truthyFlag (all emptySchema),
              truthyFlag (stats emptySchema)]) = 0
        \<and> (\<not> arePromptsEnabled exampleEnv \<or> promptAnswer exampleEnv = [])"
    by (simp add: emptySchema_def truthyStr_def truthyFlag_def exampleEnv_def)
  have c: "\<not> 1 < length (filter id [truthyStr (name experimentsSchema),
              truthyFlag (all experimentsSchema), truthyFlag (stats experimentsSchema)])
        \<and> resolvedName exampleEnv experimentsSchema = Some ''@fluentui/react-experiments''
        \<and> readProjectConfiguration popoverWorkspace ''@fluentui/react-experiments'' =
             Inr \<lparr>root = ''packages/react-experiments'', sourceRoot = None, tags = None\<rparr>
        \<and> isPackageConverged popoverWorkspace
             \<lparr>root = ''packages/react-experiments'', sourceRoot = None, tags = None\<rparr> = Inr False"
    by (simp add: experimentsSchema_def truthyStr_def truthyFlag_def resolvedName_def
          popoverWorkspace_experiments)
  from a b c show ?thesis
    using validation_failure_leaves_tree_untouched [of exampleEnv popoverWorkspace conflictingSchema
            "ConflictingMode ''--name and --stats are mutually exclusive''"]
          validation_failure_leaves_tree_untouched [of exampleEnv popoverWorkspace emptySchema]
          validation_failure_leaves_tree_untouched [of exampleEnv popoverWorkspace experimentsSchema
            _ "''@fluentui/react-experiments''"
            "\<lparr>root = ''packages/react-experiments'', sourceRoot = None, tags = None\<rparr>"]
    by blast
qed

subsection \<open>Manifest scripts\<close>

lemma treeRead_treeWrite:
  "treeRead (treeWrite p c st) q = (if rp q = rp p then Some c else treeRead st q)"
  by (simp add: treeRead_def treeWrite_def update_conv')

lemma readJson_treeWrite: "readJson (treeWrite p (Json j) st) p = Inr j"
  by (simp add: readJson_def treeRead_treeWrite)

lemma normalizeOptions_y: "normalizeOptions migrationWorkspace ''@scope/y'' = Inr yOptions"
  by (simp add: normalizeOptions_def readProjectConfiguration_def migrationWorkspace_def yOptions_def)

lemma rewriteScripts_result:
  assumes "map_of manifest ''scripts'' = Some (JObj scripts)"
  shows "\<exists>scripts'. rewriteScripts opts (JObj manifest) =
            Inr (JObj (AList.update ''scripts'' (JObj scripts') manifest))
     \<and> map_of scripts' ''update-snapshots'' = None
     \<and> map_of scripts' ''start-test'' = None
     \<and> map_of scripts' ''test:watch'' = None
     \<and> map_of scripts' ''docs'' =
           Some (JStr ''api-extractor run --config=config/api-extractor.local.json --local'')
     \<and> map_of scripts' ''build:local'' = Some (JStr (buildLocalCommand (normalizedPkgName opts)))
     \<and> map_of scripts' ''storybook'' = Some (JStr ''start-storybook'')
     \<and> map_of scripts' ''start'' = Some (JStr ''yarn storybook'')
     \<and> map_of scripts' ''test'' = Some (JStr ''jest'')
     \<and> (\<forall>k. k \<notin> {''update-snapshots'', ''start-test'', ''test:watch'', ''docs'', ''build:local'',
                    ''storybook'', ''start'', ''test''}
            \<longrightarrow> map_of scripts' k = map_of scripts k)"
proof -
  let ?s = "AList.update ''test'' (JStr ''jest'')
             (AList.update ''start'' (JStr ''yarn storybook'')
               (AList.update ''storybook'' (JStr ''start-storybook'')
                 (AList.update ''build:local'' (JStr (buildLocalCommand (normalizedPkgName opts)))
                   (AList.update ''docs''
                     (JStr ''api-extractor run --config=config/api-extractor.local.json --local'')
                     (AList.delete ''test:watch''
                       (AList.delete ''start-test''
                         (AList.delete ''update-snapshots'' scripts)))))))"
  have "rewriteScripts opts (JObj manifest) = Inr (JObj (AList.update ''scripts'' (JObj ?s) manifest))"
    using assms by (simp add: rewriteScripts_def asObject_def)
  moreover have "map_of ?s ''update-snapshots'' = None" "map_of ?s ''start-test'' = None"
    "map_of ?s ''test:watch'' = None"
    by (simp_all add: update_conv' delete_conv')
  moreover have "map_of ?s ''docs'' =
           Some (JStr ''api-extractor run --config=config/api-extractor.local.json --local'')"
    "map_of ?s ''build:local'' = Some (JStr (buildLocalCommand (normalizedPkgName opts)))"
    "map_of ?s ''storybook'' = Some (JStr ''start-storybook'')"
    "map_of ?s ''start'' = Some (JStr ''yarn storybook'')"
    "map_of ?s ''test'' = Some (JStr ''jest'')"
    by (simp_all add: update_conv' delete_conv')
  moreover have "\<forall>k. k \<notin> {''update-snapshots'', ''start-test'', ''test:watch'', ''docs'', ''build:local'',
                    ''storybook'', ''start'', ''test''}
            \<longrightarrow> map_of ?s k = map_of scripts k"
    by (simp add: update_conv' delete_conv')
  ultimately show ?thesis by blast
qed

text \<open>
  Claim C6.  For a manifest with a \<^verbatim>\<open>scripts\<close> object, \<^verbatim>\<open>updateNpmScripts\<close> finishes, and the
  manifest read back from the tree afterwards is the old one with only \<^verbatim>\<open>scripts\<close> replaced:
  the keys \<^verbatim>\<open>update-snapshots\<close>, \<^verbatim>\<open>start-test\<close> and \<^verbatim>\<open>test:watch\<close> are gone, the keys \<^verbatim>\<open>docs\<close>,
  \<^verbatim>\<open>build:local\<close>, \<^verbatim>\<open>storybook\<close>, \<^verbatim>\<open>start\<close> and \<^verbatim>\<open>test\<close> hold the fixed commands (\<^verbatim>\<open>build:local\<close>
  with the normalized package name), and every other script is as it was.  No other file
  of the tree changes.
\<close>

theorem updateNpmScripts_rewrites_scripts:
  assumes "readJson st (packageJson (optPaths opts)) = Inr (JObj manifest)"
    and "map_of manifest ''scripts'' = Some (JObj scripts)"
  shows "\<exists>scripts' st'.
       updateNpmScripts opts st = Done st'
     \<and> st' = treeWrite (packageJson (optPaths opts))
                (Json (JObj (AList.update ''scripts'' (JObj scripts') manifest))) st
     \<and> readJson st' (packageJson (optPaths opts)) =
           Inr (JObj (AList.update ''scripts'' (JObj scripts') manifest))
     \<and> (\<forall>p. rp p \<noteq> rp (packageJson (optPaths opts)) \<longrightarrow> treeRead st' p = treeRead st p)
     \<and> map_of scripts' ''update-snapshots'' = None
     \<and> map_of scripts' ''start-test'' = None
     \<and> map_of scripts' ''test:watch'' = None
     \<and> map_of scripts' ''docs'' =
           Some (JStr ''api-extractor run --config=config/api-extractor.local.json --local'')
     \<and> map_of scripts' ''build:local'' = Some (JStr (buildLocalCommand (normalizedPkgName opts)))
     \<and> map_of scripts' ''storybook'' = Some (JStr ''start-storybook'')
     \<and> map_of scripts' ''start'' = Some (JStr ''yarn storybook'')
     \<and> map_of scripts' ''test'' = Some (JStr ''jest'')
     \<and> (\<forall>k. k \<notin> {''update-snapshots'', ''start-test'', ''test:watch'', ''docs'', ''build:local'',
                    ''storybook'', ''start'', ''test''}
            \<longrightarrow> map_of scripts' k = map_of scripts k)"
proof -
  from rewriteScripts_result [OF assms(2), of opts] obtain scripts' where
    r: "rewriteScripts opts (JObj manifest) = Inr (JObj (AList.update ''scripts'' (JObj scripts') manifest))"
    and p: "map_of scripts' ''update-snapshots'' = None
     \<and> map_of scripts' ''start-test'' = None
     \<and> map_of scripts' ''test:watch'' = None
     \<and> map_of scripts' ''docs'' =
           Some (JStr ''api-extractor run --config=config/api-extractor.local.json --local'')
     \<and> map_of scripts' ''build:local'' = Some (JStr (buildLocalCommand (normalizedPkgName opts)))
     \<and> map_of scripts' ''storybook'' = Some (JStr ''start-storybook'')
     \<and> map_of scripts' ''start'' = Some (JStr ''yarn storybook'')
     \<and> map_of scripts' ''test'' = Some (JStr ''jest'')
     \<and> (\<forall>k. k \<notin> {''update-snapshots'', ''start-test'', ''test:watch'', ''docs'', ''build:local'',
                    ''storybook'', ''start'', ''test''}
            \<longrightarrow> map_of scripts' k = map_of scripts k)"
    by blast
  let ?st' = "treeWrite (packageJson (optPaths opts))
                (Json (JObj (AList.update ''scripts'' (JObj scripts') manifest))) st"
  from assms(1) r have "updateNpmScripts opts st = Done ?st'"
    by (simp add: updateNpmScripts_def updateJson_def)
  moreover have "readJson ?st' (packageJson (optPaths opts)) =
           Inr (JObj (AList.update ''scripts'' (JObj scripts') manifest))"
    by (rule readJson_treeWrite)
  moreover have "\<forall>p. rp p \<noteq> rp (packageJson (optPaths opts)) \<longrightarrow> treeRead ?st' p = treeRead st p"
    by (simp add: treeRead_treeWrite)
  ultimately show ?thesis using p
    by - (rule exI [where x = scripts'], rule exI [where x = "?st'"], simp)
qed

lemma updateNpmScripts_example_reads:
  "readJson migrationWorkspace (packageJson (optPaths yOptions)) = Inr (JObj yManifest)"
  "map_of yManifest ''scripts'' =
     Some (JObj [(''update-snapshots'', JStr ''just-scripts jest -u''),
                 (''start-test'', JStr ''just-scripts jest-watch''),
                 (''test:watch'', JStr ''just-scripts jest-watch''),
                 (''other'', JStr ''just-scripts other'')])"
  by (simp_all add: readJson_def treeRead_def rp_def migrationWorkspace_def yOptions_def yManifest_def)

text \<open>
  The manifest of \<^verbatim>\<open>@scope/y\<close>: three scripts removed, \<^verbatim>\<open>other\<close> kept, five set; the name, the
  version and the dependencies of the manifest, and the \<^verbatim>\<open>tsconfig.json\<close> beside it, are as
  they were.
\<close>

theorem updateNpmScripts_rewrites_scripts_witness:
  "\<exists>scripts' st'.
       updateNpmScripts yOptions migrationWorkspace = Done st'
     \<and> readJson st' ''packages/y/package.json'' =
           Inr (JObj [(''name'', JStr ''@scope/y''),
                      (''version'', JStr ''9.0.0''),
                      (''scripts'', JObj scripts'),
                      (''dependencies'', JObj [(''@scope/x'', JStr ''^8.2.7''), (''tslib'', JStr ''^2.1.0'')])])
     \<and> treeRead st' ''packages/y/tsconfig.json'' = treeRead migrationWorkspace ''packages/y/tsconfig.json''
     \<and> map_of scripts' ''update-snapshots'' = None
     \<and> map_of scripts' ''start-test'' = None
     \<and> map_of scripts' ''test:watch'' = None
     \<and> map_of scripts' ''other'' = Some (JStr ''just-scripts other'')
     \<and> map_of scripts' ''docs'' =
           Some (JStr ''api-extractor run --config=config/api-extractor.local.json --local'')
     \<and> map_of scripts' ''build:local'' =
           Some (JStr ''tsc -p . --module esnext --emitDeclarationOnly && node ../../scripts/typescript/normalize-import --output dist/y/src && yarn docs'')
     \<and> map_of scripts' ''storybook'' = Some (JStr ''start-storybook'')
     \<and> map_of scripts' ''start'' = Some (JStr ''yarn storybook'')
     \<and> map_of scripts' ''test'' = Some (JStr ''jest'')"
proof -
  from updateNpmScripts_rewrites_scripts [OF updateNpmScripts_example_reads]
  obtain scripts' st' where
    r: "updateNpmScripts yOptions migrationWorkspace = Done st'"
    and b: "readJson st' (packageJson (optPaths yOptions)) =
           Inr (JObj (AList.update ''scripts'' (JObj scripts') yManifest))"
    and u: "\<forall>p. rp p \<noteq> rp (packageJson (optPaths yOptions))
              \<longrightarrow> treeRead st' p = treeRead migrationWorkspace p"
    and d: "map_of scripts' ''update-snapshots'' = None" "map_of scripts' ''start-test'' = None"
       "map_of scripts' ''test:watch'' = None"
    and f: "map_of scripts' ''docs'' =
           Some (JStr ''api-extractor run --config=config/api-extractor.local.json --local'')"
      "map_of scripts' ''build:local'' = Some (JStr (buildLocalCommand (normalizedPkgName yOptions)))"
      "map_of scripts' ''storybook'' = Some (JStr ''start-storybook'')"
      "map_of scripts' ''start'' = Some (JStr ''yarn storybook'')"
      "map_of scripts' ''test'' = Some (JStr ''jest'')"
    and o: "\<forall>k. k \<notin> {''update-snapshots'', ''start-test'', ''test:watch'', ''docs'', ''build:local'',
                    ''storybook'', ''start'', ''test''}
            \<longrightarrow> map_of scripts' k =
                map_of [(''update-snapshots'', JStr ''just-scripts jest -u''),
                 (''start-test'', JStr ''just-scripts jest-watch''),
                 (''test:watch'', JStr ''just-scripts jest-watch''),
                 (''other'', JStr ''just-scripts other'')] k"
    by (elim exE conjE) (rule that; assumption)
  from o have "map_of scripts' ''other'' = Some (JStr ''just-scripts other'')" by simp
  moreover from b have "readJson st' ''packages/y/package.json'' =
           Inr (JObj [(''name'', JStr ''@scope/y''),
                      (''version'', JStr ''9.0.0''),
                      (''scripts'', JObj scripts'),
                      (''dependencies'', JObj [(''@scope/x'', JStr ''^8.2.7''), (''tslib'', JStr ''^2.1.0'')])])"
    by (simp add: yOptions_def yManifest_def)
  moreover from u [rule_format, of "''packages/y/tsconfig.json''"]
  have "treeRead st' ''packages/y/tsconfig.json'' = treeRead migrationWorkspace ''packages/y/tsconfig.json''"
    by (simp add: yOptions_def rp_def)
  moreover have "buildLocalCommand (normalizedPkgName yOptions) =
     ''tsc -p . --module esnext --emitDeclarationOnly && node ../../scripts/typescript/normalize-import --output dist/y/src && yarn docs''"
    by (simp add: yOptions_def buildLocalCommand_def)
  ultimately show ?thesis using r d f
    by - (rule exI [where x = scripts'], rule exI [where x = st'], simp)
qed

subsection \<open>Path aliases\<close>

lemma objectAssign_Cons:
  "objectAssign target ((k, v) # source) = objectAssign (AList.update k v target) source"
  by (simp add: objectAssign_def)

lemma objectAssign_other:
  "k \<notin> fst ` set source \<Longrightarrow> map_of (objectAssign target source) k = map_of target k"
proof (induction source arbitrary: target)
  case Nil
  then show ?case by (simp add: objectAssign_def)
next
  case (Cons e source)
  obtain k' v' where e: "e = (k', v')" by (cases e)
  from Cons.prems have "k \<noteq> k'" "k \<notin> fst ` set source" by (auto simp: e)
  with Cons.IH [of "AList.update k' v' target"] show ?case
    by (simp add: e objectAssign_Cons update_conv')
qed

lemma objectAssign_source:
  "k \<in> fst ` set source \<Longrightarrow> \<forall>(k', v') \<in> set source. v' = f k' \<Longrightarrow>
   map_of (objectAssign target source) k = Some (f k)"
proof (induction source arbitrary: target)
  case Nil
  then show ?case by simp
next
  case (Cons e source)
  obtain k' v' where e: "e = (k', v')" by (cases e)
  from Cons.prems(2) have v': "v' = f k'" and rest: "\<forall>(k', v') \<in> set source. v' = f k'"
    by (auto simp: e)
  show ?case
  proof (cases "k \<in> fst ` set source")
    case True
    from Cons.IH [OF True rest] show ?thesis by (simp add: e objectAssign_Cons)
  next
    case False
    with Cons.prems(1) have "k = k'" by (auto simp: e)
    with objectAssign_other [OF False, of "AList.update k' v' target"] v' show ?thesis
      by (simp add: e objectAssign_Cons update_conv')
  qed
qed

lemma foldl_update_entries:
  "set (foldl (\<lambda>acc d. AList.update d (f d) acc) acc ds) \<subseteq> set acc \<union> (\<lambda>d. (d, f d)) ` set ds"
proof (induction ds arbitrary: acc)
  case Nil
  then show ?case by simp
next
  case (Cons d ds)
  have "set (AList.update d (f d) acc) \<subseteq> set acc \<union> {(d, f d)}"
    by (induction acc) auto
  with Cons.IH [of "AList.update d (f d) acc"] show ?case by auto
qed

lemma foldl_update_keys:
  "fst ` set (foldl (\<lambda>acc d. AList.update d (f d) acc) acc ds) = fst ` set acc \<union> set ds"
proof (induction ds arbitrary: acc)
  case Nil
  then show ?case by simp
next
  case (Cons d ds)
  have "fst ` set (AList.update d (f d) acc) = insert d (fst ` set acc)"
    by (induction acc) auto
  with Cons.IH [of "AList.update d (f d) acc"] show ?case by auto
qed

lemma depsThatNeedToBecomeAliases_entries:
  "\<forall>(k, v) \<in> set (depsThatNeedToBecomeAliases st dependencies). v = aliasTarget st k"
  using foldl_update_entries [of "aliasTarget st" "[]"]
  unfolding depsThatNeedToBecomeAliases_def by fastforce

lemma depsThatNeedToBecomeAliases_keys:
  "fst ` set (depsThatNeedToBecomeAliases st dependencies) =
     {dep \<in> fst ` set dependencies. prefix (''@'' @ npmScope st) dep}"
  using foldl_update_keys [of "aliasTarget st" "[]"]
  unfolding depsThatNeedToBecomeAliases_def by auto


lemma aliasTarget_unregistered:
  "map_of (projects st) dep = None \<Longrightarrow> aliasTarget st dep = JArr [JStr ''undefined/src/index.ts'']"
  by (simp add: aliasTarget_def)

lemma newPaths_lookup:
  fixes opts st dependencies oldPaths
  defines "newPaths \<equiv>
     objectAssign (AList.update (pkgName opts) (JArr [JStr (root (projectConfig opts) @ ''/src/index.ts'')]) oldPaths)
       (depsThatNeedToBecomeAliases st dependencies)"
  shows "map_of newPaths k =
     (if k \<in> fst ` set dependencies \<and> prefix (''@'' @ npmScope st) k then Some (aliasTarget st k)
      else if k = pkgName opts then Some (JArr [JStr (root (projectConfig opts) @ ''/src/index.ts'')])
      else map_of oldPaths k)"
proof (cases "k \<in> fst ` set dependencies \<and> prefix (''@'' @ npmScope st) k")
  case True
  then have "k \<in> fst ` set (depsThatNeedToBecomeAliases st dependencies)"
    by (simp add: depsThatNeedToBecomeAliases_keys)
  from objectAssign_source [OF this depsThatNeedToBecomeAliases_entries] True
  show ?thesis by (simp add: newPaths_def)
next
  case False
  then have "k \<notin> fst ` set (depsThatNeedToBecomeAliases st dependencies)"
    by (simp add: depsThatNeedToBecomeAliases_keys)
  from objectAssign_other [OF this]
  have "map_of newPaths k =
     map_of (AList.update (pkgName opts) (JArr [JStr (root (projectConfig opts) @ ''/src/index.ts'')]) oldPaths) k"
    by (simp add: newPaths_def)
  with False show ?thesis by (auto simp: update_conv')
qed






subsection \<open>Story relocation\<close>

lemma forEach_append:
  "forEach (xs @ ys) f st = andThen (forEach xs f st) (forEach ys f)"
proof (induction xs arbitrary: st)
  case Nil
  then show ?case by simp
next
  case (Cons x xs)
  show ?case
  proof (cases "f x st")
    case (Done st1)
    with Cons.IH [of st1] show ?thesis by simp
  next
    case (Threw e st1)
    then show ?thesis by simp
  qed
qed

lemma andThen_Done:
  "andThen r f = Done st' \<Longrightarrow> \<exists>mid. r = Done mid \<and> f mid = Done st'"
  by (cases r) simp_all

lemma moveStory_Done:
  assumes "moveStory ev opts p st = Done st'"
  shows "\<exists>contents. readText ev st p = Some contents \<and> contents \<noteq> []
           \<and> st' = treeWrite (storyDestination opts p) (Text (movedStoryText opts p contents)) st"
  using assms
  unfolding moveStory_def storyDestination_def movedStoryText_def Let_def
  by (auto split: option.splits if_splits)

lemma rp_append:
  "\<exists>c \<in> set a. c \<noteq> CHR ''/'' \<Longrightarrow> rp (a @ b) = rp a @ b"
  using dropWhile_append1 [of _ a "\<lambda>c. c = CHR ''/''" b] by (auto simp: rp_def)

lemma joinPathFragments_src:
  "f \<noteq> [] \<Longrightarrow> joinPathFragments [r, ''src'', f] = joinPathFragments [r, ''src''] @ ''/'' @ f"
  "joinPathFragments [r, ''src'', []] = joinPathFragments [r, ''src'']"
  "\<exists>c \<in> set (joinPathFragments [r, ''src'']). c \<noteq> CHR ''/''"
  by auto

lemma storyDestination_inj:
  assumes "last (splitPathFragments p) \<noteq> last (splitPathFragments q)"
  shows "rp (storyDestination opts p) \<noteq> rp (storyDestination opts q)"
proof -
  let ?d = "joinPathFragments [root (projectConfig opts), ''src'']"
  have d: "\<exists>c \<in> set ?d. c \<noteq> CHR ''/''" by (rule joinPathFragments_src)
  have *: "rp (joinPathFragments [root (projectConfig opts), ''src'', f]) =
             (if f = [] then rp ?d else rp ?d @ ''/'' @ f)" for f
  proof (cases "f = []")
    case True
    then show ?thesis by simp
  next
    case False
    then have "joinPathFragments [root (projectConfig opts), ''src'', f] = ?d @ (''/'' @ f)"
      by (rule joinPathFragments_src(1))
    with rp_append [OF d, of "''/'' @ f"] False show ?thesis by simp
  qed
  from assms show ?thesis unfolding storyDestination_def * by auto
qed

lemma forEach_moveStory_other:
  assumes "forEach ps (moveStory ev opts) st = Done st'"
    and "\<forall>r \<in> set ps. rp (storyDestination opts r) \<noteq> rp d"
  shows "treeRead st' d = treeRead st d"
  using assms
proof (induction ps arbitrary: st)
  case Nil
  then show ?case by simp
next
  case (Cons p ps)
  from Cons.prems(1) obtain mid where
    m: "moveStory ev opts p st = Done mid" and r: "forEach ps (moveStory ev opts) mid = Done st'"
    using andThen_Done by fastforce
  from moveStory_Done [OF m] Cons.prems(2) have "treeRead mid d = treeRead st d"
    by (auto simp: treeRead_treeWrite)
  moreover from Cons.IH [OF r] Cons.prems(2) have "treeRead st' d = treeRead mid d" by simp
  ultimately show ?case by simp
qed

lemma forEach_moveStory_last:
  assumes run: "forEach (xs @ q # ys) (moveStory ev opts) st = Done st'"
    and last: "\<forall>r \<in> set ys. last (splitPathFragments r) \<noteq> last (splitPathFragments q)"
  shows "\<exists>mid contents.
           forEach xs (moveStory ev opts) st = Done mid
         \<and> readText ev mid q = Some contents \<and> contents \<noteq> []
         \<and> treeRead st' (storyDestination opts q) = Some (Text (movedStoryText opts q contents))"
proof -
  from run obtain mid where
    a: "forEach xs (moveStory ev opts) st = Done mid"
    and b: "forEach (q # ys) (moveStory ev opts) mid = Done st'"
    unfolding forEach_append using andThen_Done by blast
  from b obtain mid' where
    c: "moveStory ev opts q mid = Done mid'" and d: "forEach ys (moveStory ev opts) mid' = Done st'"
    using andThen_Done by fastforce
  from moveStory_Done [OF c] obtain contents where
    e: "readText ev mid q = Some contents" "contents \<noteq> []"
       "mid' = treeWrite (storyDestination opts q) (Text (movedStoryText opts q contents)) mid"
    by blast
  from last have "\<forall>r \<in> set ys. rp (storyDestination opts r) \<noteq> rp (storyDestination opts q)"
    using storyDestination_inj by blast
  from forEach_moveStory_other [OF d this] e(3)
  have "treeRead st' (storyDestination opts q) = Some (Text (movedStoryText opts q contents))"
    by (simp add: treeRead_treeWrite)
  with a e show ?thesis by blast
qed

lemma forEach_moveStory_each:
  assumes run: "forEach ps (moveStory ev opts) st = Done st'"
    and p: "p \<in> set ps"
  shows "\<exists>xs q ys mid contents.
           ps = xs @ q # ys
         \<and> last (splitPathFragments q) = last (splitPathFragments p)
         \<and> (\<forall>r \<in> set ys. last (splitPathFragments r) \<noteq> last (splitPathFragments p))
         \<and> forEach xs (moveStory ev opts) st = Done mid
         \<and> readText ev mid q = Some contents \<and> contents \<noteq> []
         \<and> treeRead st' (storyDestination opts p) = Some (Text (movedStoryText opts q contents))"
proof -
  from p have "\<exists>r \<in> set ps. last (splitPathFragments r) = last (splitPathFragments p)" by blast
  from split_list_last_prop [OF this] obtain xs q ys where
    s: "ps = xs @ q # ys" "last (splitPathFragments q) = last (splitPathFragments p)"
       "\<forall>r \<in> set ys. last (splitPathFragments r) \<noteq> last (splitPathFragments p)"
    by blast
  from s(2,3) have l: "\<forall>r \<in> set ys. last (splitPathFragments r) \<noteq> last (splitPathFragments q)"
    by simp
  from forEach_moveStory_last [OF run [unfolded s(1)] l] obtain mid contents where
    m: "forEach xs (moveStory ev opts) st = Done mid" "readText ev mid q = Some contents"
       "contents \<noteq> []"
       "treeRead st' (storyDestination opts q) = Some (Text (movedStoryText opts q contents))"
    by blast
  from s(2) have "storyDestination opts q = storyDestination opts p"
    by (simp add: storyDestination_def)
  with s m show ?thesis by metis
qed

lemma readText_treeWrite:
  "readText ev (treeWrite p (Text t) st) q = (if rp q = rp p then Some t else readText ev st q)"
  by (simp add: readText_def treeRead_treeWrite)

lemma forEach_moveStory_total:
  assumes "\<forall>r \<in> set ps. \<exists>contents. readText ev st r = Some contents \<and> contents \<noteq> []"
  shows "\<exists>st'. forEach ps (moveStory ev opts) st = Done st'"
  using assms
proof (induction ps arbitrary: st)
  case Nil
  then show ?case by simp
next
  case (Cons p ps)
  from Cons.prems obtain contents where c: "readText ev st p = Some contents" "contents \<noteq> []"
    by auto
  let ?mid = "treeWrite (storyDestination opts p) (Text (movedStoryText opts p contents)) st"
  from c have m: "moveStory ev opts p st = Done ?mid"
    by (simp add: moveStory_def storyDestination_def movedStoryText_def Let_def)
  have "movedStoryText opts p contents \<noteq> []"
    by (simp add: movedStoryText_def)
  with Cons.prems
  have "\<forall>r \<in> set ps. \<exists>contents. readText ev ?mid r = Some contents \<and> contents \<noteq> []"
    by (simp add: readText_treeWrite)
  from Cons.IH [OF this] m show ?case by simp
qed

text \<open>
  Claim C10.  Story relocation flattens the directories.  When every matched story has a
  text, \<^verbatim>\<open>moveStorybookFromReactExamples\<close> finishes, and then for every matched story \<open>p\<close>,
  whatever its depth, the file \<^verbatim>\<open><project root>/src/<last segment of p>\<close> holds the moved text
  of \<open>q\<close>, the story visited last among those with the same last segment as \<open>p\<close>: the text read
  from \<open>q\<close> when its turn came, rewritten, with the default export appended.  So of two
  stories with one file name the later one overwrites the earlier one.
\<close>

theorem moved_stories_are_flattened:
  assumes cfg: "getReactExamplesProjectConfig st opts = Inr reactExamplesConfig"
    and texts: "\<forall>r \<in> set (storyPathsOf ev st (root reactExamplesConfig @ ''/src/'' @ normalizedPkgName opts)).
                  \<exists>contents. readText ev st r = Some contents \<and> contents \<noteq> []"
    and p: "p \<in> set (storyPathsOf ev st (root reactExamplesConfig @ ''/src/'' @ normalizedPkgName opts))"
  shows "\<exists>st' xs q ys mid contents.
           moveStorybookFromReactExamples ev opts st = Done st'
         \<and> storyPathsOf ev st (root reactExamplesConfig @ ''/src/'' @ normalizedPkgName opts) = xs @ q # ys
         \<and> last (splitPathFragments q) = last (splitPathFragments p)
         \<and> (\<forall>r \<in> set ys. last (splitPathFragments r) \<noteq> last (splitPathFragments p))
         \<and> forEach xs (moveStory ev opts) st = Done mid
         \<and> readText ev mid q = Some contents \<and> contents \<noteq> []
         \<and> treeRead st' (joinPathFragments [root (projectConfig opts), ''src'',
                                              last (splitPathFragments p)]) =
             Some (Text (replaceFirst (pkgName opts) ''./index'' contents @ ''\<newline>\<newline>''
                         @ storyDefaultExport (componentNameOf (last (splitPathFragments q)))))"
proof -
  let ?ps = "storyPathsOf ev st (root reactExamplesConfig @ ''/src/'' @ normalizedPkgName opts)"
  from forEach_moveStory_total [OF texts] obtain st' where
    loop: "forEach ?ps (moveStory ev opts) st = Done st'"
    by blast
  from p have "?ps \<noteq> []" by auto
  with cfg loop have run: "moveStorybookFromReactExamples ev opts st = Done st'"
    by (simp add: moveStorybookFromReactExamples_def Let_def)
  from forEach_moveStory_each [OF loop p] run show ?thesis
    unfolding storyDestination_def movedStoryText_def by blast
qed

lemma nestedStories_paths:
  "getReactExamplesProjectConfig nestedStoriesWorkspace yOptions =
     Inr \<lparr>root = ''packages/react-examples'', sourceRoot = None, tags = None\<rparr>"
  "storyPathsOf exampleEnv nestedStoriesWorkspace ''packages/react-examples/src/y'' =
     [''packages/react-examples/src/y/a/One.stories.tsx'',
      ''packages/react-examples/src/y/a/Button.stories.tsx'',
      ''packages/react-examples/src/y/b/Button.stories.tsx'']"
  by (simp_all add: getReactExamplesProjectConfig_def readProjectConfiguration_def yOptions_def
        nestedStoriesWorkspace_def storyPathsOf_def visitNotIgnoredFiles_def childrenOf_def
        firstSegment_def below_def joinDir_def inDir_def rp_def readText_def treeRead_def
        exampleEnv_def ignoresPlainPatterns_def)

lemma nestedStories_texts:
  "\<forall>r \<in> set (storyPathsOf exampleEnv nestedStoriesWorkspace ''packages/react-examples/src/y'').
     \<exists>contents. readText exampleEnv nestedStoriesWorkspace r = Some contents \<and> contents \<noteq> []"
  unfolding nestedStories_paths
  by (simp add: readText_def treeRead_def rp_def nestedStoriesWorkspace_def)

lemma last_split_Button:
  "last (splitPathFragments ''packages/react-examples/src/y/Button.stories.tsx'') = ''Button.stories.tsx''"
  "last (splitPathFragments ''packages/react-examples/src/y/a/Button.stories.tsx'') = ''Button.stories.tsx''"
  "last (splitPathFragments ''packages/react-examples/src/y/b/Button.stories.tsx'') = ''Button.stories.tsx''"
  "last (splitPathFragments ''packages/react-examples/src/y/a/One.stories.tsx'') = ''One.stories.tsx''"
  by (simp_all add: splitPathFragments_def)

lemma componentNameOf_Button:
  "componentNameOf ''Button.stories.tsx'' = ''Button''"
  "componentNameOf ''One.stories.tsx'' = ''One''"
  by (simp_all add: componentNameOf_def suffix_def)

lemma moveStory_nested:
  "moveStory exampleEnv yOptions ''packages/react-examples/src/y/a/One.stories.tsx''
     nestedStoriesWorkspace = Done nestedStoriesOne"
  "moveStory exampleEnv yOptions ''packages/react-examples/src/y/a/Button.stories.tsx''
     nestedStoriesOne = Done nestedStoriesMid"
  "moveStory exampleEnv yOptions ''packages/react-examples/src/y/b/Button.stories.tsx''
     nestedStoriesMid = Done nestedStoriesMoved"
  unfolding moveStory_def Let_def last_split_Button componentNameOf_Button
    nestedStoriesOne_def nestedStoriesMid_def nestedStoriesMoved_def
  by (simp_all add: readText_def treeRead_def treeWrite_def rp_def nestedStoriesWorkspace_def
        yOptions_def)

lemma moveStorybook_nested:
  "moveStorybookFromReactExamples exampleEnv yOptions nestedStoriesWorkspace = Done nestedStoriesMoved"
proof -
  have n: "normalizedPkgName yOptions = ''y''" by (simp add: yOptions_def)
  show ?thesis
    unfolding moveStorybookFromReactExamples_def Let_def n
    by (simp add: nestedStories_paths moveStory_nested)
qed

text \<open>
  The stories directory of \<^verbatim>\<open>@scope/y\<close> is walked directory by directory: \<^verbatim>\<open>a/One\<close>, \<^verbatim>\<open>a/Button\<close>,
  \<^verbatim>\<open>b/Button\<close>; the directory \<^verbatim>\<open>drafts\<close> is ignored.  Both \<^verbatim>\<open>Button.stories.tsx\<close> go to
  \<^verbatim>\<open>packages/y/src/Button.stories.tsx\<close>, which ends with the text of the one in \<^verbatim>\<open>b\<close>; the
  ignored story is not moved.
\<close>

theorem moved_stories_are_flattened_witness:
  "moveStorybookFromReactExamples exampleEnv yOptions nestedStoriesWorkspace = Done nestedStoriesMoved
   \<and> (\<exists>xs q ys mid contents.
       storyPathsOf exampleEnv nestedStoriesWorkspace ''packages/react-examples/src/y'' = xs @ q # ys
     \<and> last (splitPathFragments q) = ''Button.stories.tsx''
     \<and> (\<forall>r \<in> set ys. last (splitPathFragments r) \<noteq> ''Button.stories.tsx'')
     \<and> forEach xs (moveStory exampleEnv yOptions) nestedStoriesWorkspace = Done mid
     \<and> readText exampleEnv mid q = Some contents \<and> contents \<noteq> []
     \<and> treeRead nestedStoriesMoved ''packages/y/src/Button.stories.tsx'' =
         Some (Text (replaceFirst ''@scope/y'' ''./index'' contents @ ''\<newline>\<newline>''
                     @ storyDefaultExport (componentNameOf (last (splitPathFragments q))))))
   \<and> storyPathsOf exampleEnv nestedStoriesWorkspace ''packages/react-examples/src/y'' =
       [''packages/react-examples/src/y/a/One.stories.tsx'',
        ''packages/react-examples/src/y/a/Button.stories.tsx'',
        ''packages/react-examples/src/y/b/Button.stories.tsx'']
   \<and> treeRead nestedStoriesMoved ''packages/y/src/Button.stories.tsx'' =
       Some (Text (''export const B = 2;'' @ ''\<newline>\<newline>'' @ storyDefaultExport ''Button''))
   \<and> treeRead nestedStoriesMoved ''packages/y/src/One.stories.tsx'' =
       Some (Text (''export const One = 1;'' @ ''\<newline>\<newline>'' @ storyDefaultExport ''One''))
   \<and> treeRead nestedStoriesMoved ''packages/y/src/Draft.stories.tsx'' = None"
proof -
  have o: "root \<lparr>root = ''packages/react-examples'', sourceRoot = None, tags = None\<rparr>
               @ ''/src/'' @ normalizedPkgName yOptions = ''packages/react-examples/src/y''"
     "joinPathFragments [root (projectConfig yOptions), ''src'', ''Button.stories.tsx''] =
        ''packages/y/src/Button.stories.tsx''"
     "pkgName yOptions = ''@scope/y''"
    by (simp_all add: yOptions_def)
  have p: "''packages/react-examples/src/y/a/Button.stories.tsx'' \<in>
       set (storyPathsOf exampleEnv nestedStoriesWorkspace
              (root \<lparr>root = ''packages/react-examples'', sourceRoot = None, tags = None\<rparr>
               @ ''/src/'' @ normalizedPkgName yOptions))"
    unfolding o by (simp add: nestedStories_paths(2))
  have t: "\<forall>r \<in> set (storyPathsOf exampleEnv nestedStoriesWorkspace
              (root \<lparr>root = ''packages/react-examples'', sourceRoot = None, tags = None\<rparr>
               @ ''/src/'' @ normalizedPkgName yOptions)).
     \<exists>contents. readText exampleEnv nestedStoriesWorkspace r = Some contents \<and> contents \<noteq> []"
    unfolding o by (rule nestedStories_texts)
  have e: "treeRead nestedStoriesMoved ''packages/y/src/Button.stories.tsx'' =
       Some (Text (''export const B = 2;'' @ ''\<newline>\<newline>'' @ storyDefaultExport ''Button''))"
    "treeRead nestedStoriesMoved ''packages/y/src/One.stories.tsx'' =
       Some (Text (''export const One = 1;'' @ ''\<newline>\<newline>'' @ storyDefaultExport ''One''))"
    "treeRead nestedStoriesMoved ''packages/y/src/Draft.stories.tsx'' = None"
    by (simp_all add: treeRead_def rp_def nestedStoriesMoved_def nestedStoriesWorkspace_def)
  from moved_stories_are_flattened [OF nestedStories_paths(1) t p]
  have "\<exists>xs q ys mid contents.
       storyPathsOf exampleEnv nestedStoriesWorkspace ''packages/react-examples/src/y'' = xs @ q # ys
     \<and> last (splitPathFragments q) = ''Button.stories.tsx''
     \<and> (\<forall>r \<in> set ys. last (splitPathFragments r) \<noteq> ''Button.stories.tsx'')
     \<and> forEach xs (moveStory exampleEnv yOptions) nestedStoriesWorkspace = Done mid
     \<and> readText exampleEnv mid q = Some contents \<and> contents \<noteq> []
     \<and> treeRead nestedStoriesMoved ''packages/y/src/Button.stories.tsx'' =
         Some (Text (replaceFirst ''@scope/y'' ''./index'' contents @ ''\<newline>\<newline>''
                     @ storyDefaultExport (componentNameOf (last (splitPathFragments q)))))"
    unfolding o last_split_Button moveStorybook_nested by blast
  with moveStorybook_nested nestedStories_paths(2) e show ?thesis by blast
qed

lemma twoImports_paths:
  "getReactExamplesProjectConfig twoImportsWorkspace yOptions =
     Inr \<lparr>root = ''packages/react-examples'', sourceRoot = None, tags = None\<rparr>"
  "storyPathsOf exampleEnv twoImportsWorkspace ''packages/react-examples/src/y'' =
     [''packages/react-examples/src/y/Button.stories.tsx'']"
  by (simp_all add: getReactExamplesProjectConfig_def readProjectConfiguration_def yOptions_def
        twoImportsWorkspace_def storyPathsOf_def visitNotIgnoredFiles_def childrenOf_def
        firstSegment_def below_def joinDir_def inDir_def rp_def readText_def treeRead_def)

lemma moveStory_twoImports:
  "moveStory exampleEnv yOptions ''packages/react-examples/src/y/Button.stories.tsx''
     twoImportsWorkspace =
   Done (twoImportsWorkspace\<lparr>files := files twoImportsWorkspace @
       [(''packages/y/src/Button.stories.tsx'',
         Text (joinLines [''import { Button } from './index';'',
                          ''import { ButtonProps } from '@scope/y';'',
                          [],
                          ''export default {'',
                          ''title: 'Components/Button','',
                          ''component: Button,'',
                          ''}'']))]\<rparr>)"
  unfolding moveStory_def Let_def last_split_Button componentNameOf_Button
  by (simp add: readText_def treeRead_def treeWrite_def rp_def twoImportsWorkspace_def yOptions_def
        storyDefaultExport_def quoted_def)

text \<open>
  Claim C1, at a story that names the package twice.  The text written to
  \<^verbatim>\<open>packages/y/src/Button.stories.tsx\<close> has \<^verbatim>\<open>./index\<close> in place of the first \<^verbatim>\<open>@scope/y\<close> only:
  \<^verbatim>\<open>contents.replace(options.name, './index')\<close> with a string pattern replaces one occurrence.
  The second import still names \<^verbatim>\<open>@scope/y\<close>.
\<close>

theorem story_relocation_replaces_first_import_only:
  "moveStorybookFromReactExamples exampleEnv yOptions twoImportsWorkspace =
   Done (twoImportsWorkspace\<lparr>files := files twoImportsWorkspace @
       [(''packages/y/src/Button.stories.tsx'',
         Text (joinLines [''import { Button } from './index';'',
                          ''import { ButtonProps } from '@scope/y';'',
                          [],
                          ''export default {'',
                          ''title: 'Components/Button','',
                          ''component: Button,'',
                          ''}'']))]\<rparr>)"
proof -
  have n: "normalizedPkgName yOptions = ''y''" by (simp add: yOptions_def)
  show ?thesis
    unfolding moveStorybookFromReactExamples_def Let_def n
    by (simp add: twoImports_paths moveStory_twoImports del: joinLines.simps)
qed

subsection \<open>Batch migration\<close>

lemmas migration_steps =
  runMigrationOnProject_def normalizeOptions_def
  updatedLocalTsConfig_def updatedBaseTsConfig_def updateLocalJestConfig_def updateRootJestConfig_def
  setupStorybook_def moveStorybookFromReactExamples_def removeMigratedPackageFromReactExamples_def
  updateNpmScripts_def updateApiExtractorForLocalBuilds_def setupNpmConfig_def updateNxWorkspace_def
  updateProjectConfiguration_def updateJson_def readJson_def treeRead_def treeWrite_def treeExists_def
  treeDelete_def rp_def inDir_def oldConfigTypes_def asObject_def objectOrEmpty_def stringsOrEmpty_def
  initialTsconfigTypes_def addPathAliases_def depsThatNeedToBecomeAliases_def aliasTarget_def
  objectAssign_def basename_def splitPathFragments_def exampleEnv_def
  getReactExamplesProjectConfig_def readProjectConfiguration_def storyPathsOf_def
  visitNotIgnoredFiles_def childrenOf_def firstSegment_def below_def joinDir_def
  moveStory_def readText_def componentNameOf_def suffix_def
  removeDependency_def rewriteScripts_def

lemmas migration_evaluation = migration_steps [unfolded Let_def]

lemma runMigrationOnProject_y:
  "runMigrationOnProject exampleEnv ''@scope/y'' (migrationWorkspace\<lparr>userLog := l\<rparr>) =
     Done (yMigrated\<lparr>userLog := l @ userLog yMigrated\<rparr>)"
  by (simp add: migration_evaluation yOptions_def migrationWorkspace_def yMigrated_def yManifest_def)

text \<open>
  Claim C3 as stated fails: the entry logged for a skipped project has the severity
  \<^verbatim>\<open>error\<close>.  A batch over one project on version 8 ends with a log of one entry, an error,
  and no warning.
\<close>

theorem batch_skip_logs_no_warning:
  "runBatchMigration exampleEnv experimentsWorkspace =
     Done (experimentsWorkspace\<lparr>userLog :=
       [(LogError, ''@fluentui/react-experiments is not converged package. Skipping migration...'')]\<rparr>)
   \<and> count_list
         (map fst [(LogError, ''@fluentui/react-experiments is not converged package. Skipping migration...'')])
         LogWarn = 0"
  by (simp add: runBatchMigration_def migrateOrSkip_def experimentsWorkspace_def
        isPackageConverged_def readJson_def treeRead_def rp_def)

lemma migrateOrSkip_ineligible:
  "isPackageConverged st project = Inr False \<Longrightarrow>
   migrateOrSkip ev (projectName, project) st = Done (st\<lparr>userLog := userLog st @ [skipEntry projectName]\<rparr>)"
  by (simp add: migrateOrSkip_def skipEntry_def)

lemma migrateOrSkip_eligible:
  "isPackageConverged st project = Inr True \<Longrightarrow>
   migrateOrSkip ev (projectName, project) st = runMigrationOnProject ev projectName st"
  by (simp add: migrateOrSkip_def)

text \<open>
  Claim C3, amended.  When the batch has reached a project in the state \<open>mid\<close>: if the
  project is not converged, exactly one entry is appended to the user log, of severity
  \<^verbatim>\<open>error\<close>, nothing else changes and the batch goes on with the remaining projects; if it is
  converged, the whole of \<^verbatim>\<open>runMigrationOnProject\<close> runs on it before the remaining projects
  are visited.
\<close>

theorem batch_skips_ineligible_and_continues:
  assumes "projects st = pre @ (projectName, project) # post"
    and "forEach pre (migrateOrSkip ev) st = Done mid"
  shows "(isPackageConverged mid project = Inr False \<longrightarrow>
            runBatchMigration ev st =
              forEach post (migrateOrSkip ev)
                (mid\<lparr>userLog := userLog mid @
                   [(LogError, projectName @ '' is not converged package. Skipping migration...'')]\<rparr>))
       \<and> (isPackageConverged mid project = Inr True \<longrightarrow>
            runBatchMigration ev st =
              andThen (runMigrationOnProject ev projectName mid) (forEach post (migrateOrSkip ev)))"
proof -
  have "runBatchMigration ev st =
          andThen (migrateOrSkip ev (projectName, project) mid) (forEach post (migrateOrSkip ev))"
    using assms by (simp add: runBatchMigration_def forEach_append)
  then show ?thesis
    by (auto simp: migrateOrSkip_ineligible migrateOrSkip_eligible skipEntry_def)
qed

lemma isPackageConverged_userLog [simp]:
  "isPackageConverged (st\<lparr>userLog := l\<rparr>) project = isPackageConverged st project"
  by (simp add: isPackageConverged_def readJson_def treeRead_def)

lemma migrationWorkspace_converged:
  "isPackageConverged migrationWorkspace \<lparr>root = ''packages/x'', sourceRoot = None, tags = None\<rparr> = Inr False"
  "isPackageConverged migrationWorkspace \<lparr>root = ''packages/y'', sourceRoot = None, tags = None\<rparr> = Inr True"
  "isPackageConverged yMigrated \<lparr>root = ''packages/react-examples'', sourceRoot = None, tags = None\<rparr> = Inr False"
  by (simp_all add: migrationWorkspace_def yMigrated_def yManifest_def isPackageConverged_def
        readJson_def treeRead_def rp_def)

lemma migrationWorkspace_projects:
  "projects migrationWorkspace =
     [(''@scope/x'', \<lparr>root = ''packages/x'', sourceRoot = None, tags = None\<rparr>),
      (''@scope/y'', \<lparr>root = ''packages/y'', sourceRoot = None, tags = None\<rparr>),
      (''@scope/react-examples'', \<lparr>root = ''packages/react-examples'', sourceRoot = None, tags = None\<rparr>)]"
  "userLog migrationWorkspace = []"
  by (simp_all add: migrationWorkspace_def)

text \<open>
  The batch over \<^verbatim>\<open>@scope/x\<close> (version 8), \<^verbatim>\<open>@scope/y\<close> (version 9) and the examples project
  (version 8): two projects skipped with one error entry each, \<^verbatim>\<open>@scope/y\<close> migrated.
\<close>

theorem batch_skips_ineligible_and_continues_witness:
  "runBatchMigration exampleEnv migrationWorkspace =
     forEach [(''@scope/y'', \<lparr>root = ''packages/y'', sourceRoot = None, tags = None\<rparr>),
              (''@scope/react-examples'',
                 \<lparr>root = ''packages/react-examples'', sourceRoot = None, tags = None\<rparr>)]
       (migrateOrSkip exampleEnv)
       (migrationWorkspace\<lparr>userLog :=
          [(LogError, ''@scope/x is not converged package. Skipping migration...'')]\<rparr>)
   \<and> runBatchMigration exampleEnv migrationWorkspace =
     Done (yMigrated\<lparr>userLog :=
       [(LogError, ''@scope/x is not converged package. Skipping migration...''),
        (LogWarn, ''NOTE: Deleting packages/react-examples/src/y''),
        (LogWarn, ''      - Please update your moved stories to follow standard storybook format\<newline>''),
        (LogError, ''@scope/react-examples is not converged package. Skipping migration...'')]\<rparr>)"
proof -
  let ?x = "\<lparr>root = ''packages/x'', sourceRoot = None, tags = None\<rparr>"
  let ?y = "\<lparr>root = ''packages/y'', sourceRoot = None, tags = None\<rparr>"
  let ?e = "\<lparr>root = ''packages/react-examples'', sourceRoot = None, tags = None\<rparr>"
  let ?mid = "migrationWorkspace\<lparr>userLog :=
          [(LogError, ''@scope/x is not converged package. Skipping migration...'')]\<rparr>"
  have p1: "projects migrationWorkspace =
      [] @ (''@scope/x'', ?x) # [(''@scope/y'', ?y), (''@scope/react-examples'', ?e)]"
    by (simp add: migrationWorkspace_projects)
  have f1: "forEach [] (migrateOrSkip exampleEnv) migrationWorkspace = Done migrationWorkspace"
    by simp
  from batch_skips_ineligible_and_continues [OF p1 f1] migrationWorkspace_converged(1)
  have skipped: "runBatchMigration exampleEnv migrationWorkspace =
      forEach [(''@scope/y'', ?y), (''@scope/react-examples'', ?e)] (migrateOrSkip exampleEnv) ?mid"
    by (simp add: migrationWorkspace_projects)
  have p2: "projects migrationWorkspace =
      [(''@scope/x'', ?x)] @ (''@scope/y'', ?y) # [(''@scope/react-examples'', ?e)]"
    by (simp add: migrationWorkspace_projects)
  have f2: "forEach [(''@scope/x'', ?x)] (migrateOrSkip exampleEnv) migrationWorkspace = Done ?mid"
    by (simp add: migrateOrSkip_def migrationWorkspace_converged migrationWorkspace_projects)
  have c2: "isPackageConverged ?mid ?y = Inr True"
    by (simp add: migrationWorkspace_converged)
  from batch_skips_ineligible_and_continues [OF p2 f2] c2
  have "runBatchMigration exampleEnv migrationWorkspace =
      andThen (runMigrationOnProject exampleEnv ''@scope/y'' ?mid)
        (forEach [(''@scope/react-examples'', ?e)] (migrateOrSkip exampleEnv))"
    by simp
  also have "\<dots> = Done (yMigrated\<lparr>userLog :=
       [(LogError, ''@scope/x is not converged package. Skipping migration...''),
        (LogWarn, ''NOTE: Deleting packages/react-examples/src/y''),
        (LogWarn, ''      - Please update your moved stories to follow standard storybook format\<newline>''),
        (LogError, ''@scope/react-examples is not converged package. Skipping migration...'')]\<rparr>)"
    by (simp add: migrateOrSkip_def migrationWorkspace_converged runMigrationOnProject_y)
      (simp add: yMigrated_def)
  finally show ?thesis using skipped by simp
qed

subsection \<open>Idempotence of the migration\<close>

lemma set_uniqueArray [simp]: "set (uniqueArray xs) = set xs"
  by (induction xs rule: uniqueArray.induct) auto

lemma distinct_uniqueArray [simp]: "distinct (uniqueArray xs)"
  by (induction xs rule: uniqueArray.induct) auto

lemma uniqueArray_distinct: "distinct xs \<Longrightarrow> uniqueArray xs = xs"
  by (induction xs) (auto simp: removeAll_id)

lemma uniqueArray_absorb: "set ys \<subseteq> set xs \<Longrightarrow> uniqueArray (xs @ ys) = uniqueArray xs"
proof (induction xs arbitrary: ys rule: uniqueArray.induct)
  case 1
  then show ?case by simp
next
  case (2 x xs)
  from "2.prems" have "set (removeAll x ys) \<subseteq> set (removeAll x xs)" by auto
  from "2.IH" [OF this] show ?case by simp
qed

lemma uniqueArray_twice: "uniqueArray (uniqueArray xs @ uniqueArray xs) = uniqueArray xs"
  by (simp add: uniqueArray_absorb uniqueArray_distinct)

lemma uniqueArray_again:
  "set ys \<subseteq> set (xs @ ys) \<Longrightarrow> uniqueArray (uniqueArray (xs @ ys) @ ys) = uniqueArray (xs @ ys)"
  by (simp add: uniqueArray_absorb uniqueArray_distinct)

lemma strings_map_JStr [simp]: "strings (map JStr ss) = Some ss"
  by (induction ss) simp_all

lemma delete_absent: "map_of al k = None \<Longrightarrow> AList.delete k al = al"
  by (induction al) (auto split: if_splits)

lemma objectAssign_present:
  "\<forall>(k, v) \<in> set source. map_of target k = Some v \<Longrightarrow> objectAssign target source = target"
proof (induction source)
  case Nil
  then show ?case by (simp add: objectAssign_def)
next
  case (Cons e source)
  obtain k v where e: "e = (k, v)" by (cases e)
  from Cons.prems have "map_of target k = Some v" by (simp add: e)
  then have "AList.update k v target = target" by (rule update_triv)
  with Cons show ?case by (simp add: e objectAssign_Cons)
qed

text \<open>The tree operations.\<close>

lemma treeWrite_same: "treeRead st p = Some c \<Longrightarrow> treeWrite p c st = st"
  by (simp add: treeRead_def treeWrite_def update_triv)

lemma treeRead_fields [simp]:
  "treeRead (st\<lparr>userLog := l\<rparr>) q = treeRead st q"
  "treeRead (st\<lparr>tsconfigTypes := t\<rparr>) q = treeRead st q"
  "treeRead (st\<lparr>projects := ps\<rparr>) q = treeRead st q"
  by (simp_all add: treeRead_def)

lemma treeExists_fields [simp]:
  "treeExists (st\<lparr>userLog := l\<rparr>) q = treeExists st q"
  "treeExists (st\<lparr>tsconfigTypes := t\<rparr>) q = treeExists st q"
  "treeExists (st\<lparr>projects := ps\<rparr>) q = treeExists st q"
  by (simp_all add: treeExists_def)

lemma treeWrite_fields [simp]:
  "projects (treeWrite p c st) = projects st"
  "npmScope (treeWrite p c st) = npmScope st"
  "tsconfigTypes (treeWrite p c st) = tsconfigTypes st"
  "userLog (treeWrite p c st) = userLog st"
  by (simp_all add: treeWrite_def)

lemma treeDelete_fields [simp]:
  "projects (treeDelete p st) = projects st"
  "npmScope (treeDelete p st) = npmScope st"
  "tsconfigTypes (treeDelete p st) = tsconfigTypes st"
  "userLog (treeDelete p st) = userLog st"
  by (simp_all add: treeDelete_def)

lemma map_of_filter_keys:
  "map_of (filter (\<lambda>(q, c). P q) al) k = (if P k then map_of al k else None)"
  by (induction al) auto

lemma treeRead_treeDelete:
  "treeRead (treeDelete d st) q =
     (if rp q = rp d \<or> inDir (rp d) (rp q) then None else treeRead st q)"
  by (simp add: treeRead_def treeDelete_def map_of_filter_keys)

lemma keys_update: "fst ` set (AList.update k v al) = insert k (fst ` set al)"
  by (induction al) auto

lemma treeExists_treeWrite:
  "treeExists (treeWrite p c st) q = (treeExists st q \<or> rp p = rp q \<or> inDir (rp q) (rp p))"
  by (auto simp: treeExists_def treeWrite_def keys_update)

lemma treeExists_treeDelete:
  "treeExists (treeDelete d st) q =
     (\<exists>k \<in> fst ` set (files st). (k = rp q \<or> inDir (rp q) k) \<and> \<not> (k = rp d \<or> inDir (rp d) k))"
proof -
  have "fst ` set (filter (\<lambda>(q, c). \<not> (q = rp d \<or> inDir (rp d) q)) (files st)) =
          {k \<in> fst ` set (files st). \<not> (k = rp d \<or> inDir (rp d) k)}"
    by force
  then show ?thesis
    unfolding treeExists_def treeDelete_def by (simp add: image_set [symmetric] del: image_set) blast
qed

lemma treeExists_treeDelete_self [simp]: "\<not> treeExists (treeDelete d st) d"
  by (auto simp: treeExists_treeDelete)

text \<open>Two paths of which neither is the other nor lies below it.\<close>

lemma inDir_comparable:
  assumes "inDir a k" and "k = b \<or> inDir b k"
  shows "a = b \<or> inDir a b \<or> inDir b a"
proof -
  from assms(1) have a: "prefix (a @ ''/'') k" by (simp add: inDir_def)
  from assms(2) show ?thesis
  proof
    assume "k = b"
    with assms(1) show ?thesis by simp
  next
    assume "inDir b k"
    then have b: "prefix (b @ ''/'') k" by (simp add: inDir_def)
    have step: "x = y \<or> inDir x y" if p: "prefix (x @ ''/'') (y @ ''/'')" for x y :: string
    proof (cases "x @ ''/'' = y @ ''/''")
      case True
      then show ?thesis by simp
    next
      case False
      with p obtain r where r: "y @ ''/'' = (x @ ''/'') @ r" "r \<noteq> []"
        by (auto simp: prefix_def)
      from r(2) obtain r' c where rc: "r = r' @ [c]" by (metis rev_exhaust)
      with r(1) have "y = x @ ''/'' @ r'" by simp
      then show ?thesis by (simp add: inDir_def)
    qed
    from a b have "prefix (a @ ''/'') (b @ ''/'') \<or> prefix (b @ ''/'') (a @ ''/'')"
      by (rule prefix_same_cases)
    with step [of a b] step [of b a] show ?thesis by auto
  qed
qed

text \<open>The successful outcomes of the steps.\<close>

lemma updatedLocalTsConfig_Done:
  assumes "updatedLocalTsConfig opts s = Done s'"
  shows "\<exists>old. s' = treeWrite (tsconfig (optPaths opts))
                      (Json (tsconfigTemplate (uniqueArray (tsconfigTypes s @ old))))
                      (s\<lparr>tsconfigTypes := uniqueArray (tsconfigTypes s @ old)\<rparr>)"
  using assms unfolding updatedLocalTsConfig_def Let_def
  by (auto split: sum.splits)

lemma updateJson_Done:
  assumes "updateJson p f s = Done s'"
  shows "\<exists>j j'. readJson s p = Inr j \<and> f j = Inr j' \<and> s' = treeWrite p (Json j') s"
  using assms unfolding updateJson_def by (auto split: sum.splits)

lemma readJson_Inr: "readJson s p = Inr j \<longleftrightarrow> treeRead s p = Some (Json j)"
  unfolding readJson_def by (auto split: option.splits content.splits)

lemma asObject_Inr: "asObject what v = Inr obj \<longleftrightarrow> v = Some (JObj obj)"
  unfolding asObject_def by (auto split: option.splits json.splits)

lemma addPathAliases_Inr:
  assumes "addPathAliases opts aliases j = Inr j'"
  shows "\<exists>obj compilerOptions oldPaths.
           j = JObj obj \<and> map_of obj ''compilerOptions'' = Some (JObj compilerOptions)
         \<and> objectOrEmpty ''paths'' (map_of compilerOptions ''paths'') = Inr oldPaths
         \<and> j' = JObj (AList.update ''compilerOptions''
                   (JObj (AList.update ''paths''
                      (JObj (objectAssign
                         (AList.update (pkgName opts)
                            (JArr [JStr (root (projectConfig opts) @ ''/src/index.ts'')]) oldPaths)
                         aliases)) compilerOptions)) obj)"
  using assms unfolding addPathAliases_def Let_def
  by (auto split: sum.splits simp: asObject_Inr)

lemma updatedBaseTsConfig_Done:
  assumes "updatedBaseTsConfig opts s = Done s'"
  shows "\<exists>pkg dependencies j j'.
           treeRead s (packageJson (optPaths opts)) = Some (Json (JObj pkg))
         \<and> objectOrEmpty ''dependencies'' (map_of pkg ''dependencies'') = Inr dependencies
         \<and> treeRead s (rootTsconfig (optPaths opts)) = Some (Json j)
         \<and> addPathAliases opts (depsThatNeedToBecomeAliases s dependencies) j = Inr j'
         \<and> s' = treeWrite (rootTsconfig (optPaths opts)) (Json j') s"
proof -
  from assms obtain pj where pj: "readJson s (packageJson (optPaths opts)) = Inr pj"
    unfolding updatedBaseTsConfig_def by (auto split: sum.splits)
  with assms obtain pkg where pkg: "asObject ''package.json'' (Some pj) = Inr pkg"
    unfolding updatedBaseTsConfig_def by (auto split: sum.splits)
  with assms pj obtain dependencies where
    d: "objectOrEmpty ''dependencies'' (map_of pkg ''dependencies'') = Inr dependencies"
    unfolding updatedBaseTsConfig_def by (auto split: sum.splits)
  with assms pj pkg have
    "updateJson (rootTsconfig (optPaths opts))
       (addPathAliases opts (depsThatNeedToBecomeAliases s dependencies)) s = Done s'"
    unfolding updatedBaseTsConfig_def by simp
  from updateJson_Done [OF this] pj pkg d show ?thesis
    by (auto simp: readJson_Inr asObject_Inr)
qed

lemma updateLocalJestConfig_Done:
  assumes "updateLocalJestConfig opts s = Done s'"
  shows "\<exists>pkg dependencies.
           treeRead s (packageJson (optPaths opts)) = Some (Json (JObj pkg))
         \<and> objectOrEmpty ''dependencies'' (map_of pkg ''dependencies'') = Inr dependencies
         \<and> (let s1 = treeWrite (jestConfig (optPaths opts))
                        (Text (jestTemplate (normalizedPkgName opts)
                                 (needsSnapshotSerializers opts dependencies)
                                 (''./'' @ basename (configRoot (optPaths opts)) @ ''/tests.js''))) s
            in s' = (if treeExists s1 (joinPathFragments [configRoot (optPaths opts), ''tests.js''])
                     then s1
                     else treeWrite (joinPathFragments [configRoot (optPaths opts), ''tests.js''])
                            (Text jestSetup) s1))"
proof -
  from assms obtain pj where pj: "readJson s (packageJson (optPaths opts)) = Inr pj"
    unfolding updateLocalJestConfig_def Let_def by (auto split: sum.splits)
  with assms obtain pkg where pkg: "asObject ''package.json'' (Some pj) = Inr pkg"
    unfolding updateLocalJestConfig_def Let_def by (auto split: sum.splits)
  with assms pj obtain dependencies where
    d: "objectOrEmpty ''dependencies'' (map_of pkg ''dependencies'') = Inr dependencies"
    unfolding updateLocalJestConfig_def Let_def by (auto split: sum.splits)
  from assms pj pkg d show ?thesis
    unfolding updateLocalJestConfig_def needsSnapshotSerializers_def Let_def
    by (auto simp: readJson_Inr asObject_Inr split: if_splits)
qed

lemma applyWrites_simps [simp]:
  "applyWrites [] s = s"
  "applyWrites ((p, c) # ws) s = applyWrites ws (treeWrite p c s)"
  by (simp_all add: applyWrites_def)

lemma applyWrites_append: "applyWrites (ws @ ws') s = applyWrites ws' (applyWrites ws s)"
  by (simp add: applyWrites_def)

lemma treeWrite_userLog: "treeWrite p c (s\<lparr>userLog := l\<rparr>) = (treeWrite p c s)\<lparr>userLog := l\<rparr>"
  by (simp add: treeWrite_def)

lemma applyWrites_userLog: "applyWrites ws (s\<lparr>userLog := l\<rparr>) = (applyWrites ws s)\<lparr>userLog := l\<rparr>"
proof (induction ws arbitrary: s)
  case Nil
  then show ?case by simp
next
  case (Cons w ws)
  obtain p c where w: "w = (p, c)" by (cases w)
  from Cons [of "treeWrite p c s"] show ?case by (simp add: w treeWrite_userLog)
qed

lemma applyWrites_read:
  "\<forall>(p, c) \<in> set ws. rp p \<noteq> rp q \<Longrightarrow> treeRead (applyWrites ws s) q = treeRead s q"
  by (induction ws arbitrary: s) (auto simp: treeRead_treeWrite)

lemma applyWrites_exists:
  "treeExists s q \<Longrightarrow> treeExists (applyWrites ws s) q"
  by (induction ws arbitrary: s) (auto simp: treeExists_treeWrite)

lemma applyWrites_not_exists:
  "\<not> treeExists s d \<Longrightarrow> \<forall>(p, c) \<in> set ws. unrelated d p \<Longrightarrow> \<not> treeExists (applyWrites ws s) d"
  by (induction ws arbitrary: s) (auto simp: treeExists_treeWrite unrelated_def)

lemma applyWrites_fields [simp]:
  "projects (applyWrites ws s) = projects s"
  "npmScope (applyWrites ws s) = npmScope s"
  "tsconfigTypes (applyWrites ws s) = tsconfigTypes s"
  by (induction ws arbitrary: s) auto

lemma writesWithin_refl: "writesWithin P s s"
  unfolding writesWithin_def by (rule exI [of _ "[]"], rule exI [of _ "userLog s"]) simp

lemma writesWithin_log: "writesWithin P s (s\<lparr>userLog := l\<rparr>)"
  unfolding writesWithin_def by (rule exI [of _ "[]"], rule exI [of _ l]) simp

lemma writesWithin_write: "P p \<Longrightarrow> writesWithin P s (treeWrite p c s)"
  unfolding writesWithin_def
  by (rule exI [of _ "[(p, c)]"], rule exI [of _ "userLog s"]) (simp add: treeWrite_def)

lemma writesWithin_trans:
  assumes "writesWithin P s s'" and "writesWithin P s' s''"
  shows "writesWithin P s s''"
proof -
  from assms(1) obtain ws l where a: "s' = (applyWrites ws s)\<lparr>userLog := l\<rparr>" "\<forall>(p, c) \<in> set ws. P p"
    unfolding writesWithin_def by blast
  from assms(2) obtain ws' l' where
    b: "s'' = (applyWrites ws' s')\<lparr>userLog := l'\<rparr>" "\<forall>(p, c) \<in> set ws'. P p"
    unfolding writesWithin_def by blast
  from a b have "s'' = (applyWrites (ws @ ws') s)\<lparr>userLog := l'\<rparr>"
    by (simp add: applyWrites_append applyWrites_userLog)
  moreover from a b have "\<forall>(p, c) \<in> set (ws @ ws'). P p" by auto
  ultimately show ?thesis unfolding writesWithin_def by blast
qed

lemma writesWithin_read:
  "writesWithin P s s' \<Longrightarrow> (\<forall>p. P p \<longrightarrow> rp p \<noteq> rp q) \<Longrightarrow> treeRead s' q = treeRead s q"
  unfolding writesWithin_def by (auto simp: applyWrites_read case_prod_beta)

lemma writesWithin_exists:
  "writesWithin P s s' \<Longrightarrow> treeExists s q \<Longrightarrow> treeExists s' q"
  unfolding writesWithin_def by (auto simp: applyWrites_exists)

lemma writesWithin_not_exists:
  "writesWithin P s s' \<Longrightarrow> \<not> treeExists s d \<Longrightarrow> (\<forall>p. P p \<longrightarrow> unrelated d p) \<Longrightarrow> \<not> treeExists s' d"
  unfolding writesWithin_def by (auto simp: applyWrites_not_exists case_prod_beta)

lemma writesWithin_fields:
  assumes "writesWithin P s s'"
  shows "projects s' = projects s" "npmScope s' = npmScope s" "tsconfigTypes s' = tsconfigTypes s"
  using assms unfolding writesWithin_def by auto

lemma forEach_moveStory_writes:
  "forEach ps (moveStory ev opts) s = Done s' \<Longrightarrow>
   writesWithin (\<lambda>p. \<exists>fileName. p = joinPathFragments [root (projectConfig opts), ''src'', fileName]) s s'"
proof (induction ps arbitrary: s)
  case Nil
  then show ?case by (simp add: writesWithin_refl)
next
  case (Cons p ps)
  from Cons.prems obtain mid where
    m: "moveStory ev opts p s = Done mid" and r: "forEach ps (moveStory ev opts) mid = Done s'"
    using andThen_Done by fastforce
  from moveStory_Done [OF m] obtain contents where
    mid: "mid = treeWrite (storyDestination opts p) (Text (movedStoryText opts p contents)) s"
    by blast
  have "\<exists>fileName. storyDestination opts p =
           joinPathFragments [root (projectConfig opts), ''src'', fileName]"
    unfolding storyDestination_def by (rule exI) (rule refl)
  then have
    "writesWithin (\<lambda>p. \<exists>fileName. p = joinPathFragments [root (projectConfig opts), ''src'', fileName]) s mid"
    unfolding mid by (rule writesWithin_write)
  from this Cons.IH [OF r] show ?case by (rule writesWithin_trans)
qed

lemma moveStorybookFromReactExamples_writes:
  assumes "moveStorybookFromReactExamples ev opts s = Done s'"
  shows "writesWithin (\<lambda>p. \<exists>fileName. p = joinPathFragments [root (projectConfig opts), ''src'', fileName]) s s'"
proof -
  from assms obtain ex where ex: "getReactExamplesProjectConfig s opts = Inr ex"
    unfolding moveStorybookFromReactExamples_def by (auto split: sum.splits)
  show ?thesis
  proof (cases "storyPathsOf ev s (root ex @ ''/src/'' @ normalizedPkgName opts) = []")
    case True
    with assms ex show ?thesis
      unfolding moveStorybookFromReactExamples_def Let_def by (auto simp: writesWithin_log)
  next
    case False
    with assms ex have "forEach (storyPathsOf ev s (root ex @ ''/src/'' @ normalizedPkgName opts))
        (moveStory ev opts) s = Done s'"
      unfolding moveStorybookFromReactExamples_def Let_def by simp
    then show ?thesis by (rule forEach_moveStory_writes)
  qed
qed

lemma setupStorybook_writes:
  assumes "setupStorybook opts s = Done s'"
  shows "writesWithin (\<lambda>p. p \<in> {storybookTsconfig (optPaths opts), storybookMain (optPaths opts),
                                 storybookPreview (optPaths opts)}) s s'"
    and "treeRead s' (storybookTsconfig (optPaths opts)) = Some (Json storybookTsconfig_template)
           \<or> rp (storybookTsconfig (optPaths opts)) \<in> {rp (storybookMain (optPaths opts)), rp (storybookPreview (optPaths opts))}"
proof -
  let ?P = "\<lambda>p. p \<in> {storybookTsconfig (optPaths opts), storybookMain (optPaths opts),
                                 storybookPreview (optPaths opts)}"
  from assms have s': "s' = treeWrite (storybookPreview (optPaths opts)) (Text storybookPreview_template)
          (treeWrite (storybookMain (optPaths opts)) (Text storybookMain_template)
          (treeWrite (storybookTsconfig (optPaths opts)) (Json storybookTsconfig_template) s))"
    by (simp add: setupStorybook_def)
  have "writesWithin ?P s (treeWrite (storybookTsconfig (optPaths opts)) (Json storybookTsconfig_template) s)"
    by (rule writesWithin_write) simp
  moreover have "writesWithin ?P (treeWrite (storybookTsconfig (optPaths opts)) (Json storybookTsconfig_template) s)
     (treeWrite (storybookMain (optPaths opts)) (Text storybookMain_template)
          (treeWrite (storybookTsconfig (optPaths opts)) (Json storybookTsconfig_template) s))"
    by (rule writesWithin_write) simp
  moreover have "writesWithin ?P (treeWrite (storybookMain (optPaths opts)) (Text storybookMain_template)
          (treeWrite (storybookTsconfig (optPaths opts)) (Json storybookTsconfig_template) s)) s'"
    unfolding s' by (rule writesWithin_write) simp
  ultimately show "writesWithin ?P s s'" by (blast intro: writesWithin_trans)
  from s' show "treeRead s' (storybookTsconfig (optPaths opts)) = Some (Json storybookTsconfig_template)
           \<or> rp (storybookTsconfig (optPaths opts)) \<in> {rp (storybookMain (optPaths opts)), rp (storybookPreview (optPaths opts))}"
    by (simp add: treeRead_treeWrite)
qed

lemma rewriteScripts_Inr:
  assumes "rewriteScripts opts j = Inr j'"
  shows "\<exists>pkg scripts scripts'.
           j = JObj pkg \<and> map_of pkg ''scripts'' = Some (JObj scripts)
         \<and> j' = JObj (AList.update ''scripts'' (JObj scripts') pkg)
         \<and> rewriteScripts opts j' = Inr j'"
proof -
  from assms obtain pkg where pkg: "j = JObj pkg"
    unfolding rewriteScripts_def by (auto split: sum.splits simp: asObject_Inr)
  with assms obtain scripts where scripts: "map_of pkg ''scripts'' = Some (JObj scripts)"
    unfolding rewriteScripts_def by (auto split: sum.splits simp: asObject_Inr)
  let ?s3 = "AList.delete ''test:watch'' (AList.delete ''start-test''
               (AList.delete ''update-snapshots'' scripts))"
  let ?docs = "JStr ''api-extractor run --config=config/api-extractor.local.json --local''"
  let ?build = "JStr (buildLocalCommand (normalizedPkgName opts))"
  let ?s4 = "AList.update ''docs'' ?docs ?s3"
  let ?s5 = "AList.update ''build:local'' ?build ?s4"
  let ?s6 = "AList.update ''storybook'' (JStr ''start-storybook'') ?s5"
  let ?s7 = "AList.update ''start'' (JStr ''yarn storybook'') ?s6"
  let ?s8 = "AList.update ''test'' (JStr ''jest'') ?s7"
  let ?pkg' = "AList.update ''scripts'' (JObj ?s8) pkg"
  from assms pkg scripts have j': "j' = JObj ?pkg'"
    by (simp add: rewriteScripts_def asObject_def)
  have gone: "AList.delete ''update-snapshots'' ?s8 = ?s8"
    "AList.delete ''start-test'' ?s8 = ?s8" "AList.delete ''test:watch'' ?s8 = ?s8"
    by (rule delete_absent, simp add: update_conv' delete_conv')+
  have d: "AList.update ''docs'' ?docs ?s8 = ?s8"
    by (rule update_triv) (simp add: update_conv')
  have b: "AList.update ''build:local'' ?build ?s8 = ?s8"
    by (rule update_triv) (simp add: update_conv')
  have sb: "AList.update ''storybook'' (JStr ''start-storybook'') ?s8 = ?s8"
    by (rule update_triv) (simp add: update_conv')
  have st: "AList.update ''start'' (JStr ''yarn storybook'') ?s8 = ?s8"
    by (rule update_triv) (simp add: update_conv')
  have t: "AList.update ''test'' (JStr ''jest'') ?s8 = ?s8"
    by (rule update_triv) (simp add: update_conv')
  have l: "map_of ?pkg' ''scripts'' = Some (JObj ?s8)" by (simp add: update_conv')
  have u: "AList.update ''scripts'' (JObj ?s8) ?pkg' = ?pkg'"
    by (rule update_triv) (rule l)
  have "rewriteScripts opts (JObj ?pkg') = Inr (JObj ?pkg')"
    unfolding rewriteScripts_def asObject_def Let_def
    by (simp only: l option.case json.case sum.case gone d b sb st t u)
  with pkg scripts j' show ?thesis by blast
qed

lemma depsThatNeedToBecomeAliases_cong:
  assumes "npmScope s' = npmScope s"
    and "\<And>d. map_option root (map_of (projects s') d) = map_option root (map_of (projects s) d)"
  shows "depsThatNeedToBecomeAliases s' dependencies = depsThatNeedToBecomeAliases s dependencies"
proof -
  have "aliasTarget s' d = aliasTarget s d" for d
    using assms(2) [of d] unfolding aliasTarget_def
    by (cases "map_of (projects s') d"; cases "map_of (projects s) d") auto
  then have "aliasTarget s' = aliasTarget s" by (rule ext)
  with assms(1) show ?thesis by (simp add: depsThatNeedToBecomeAliases_def)
qed

lemma addPathAliases_fixpoint:
  assumes run: "addPathAliases opts (depsThatNeedToBecomeAliases s dependencies) j = Inr j'"
    and own: "map_option root (map_of (projects s) (pkgName opts)) = Some (root (projectConfig opts))"
  shows "addPathAliases opts (depsThatNeedToBecomeAliases s dependencies) j' = Inr j'"
proof -
  let ?aliases = "depsThatNeedToBecomeAliases s dependencies"
  let ?own = "JArr [JStr (root (projectConfig opts) @ ''/src/index.ts'')]"
  from addPathAliases_Inr [OF run] obtain obj compilerOptions oldPaths where
    j: "j = JObj obj" "map_of obj ''compilerOptions'' = Some (JObj compilerOptions)"
       "objectOrEmpty ''paths'' (map_of compilerOptions ''paths'') = Inr oldPaths"
    and j': "j' = JObj (AList.update ''compilerOptions''
                   (JObj (AList.update ''paths''
                      (JObj (objectAssign (AList.update (pkgName opts) ?own oldPaths) ?aliases))
                      compilerOptions)) obj)"
    by blast
  let ?new = "objectAssign (AList.update (pkgName opts) ?own oldPaths) ?aliases"
  let ?co = "AList.update ''paths'' (JObj ?new) compilerOptions"
  let ?obj = "AList.update ''compilerOptions'' (JObj ?co) obj"
  from own obtain cfg where cfg: "map_of (projects s) (pkgName opts) = Some cfg"
    "root cfg = root (projectConfig opts)" by auto
  then have target: "aliasTarget s (pkgName opts) = ?own" by (simp add: aliasTarget_def)
  have lookup: "map_of ?new k =
     (if k \<in> fst ` set dependencies \<and> prefix (''@'' @ npmScope s) k then Some (aliasTarget s k)
      else if k = pkgName opts then Some ?own else map_of oldPaths k)" for k
    by (rule newPaths_lookup)
  have "map_of ?new (pkgName opts) = Some ?own"
    using target by (simp add: lookup)
  then have a: "AList.update (pkgName opts) ?own ?new = ?new" by (rule update_triv)
  have "\<forall>(k, v) \<in> set ?aliases. map_of ?new k = Some v"
  proof (clarify)
    fix k v assume kv: "(k, v) \<in> set ?aliases"
    with depsThatNeedToBecomeAliases_entries [of s dependencies] have v: "v = aliasTarget s k" by auto
    from kv have "k \<in> fst ` set ?aliases" by force
    then have "k \<in> fst ` set dependencies \<and> prefix (''@'' @ npmScope s) k"
      by (simp add: depsThatNeedToBecomeAliases_keys)
    with v show "map_of ?new k = Some v" by (simp add: lookup)
  qed
  then have b: "objectAssign ?new ?aliases = ?new" by (rule objectAssign_present)
  have c: "map_of ?obj ''compilerOptions'' = Some (JObj ?co)" by (simp add: update_conv')
  have d: "map_of ?co ''paths'' = Some (JObj ?new)" by (simp add: update_conv')
  have e: "AList.update ''paths'' (JObj ?new) ?co = ?co" by (rule update_triv) (rule d)
  have f: "AList.update ''compilerOptions'' (JObj ?co) ?obj = ?obj" by (rule update_triv) (rule c)
  have "addPathAliases opts ?aliases (JObj ?obj) = Inr (JObj ?obj)"
    unfolding addPathAliases_def asObject_def objectOrEmpty_def Let_def
    by (simp only: c d option.case json.case sum.case a b e f)
  with j' show ?thesis by simp
qed

lemma depsThatNeedToBecomeAliases_userLog [simp]:
  "depsThatNeedToBecomeAliases (s\<lparr>userLog := l\<rparr>) dependencies = depsThatNeedToBecomeAliases s dependencies"
  by (rule depsThatNeedToBecomeAliases_cong) simp_all

lemma readProjectConfiguration_userLog [simp]:
  "readProjectConfiguration (s\<lparr>userLog := l\<rparr>) nm = readProjectConfiguration s nm"
  by (simp add: readProjectConfiguration_def)

lemma settled_userLog [simp]: "settled ev opts ex (s\<lparr>userLog := l\<rparr>) = settled ev opts ex s"
  by (simp add: settled_def)

lemma record_same [simp]: "s\<lparr>tsconfigTypes := tsconfigTypes s\<rparr> = (s :: state)"
  "s\<lparr>projects := projects s\<rparr> = s"
  by simp_all

lemma noop_updatedLocalTsConfig:
  assumes "settled ev opts ex s"
  shows "updatedLocalTsConfig opts s = Done s"
proof -
  from assms obtain types where
    t: "treeRead s (tsconfig (optPaths opts)) = Some (Json (tsconfigTemplate (uniqueArray types)))"
       "tsconfigTypes s = uniqueArray types"
    unfolding settled_def by blast
  have o: "oldConfigTypes (tsconfigTemplate (uniqueArray types)) = Inr (uniqueArray types)"
    by (simp add: oldConfigTypes_def tsconfigTemplate_def asObject_def stringsOrEmpty_def)
  have w: "treeWrite (tsconfig (optPaths opts)) (Json (tsconfigTemplate (uniqueArray types))) s = s"
    using t(1) by (rule treeWrite_same)
  from t o w show ?thesis
    by (simp add: updatedLocalTsConfig_def readJson_def uniqueArray_twice Let_def)
       (metis record_same(1) w)
qed

lemma noop_updatedBaseTsConfig:
  assumes "settled ev opts ex s"
  shows "updatedBaseTsConfig opts s = Done s"
proof -
  from assms obtain pkg dependencies base where
    p: "treeRead s (packageJson (optPaths opts)) = Some (Json (JObj pkg))"
       "objectOrEmpty ''dependencies'' (map_of pkg ''dependencies'') = Inr dependencies"
       "treeRead s (rootTsconfig (optPaths opts)) = Some (Json base)"
       "addPathAliases opts (depsThatNeedToBecomeAliases s dependencies) base = Inr base"
    unfolding settled_def by blast
  from p(3) have "treeWrite (rootTsconfig (optPaths opts)) (Json base) s = s" by (rule treeWrite_same)
  with p show ?thesis
    by (simp add: updatedBaseTsConfig_def updateJson_def readJson_def asObject_def)
qed

lemma noop_updateLocalJestConfig:
  assumes "settled ev opts ex s"
  shows "updateLocalJestConfig opts s = Done s"
proof -
  from assms obtain pkg dependencies where
    p: "treeRead s (packageJson (optPaths opts)) = Some (Json (JObj pkg))"
       "objectOrEmpty ''dependencies'' (map_of pkg ''dependencies'') = Inr dependencies"
       "treeRead s (jestConfig (optPaths opts)) =
               Some (Text (jestTemplate (normalizedPkgName opts)
                             (needsSnapshotSerializers opts dependencies)
                             (''./'' @ basename (configRoot (optPaths opts)) @ ''/tests.js'')))"
    and e: "treeExists s (joinPathFragments [configRoot (optPaths opts), ''tests.js''])"
    unfolding settled_def by blast
  from p(3) have w: "treeWrite (jestConfig (optPaths opts))
     (Text (jestTemplate (normalizedPkgName opts) (needsSnapshotSerializers opts dependencies)
              (''./'' @ basename (configRoot (optPaths opts)) @ ''/tests.js''))) s = s"
    by (rule treeWrite_same)
  show ?thesis
    unfolding updateLocalJestConfig_def Let_def
    using p(1,2) e w
    by (simp add: readJson_def asObject_def needsSnapshotSerializers_def
          del: joinPathFragments.simps)
qed

lemma noop_updateRootJestConfig:
  assumes "settled ev opts ex s" and "rootJestConfigUpdater ev (pkgName opts)"
  shows "updateRootJestConfig ev opts s = Done s"
proof -
  from assms(1) obtain sa sb where
    u: "updateJestConfig ev (pkgName opts) sa = Done sb"
       "treeRead s ''/jest.config.js'' = treeRead sb ''/jest.config.js''"
       "map_option root (map_of (projects s) (pkgName opts))
          = map_option root (map_of (projects sa) (pkgName opts))"
    unfolding settled_def by blast
  from assms(2) u show ?thesis
    unfolding rootJestConfigUpdater_def updateRootJestConfig_def by blast
qed

lemma noop_setupStorybook:
  assumes "settled ev opts ex s"
  shows "setupStorybook opts s = Done s"
proof -
  from assms have
    "treeRead s (storybookTsconfig (optPaths opts)) = Some (Json storybookTsconfig_template)"
    "treeRead s (storybookMain (optPaths opts)) = Some (Text storybookMain_template)"
    "treeRead s (storybookPreview (optPaths opts)) = Some (Text storybookPreview_template)"
    unfolding settled_def by blast+
  then show ?thesis by (simp add: setupStorybook_def treeWrite_same)
qed

lemma not_exists_no_files:
  "\<not> treeExists s d \<Longrightarrow> rp d \<noteq> [] \<Longrightarrow> visitNotIgnoredFiles ev s d = []"
  by (auto simp: treeExists_def visitNotIgnoredFiles_def below_def filter_empty_conv Let_def)

lemma rp_stories_path: "rp (r @ ''/src/'' @ n) \<noteq> []"
  by (simp add: rp_def dropWhile_eq_Nil_conv)

lemma noop_moveStorybookFromReactExamples:
  assumes "settled ev opts ex s"
  shows "moveStorybookFromReactExamples ev opts s =
     Done (s\<lparr>userLog := userLog s @
       [(LogWarn, ''No package stories found within react-examples. Skipping storybook stories migration...'')]\<rparr>)"
proof -
  from assms obtain ex2 where
    e: "readProjectConfiguration s (''@'' @ workspaceNpmScope opts @ ''/react-examples'') = Inr ex2"
       "root ex2 = root ex"
    and n: "\<not> treeExists s (storiesDirectory ex opts)"
    unfolding settled_def by blast
  have "rp (storiesDirectory ex opts) \<noteq> []"
    unfolding storiesDirectory_def by (rule rp_stories_path)
  with n have "visitNotIgnoredFiles ev s (storiesDirectory ex opts) = []"
    by (rule not_exists_no_files)
  then have "storyPathsOf ev s (storiesDirectory ex opts) = []"
    by (simp add: storyPathsOf_def)
  then have "storyPathsOf ev s (root ex @ ''/src/'' @ normalizedPkgName opts) = []"
    unfolding storiesDirectory_def .
  with e show ?thesis
    by (simp add: moveStorybookFromReactExamples_def getReactExamplesProjectConfig_def)
qed

lemma noop_removeMigratedPackageFromReactExamples:
  assumes "settled ev opts ex s"
  shows "removeMigratedPackageFromReactExamples opts s = Done s"
proof -
  from assms obtain ex2 where
    e: "readProjectConfiguration s (''@'' @ workspaceNpmScope opts @ ''/react-examples'') = Inr ex2"
       "root ex2 = root ex"
    and n: "\<not> treeExists s (storiesDirectory ex opts)"
    unfolding settled_def by blast
  then show ?thesis
    by (simp add: removeMigratedPackageFromReactExamples_def getReactExamplesProjectConfig_def
          storiesDirectory_def Let_def)
qed

lemma noop_updateNpmScripts:
  assumes "settled ev opts ex s"
  shows "updateNpmScripts opts s = Done s"
proof -
  from assms obtain pkg where
    p: "treeRead s (packageJson (optPaths opts)) = Some (Json (JObj pkg))"
       "rewriteScripts opts (JObj pkg) = Inr (JObj pkg)"
    unfolding settled_def by blast
  from p(1) have "treeWrite (packageJson (optPaths opts)) (Json (JObj pkg)) s = s"
    by (rule treeWrite_same)
  with p show ?thesis by (simp add: updateNpmScripts_def updateJson_def readJson_def)
qed

lemma noop_updateApiExtractorForLocalBuilds:
  assumes "settled ev opts ex s"
  shows "updateApiExtractorForLocalBuilds opts s = Done s"
proof -
  from assms have
    "treeRead s (joinPathFragments [configRoot (optPaths opts), ''api-extractor.local.json'']) =
           Some (Json apiExtractorLocal)"
    "treeRead s (joinPathFragments [configRoot (optPaths opts), ''api-extractor.json'']) =
           Some (Json apiExtractor)"
    unfolding settled_def by blast+
  then show ?thesis
    by (simp add: updateApiExtractorForLocalBuilds_def treeWrite_same del: joinPathFragments.simps)
qed

lemma noop_setupNpmConfig:
  assumes "settled ev opts ex s"
  shows "setupNpmConfig opts s = Done s"
proof -
  from assms have "treeRead s (npmConfig (optPaths opts)) = Some (Text npmIgnoreConfig)"
    unfolding settled_def by blast
  then show ?thesis by (simp add: setupNpmConfig_def treeWrite_same)
qed

lemma settled_steps:
  assumes s: "settled ev opts ex s" and u: "rootJestConfigUpdater ev (pkgName opts)"
  shows "runSteps
            [updatedLocalTsConfig opts,
             updatedBaseTsConfig opts,
             updateLocalJestConfig opts,
             updateRootJestConfig ev opts,
             setupStorybook opts,
             moveStorybookFromReactExamples ev opts,
             removeMigratedPackageFromReactExamples opts,
             updateNpmScripts opts,
             updateApiExtractorForLocalBuilds opts,
             setupNpmConfig opts,
             step] s =
         step (s\<lparr>userLog := userLog s @
       [(LogWarn, ''No package stories found within react-examples. Skipping storybook stories migration...'')]\<rparr>)"
proof -
  let ?s = "s\<lparr>userLog := userLog s @
       [(LogWarn, ''No package stories found within react-examples. Skipping storybook stories migration...'')]\<rparr>"
  from s have s': "settled ev opts ex ?s" by simp
  show ?thesis
    by (simp add: noop_updatedLocalTsConfig [OF s] noop_updatedBaseTsConfig [OF s]
          noop_updateLocalJestConfig [OF s] noop_updateRootJestConfig [OF s u]
          noop_setupStorybook [OF s] noop_moveStorybookFromReactExamples [OF s]
          noop_removeMigratedPackageFromReactExamples [OF s'] noop_updateNpmScripts [OF s']
          noop_updateApiExtractorForLocalBuilds [OF s'] noop_setupNpmConfig [OF s']
          del: settled_userLog)
      (cases "step ?s", simp_all)
qed

lemma runSteps_Cons_Done:
  "runSteps (f # fs) s = Done s' \<Longrightarrow> \<exists>mid. f s = Done mid \<and> runSteps fs mid = Done s'"
  by (cases "f s") simp_all

lemma treeExists_treeDelete_unrelated:
  assumes "treeExists s q" and "unrelated d q"
  shows "treeExists (treeDelete d s) q"
proof -
  from assms(1) obtain k where k: "k \<in> fst ` set (files s)" "k = rp q \<or> inDir (rp q) k"
    by (auto simp: treeExists_def)
  have "\<not> (k = rp d \<or> inDir (rp d) k)"
  proof
    assume a: "k = rp d \<or> inDir (rp d) k"
    from k(2) show False
    proof
      assume "k = rp q"
      with a assms(2) show False by (auto simp: unrelated_def)
    next
      assume "inDir (rp q) k"
      from inDir_comparable [OF this a] assms(2) show False by (auto simp: unrelated_def)
    qed
  qed
  with k show ?thesis unfolding treeExists_treeDelete by blast
qed

lemma removeMigratedPackageFromReactExamples_Done:
  assumes "removeMigratedPackageFromReactExamples opts s = Done s'"
    and "getReactExamplesProjectConfig s opts = Inr ex"
  shows "(\<not> treeExists s (storiesDirectory ex opts) \<and> s' = s)
       \<or> (\<exists>j' l. s' = treeWrite (examplesManifest ex) (Json j')
                        ((treeDelete (storiesDirectory ex opts) s)\<lparr>userLog := l\<rparr>))"
proof (cases "treeExists s (storiesDirectory ex opts)")
  case False
  with assms show ?thesis
    by (simp add: removeMigratedPackageFromReactExamples_def storiesDirectory_def Let_def)
next
  case True
  let ?s2 = "(treeDelete (storiesDirectory ex opts) s)\<lparr>userLog :=
      userLog (treeDelete (storiesDirectory ex opts) s) @
        [(LogWarn, ''NOTE: Deleting '' @ root ex @ ''/src/'' @ normalizedPkgName opts),
         (LogWarn, ''      - Please update your moved stories to follow standard storybook format\<newline>'')]\<rparr>"
  from True assms have
    "updateJson (examplesManifest ex) (removeDependency (pkgName opts)) ?s2 = Done s'"
    by (simp add: removeMigratedPackageFromReactExamples_def storiesDirectory_def
          examplesManifest_def Let_def)
  from updateJson_Done [OF this] show ?thesis by blast
qed

lemma removeMigrated_frame:
  assumes "removeMigratedPackageFromReactExamples opts s = Done s'"
    and "getReactExamplesProjectConfig s opts = Inr ex"
    and x: "unrelated (storiesDirectory ex opts) (examplesManifest ex)"
  shows "\<not> treeExists s' (storiesDirectory ex opts)"
    and "\<And>q. rp (examplesManifest ex) \<noteq> rp q \<Longrightarrow> unrelated (storiesDirectory ex opts) q
            \<Longrightarrow> treeRead s' q = treeRead s q"
    and "\<And>q. treeExists s q \<Longrightarrow> unrelated (storiesDirectory ex opts) q \<Longrightarrow> treeExists s' q"
    and "projects s' = projects s" "npmScope s' = npmScope s" "tsconfigTypes s' = tsconfigTypes s"
proof -
  note d = removeMigratedPackageFromReactExamples_Done [OF assms(1,2)]
  from d x show "\<not> treeExists s' (storiesDirectory ex opts)"
    by (auto simp: treeExists_treeWrite unrelated_def)
  from d show "projects s' = projects s" "npmScope s' = npmScope s"
    "tsconfigTypes s' = tsconfigTypes s" by auto
  show "treeRead s' q = treeRead s q"
    if "rp (examplesManifest ex) \<noteq> rp q" "unrelated (storiesDirectory ex opts) q" for q
    using d that by (auto simp: treeRead_treeWrite treeRead_treeDelete unrelated_def)
  show "treeExists s' q" if "treeExists s q" "unrelated (storiesDirectory ex opts) q" for q
    using d that by (auto simp: treeExists_treeWrite treeExists_treeDelete_unrelated)
qed

lemma updateNpmScripts_Done:
  assumes "updateNpmScripts opts s = Done s'"
  shows "\<exists>pkg pkg'. treeRead s (packageJson (optPaths opts)) = Some (Json (JObj pkg))
           \<and> rewriteScripts opts (JObj pkg') = Inr (JObj pkg')
           \<and> map_of pkg' ''dependencies'' = map_of pkg ''dependencies''
           \<and> s' = treeWrite (packageJson (optPaths opts)) (Json (JObj pkg')) s"
proof -
  from assms have "updateJson (packageJson (optPaths opts)) (rewriteScripts opts) s = Done s'"
    by (simp add: updateNpmScripts_def)
  from updateJson_Done [OF this] obtain j j' where
    a: "readJson s (packageJson (optPaths opts)) = Inr j" "rewriteScripts opts j = Inr j'"
       "s' = treeWrite (packageJson (optPaths opts)) (Json j') s"
    by blast
  from rewriteScripts_Inr [OF a(2)] obtain pkg scripts scripts' where
    b: "j = JObj pkg" "j' = JObj (AList.update ''scripts'' (JObj scripts') pkg)"
       "rewriteScripts opts j' = Inr j'"
    by blast
  have "map_of (AList.update ''scripts'' (JObj scripts') pkg) ''dependencies'' = map_of pkg ''dependencies''"
    by (simp add: update_conv')
  with a b show ?thesis by (auto simp: readJson_Inr)
qed

lemma updateNxWorkspace_Done:
  assumes "updateNxWorkspace opts s = Done s'"
  shows "s' = s\<lparr>projects := AList.update (pkgName opts)
                 ((projectConfig opts)
                    \<lparr> sourceRoot := Some (joinPathFragments [root (projectConfig opts), ''src'']),
                      tags := Some (uniqueArray
                                ((case tags (projectConfig opts) of None \<Rightarrow> [] | Some ts \<Rightarrow> ts)
                                 @ [''vNext'', ''platform:web''])) \<rparr>) (projects s)\<rparr>"
  using assms unfolding updateNxWorkspace_def updateProjectConfiguration_def
  by (auto split: if_splits)

lemma updateLocalJestConfig_frame:
  assumes "updateLocalJestConfig opts s = Done s'"
  shows "writesWithin (\<lambda>p. p \<in> {jestConfig (optPaths opts),
                                 joinPathFragments [configRoot (optPaths opts), ''tests.js'']}) s s'"
    and "treeExists s' (joinPathFragments [configRoot (optPaths opts), ''tests.js''])"
proof -
  let ?P = "\<lambda>p. p \<in> {jestConfig (optPaths opts),
                                 joinPathFragments [configRoot (optPaths opts), ''tests.js'']}"
  from updateLocalJestConfig_Done [OF assms] obtain c where
    s': "s' = (if treeExists (treeWrite (jestConfig (optPaths opts)) c s)
                    (joinPathFragments [configRoot (optPaths opts), ''tests.js''])
               then treeWrite (jestConfig (optPaths opts)) c s
               else treeWrite (joinPathFragments [configRoot (optPaths opts), ''tests.js''])
                      (Text jestSetup) (treeWrite (jestConfig (optPaths opts)) c s))"
    unfolding Let_def by blast
  have a: "writesWithin ?P s (treeWrite (jestConfig (optPaths opts)) c s)"
    by (rule writesWithin_write) simp
  have b: "writesWithin ?P (treeWrite (jestConfig (optPaths opts)) c s)
        (treeWrite (joinPathFragments [configRoot (optPaths opts), ''tests.js''])
                      (Text jestSetup) (treeWrite (jestConfig (optPaths opts)) c s))"
    by (rule writesWithin_write) simp
  from a b show "writesWithin ?P s s'"
    unfolding s' by (auto intro: writesWithin_trans)
  show "treeExists s' (joinPathFragments [configRoot (optPaths opts), ''tests.js''])"
    unfolding s' by (simp add: treeExists_treeWrite del: joinPathFragments.simps)
qed

lemma updateApiExtractorForLocalBuilds_frame:
  assumes "updateApiExtractorForLocalBuilds opts s = Done s'"
  shows "writesWithin (\<lambda>p. p \<in> {joinPathFragments [configRoot (optPaths opts), ''api-extractor.local.json''],
                                 joinPathFragments [configRoot (optPaths opts), ''api-extractor.json'']}) s s'"
proof -
  let ?P = "\<lambda>p. p \<in> {joinPathFragments [configRoot (optPaths opts), ''api-extractor.local.json''],
                                 joinPathFragments [configRoot (optPaths opts), ''api-extractor.json'']}"
  let ?m = "treeWrite (joinPathFragments [configRoot (optPaths opts), ''api-extractor.local.json''])
             (Json apiExtractorLocal) s"
  from assms have s': "s' = treeWrite (joinPathFragments [configRoot (optPaths opts), ''api-extractor.json''])
             (Json apiExtractor) ?m"
    by (simp add: updateApiExtractorForLocalBuilds_def del: joinPathFragments.simps)
  have "writesWithin ?P s ?m" by (rule writesWithin_write) simp
  moreover have "writesWithin ?P ?m s'" unfolding s' by (rule writesWithin_write) simp
  ultimately show ?thesis by (rule writesWithin_trans)
qed

text \<open>Thirteen different things are pairwise different, read in either direction.\<close>

lemma distinct_thirteen:
  assumes "distinct [x1, x2, x3, x4, x5, x6, x7, x8, x9, x10, x11, x12, x13]"
  shows
    "x1 \<noteq> x2" "x1 \<noteq> x3" "x1 \<noteq> x4" "x1 \<noteq> x5" "x1 \<noteq> x6"
    "x1 \<noteq> x7" "x1 \<noteq> x8" "x1 \<noteq> x9" "x1 \<noteq> x10" "x1 \<noteq> x11"
    "x1 \<noteq> x12" "x1 \<noteq> x13" "x2 \<noteq> x1" "x2 \<noteq> x3" "x2 \<noteq> x4"
    "x2 \<noteq> x5" "x2 \<noteq> x6" "x2 \<noteq> x7" "x2 \<noteq> x8" "x2 \<noteq> x9"
    "x2 \<noteq> x10" "x2 \<noteq> x11" "x2 \<noteq> x12" "x2 \<noteq> x13" "x3 \<noteq> x1"
    "x3 \<noteq> x2" "x3 \<noteq> x4" "x3 \<noteq> x5" "x3 \<noteq> x6" "x3 \<noteq> x7"
    "x3 \<noteq> x8" "x3 \<noteq> x9" "x3 \<noteq> x10" "x3 \<noteq> x11" "x3 \<noteq> x12"
    "x3 \<noteq> x13" "x4 \<noteq> x1" "x4 \<noteq> x2" "x4 \<noteq> x3" "x4 \<noteq> x5"
    "x4 \<noteq> x6" "x4 \<noteq> x7" "x4 \<noteq> x8" "x4 \<noteq> x9" "x4 \<noteq> x10"
    "x4 \<noteq> x11" "x4 \<noteq> x12" "x4 \<noteq> x13" "x5 \<noteq> x1" "x5 \<noteq> x2"
    "x5 \<noteq> x3" "x5 \<noteq> x4" "x5 \<noteq> x6" "x5 \<noteq> x7" "x5 \<noteq> x8"
    "x5 \<noteq> x9" "x5 \<noteq> x10" "x5 \<noteq> x11" "x5 \<noteq> x12" "x5 \<noteq> x13"
    "x6 \<noteq> x1" "x6 \<noteq> x2" "x6 \<noteq> x3" "x6 \<noteq> x4" "x6 \<noteq> x5"
    "x6 \<noteq> x7" "x6 \<noteq> x8" "x6 \<noteq> x9" "x6 \<noteq> x10" "x6 \<noteq> x11"
    "x6 \<noteq> x12" "x6 \<noteq> x13" "x7 \<noteq> x1" "x7 \<noteq> x2" "x7 \<noteq> x3"
    "x7 \<noteq> x4" "x7 \<noteq> x5" "x7 \<noteq> x6" "x7 \<noteq> x8" "x7 \<noteq> x9"
    "x7 \<noteq> x10" "x7 \<noteq> x11" "x7 \<noteq> x12" "x7 \<noteq> x13" "x8 \<noteq> x1"
    "x8 \<noteq> x2" "x8 \<noteq> x3" "x8 \<noteq> x4" "x8 \<noteq> x5" "x8 \<noteq> x6"
    "x8 \<noteq> x7" "x8 \<noteq> x9" "x8 \<noteq> x10" "x8 \<noteq> x11" "x8 \<noteq> x12"
    "x8 \<noteq> x13" "x9 \<noteq> x1" "x9 \<noteq> x2" "x9 \<noteq> x3" "x9 \<noteq> x4"
    "x9 \<noteq> x5" "x9 \<noteq> x6" "x9 \<noteq> x7" "x9 \<noteq> x8" "x9 \<noteq> x10"
    "x9 \<noteq> x11" "x9 \<noteq> x12" "x9 \<noteq> x13" "x10 \<noteq> x1" "x10 \<noteq> x2"
    "x10 \<noteq> x3" "x10 \<noteq> x4" "x10 \<noteq> x5" "x10 \<noteq> x6" "x10 \<noteq> x7"
    "x10 \<noteq> x8" "x10 \<noteq> x9" "x10 \<noteq> x11" "x10 \<noteq> x12" "x10 \<noteq> x13"
    "x11 \<noteq> x1" "x11 \<noteq> x2" "x11 \<noteq> x3" "x11 \<noteq> x4" "x11 \<noteq> x5"
    "x11 \<noteq> x6" "x11 \<noteq> x7" "x11 \<noteq> x8" "x11 \<noteq> x9" "x11 \<noteq> x10"
    "x11 \<noteq> x12" "x11 \<noteq> x13" "x12 \<noteq> x1" "x12 \<noteq> x2" "x12 \<noteq> x3"
    "x12 \<noteq> x4" "x12 \<noteq> x5" "x12 \<noteq> x6" "x12 \<noteq> x7" "x12 \<noteq> x8"
    "x12 \<noteq> x9" "x12 \<noteq> x10" "x12 \<noteq> x11" "x12 \<noteq> x13" "x13 \<noteq> x1"
    "x13 \<noteq> x2" "x13 \<noteq> x3" "x13 \<noteq> x4" "x13 \<noteq> x5" "x13 \<noteq> x6"
    "x13 \<noteq> x7" "x13 \<noteq> x8" "x13 \<noteq> x9" "x13 \<noteq> x10" "x13 \<noteq> x11"
    "x13 \<noteq> x12"
  using assms by auto

lemma first_run_settles:
  assumes steps: "runSteps
            [updatedLocalTsConfig opts,
             updatedBaseTsConfig opts,
             updateLocalJestConfig opts,
             updateRootJestConfig ev opts,
             setupStorybook opts,
             moveStorybookFromReactExamples ev opts,
             removeMigratedPackageFromReactExamples opts,
             updateNpmScripts opts,
             updateApiExtractorForLocalBuilds opts,
             setupNpmConfig opts,
             updateNxWorkspace opts] st = Done st1"
    and ex: "readProjectConfiguration st (''@'' @ workspaceNpmScope opts @ ''/react-examples'') = Inr ex"
    and layout: "separateLayout opts ex"
    and jest: "rootJestConfigUpdater ev (pkgName opts)"
    and J: "rootJestConfig (optPaths opts) = ''/jest.config.js''"
    and reg: "map_of (projects st) (pkgName opts) = Some (projectConfig opts)"
  shows "settled ev opts ex st1"
    and "projects st1 = AList.update (pkgName opts) (migratedConfig (projectConfig opts)) (projects st)"
    and "npmScope st1 = npmScope st"
proof -
  let ?ts = "tsconfig (optPaths opts)"
  let ?B = "rootTsconfig (optPaths opts)"
  let ?pj = "packageJson (optPaths opts)"
  let ?jc = "jestConfig (optPaths opts)"
  let ?tests = "joinPathFragments [configRoot (optPaths opts), ''tests.js'']"
  let ?J = "rootJestConfig (optPaths opts)"
  let ?sbT = "storybookTsconfig (optPaths opts)"
  let ?sbM = "storybookMain (optPaths opts)"
  let ?sbP = "storybookPreview (optPaths opts)"
  let ?X = "examplesManifest ex"
  let ?apiL = "joinPathFragments [configRoot (optPaths opts), ''api-extractor.local.json'']"
  let ?api = "joinPathFragments [configRoot (optPaths opts), ''api-extractor.json'']"
  let ?npm = "npmConfig (optPaths opts)"
  let ?D = "storiesDirectory ex opts"
  let ?story = "\<lambda>p. \<exists>fileName. p = joinPathFragments [root (projectConfig opts), ''src'', fileName]"

  from layout have dist: "distinct (map rp [?ts, ?B, ?pj, ?jc, ?tests, ?J, ?sbT, ?sbM, ?sbP, ?X, ?apiL, ?api, ?npm])"
    unfolding separateLayout_def maintainedFiles_def by blast
  from dist have "distinct [rp ?ts, rp ?B, rp ?pj, rp ?jc, rp ?tests, rp ?J, rp ?sbT, rp ?sbM, rp ?sbP,
                            rp ?X, rp ?apiL, rp ?api, rp ?npm]"
    by (simp only: list.map)
  note ne = distinct_thirteen [OF this]
  from layout have unrel:
    "unrelated ?D ?ts" "unrelated ?D ?B" "unrelated ?D ?pj" "unrelated ?D ?jc" "unrelated ?D ?tests"
    "unrelated ?D ?J" "unrelated ?D ?sbT" "unrelated ?D ?sbM" "unrelated ?D ?sbP" "unrelated ?D ?X"
    "unrelated ?D ?apiL" "unrelated ?D ?api" "unrelated ?D ?npm"
    unfolding separateLayout_def maintainedFiles_def by (simp_all del: joinPathFragments.simps)
  from layout have story:
    "\<And>f. rp (joinPathFragments [root (projectConfig opts), ''src'', f]) \<noteq> rp ?ts"
    "\<And>f. rp (joinPathFragments [root (projectConfig opts), ''src'', f]) \<noteq> rp ?B"
    "\<And>f. rp (joinPathFragments [root (projectConfig opts), ''src'', f]) \<noteq> rp ?pj"
    "\<And>f. rp (joinPathFragments [root (projectConfig opts), ''src'', f]) \<noteq> rp ?jc"
    "\<And>f. rp (joinPathFragments [root (projectConfig opts), ''src'', f]) \<noteq> rp ?tests"
    "\<And>f. rp (joinPathFragments [root (projectConfig opts), ''src'', f]) \<noteq> rp ?J"
    "\<And>f. rp (joinPathFragments [root (projectConfig opts), ''src'', f]) \<noteq> rp ?sbT"
    "\<And>f. rp (joinPathFragments [root (projectConfig opts), ''src'', f]) \<noteq> rp ?sbM"
    "\<And>f. rp (joinPathFragments [root (projectConfig opts), ''src'', f]) \<noteq> rp ?sbP"
    "\<And>f. rp (joinPathFragments [root (projectConfig opts), ''src'', f]) \<noteq> rp ?X"
    "\<And>f. rp (joinPathFragments [root (projectConfig opts), ''src'', f]) \<noteq> rp ?apiL"
    "\<And>f. rp (joinPathFragments [root (projectConfig opts), ''src'', f]) \<noteq> rp ?api"
    "\<And>f. rp (joinPathFragments [root (projectConfig opts), ''src'', f]) \<noteq> rp ?npm"
    unfolding separateLayout_def maintainedFiles_def by (simp_all del: joinPathFragments.simps)

  from steps obtain s1 where d1: "updatedLocalTsConfig opts st = Done s1"
    and r1: "runSteps
            [updatedBaseTsConfig opts,
             updateLocalJestConfig opts,
             updateRootJestConfig ev opts,
             setupStorybook opts,
             moveStorybookFromReactExamples ev opts,
             removeMigratedPackageFromReactExamples opts,
             updateNpmScripts opts,
             updateApiExtractorForLocalBuilds opts,
             setupNpmConfig opts,
             updateNxWorkspace opts] s1 = Done st1"
    using runSteps_Cons_Done by blast
  from r1 obtain s2 where d2: "updatedBaseTsConfig opts s1 = Done s2"
    and r2: "runSteps
            [updateLocalJestConfig opts,
             updateRootJestConfig ev opts,
             setupStorybook opts,
             moveStorybookFromReactExamples ev opts,
             removeMigratedPackageFromReactExamples opts,
             updateNpmScripts opts,
             updateApiExtractorForLocalBuilds opts,
             setupNpmConfig opts,
             updateNxWorkspace opts] s2 = Done st1"
    using runSteps_Cons_Done by blast
  from r2 obtain s3 where d3: "updateLocalJestConfig opts s2 = Done s3"
    and r3: "runSteps
            [updateRootJestConfig ev opts,
             setupStorybook opts,
             moveStorybookFromReactExamples ev opts,
             removeMigratedPackageFromReactExamples opts,
             updateNpmScripts opts,
             updateApiExtractorForLocalBuilds opts,
             setupNpmConfig opts,
             updateNxWorkspace opts] s3 = Done st1"
    using runSteps_Cons_Done by blast
  from r3 obtain s4 where d4: "updateRootJestConfig ev opts s3 = Done s4"
    and r4: "runSteps
            [setupStorybook opts,
             moveStorybookFromReactExamples ev opts,
             removeMigratedPackageFromReactExamples opts,
             updateNpmScripts opts,
             updateApiExtractorForLocalBuilds opts,
             setupNpmConfig opts,
             updateNxWorkspace opts] s4 = Done st1"
    using runSteps_Cons_Done by blast
  from r4 obtain s5 where d5: "setupStorybook opts s4 = Done s5"
    and r5: "runSteps
            [moveStorybookFromReactExamples ev opts,
             removeMigratedPackageFromReactExamples opts,
             updateNpmScripts opts,
             updateApiExtractorForLocalBuilds opts,
             setupNpmConfig opts,
             updateNxWorkspace opts] s5 = Done st1"
    using runSteps_Cons_Done by blast
  from r5 obtain s6 where d6: "moveStorybookFromReactExamples ev opts s5 = Done s6"
    and r6: "runSteps
            [removeMigratedPackageFromReactExamples opts,
             updateNpmScripts opts,
             updateApiExtractorForLocalBuilds opts,
             setupNpmConfig opts,
             updateNxWorkspace opts] s6 = Done st1"
    using runSteps_Cons_Done by blast
  from r6 obtain s7 where d7: "removeMigratedPackageFromReactExamples opts s6 = Done s7"
    and r7: "runSteps
            [updateNpmScripts opts,
             updateApiExtractorForLocalBuilds opts,
             setupNpmConfig opts,
             updateNxWorkspace opts] s7 = Done st1"
    using runSteps_Cons_Done by blast
  from r7 obtain s8 where d8: "updateNpmScripts opts s7 = Done s8"
    and r8: "runSteps
            [updateApiExtractorForLocalBuilds opts,
             setupNpmConfig opts,
             updateNxWorkspace opts] s8 = Done st1"
    using runSteps_Cons_Done by blast
  from r8 obtain s9 where d9: "updateApiExtractorForLocalBuilds opts s8 = Done s9"
    and r9: "runSteps [setupNpmConfig opts, updateNxWorkspace opts] s9 = Done st1"
    using runSteps_Cons_Done by blast
  from r9 obtain s10 where d10: "setupNpmConfig opts s9 = Done s10"
    and r10: "runSteps [updateNxWorkspace opts] s10 = Done st1"
    using runSteps_Cons_Done by blast
  from r10 have d11: "updateNxWorkspace opts s10 = Done st1"
    using runSteps_Cons_Done by fastforce

  \<comment> \<open>step 1\<close>
  from updatedLocalTsConfig_Done [OF d1] obtain old where
    s1: "s1 = treeWrite ?ts (Json (tsconfigTemplate (uniqueArray (tsconfigTypes st @ old))))
                (st\<lparr>tsconfigTypes := uniqueArray (tsconfigTypes st @ old)\<rparr>)"
    by blast
  have rd1: "rp ?ts \<noteq> rp q \<Longrightarrow> treeRead s1 q = treeRead st q" for q
    unfolding s1 by (auto simp: treeRead_treeWrite)
  have f1: "projects s1 = projects st" "npmScope s1 = npmScope st"
    "tsconfigTypes s1 = uniqueArray (tsconfigTypes st @ old)"
    "treeRead s1 ?ts = Some (Json (tsconfigTemplate (uniqueArray (tsconfigTypes st @ old))))"
    unfolding s1 by (simp_all add: treeRead_treeWrite)

  \<comment> \<open>step 2\<close>
  from updatedBaseTsConfig_Done [OF d2] obtain pkg dependencies j j' where
    p2: "treeRead s1 ?pj = Some (Json (JObj pkg))"
        "objectOrEmpty ''dependencies'' (map_of pkg ''dependencies'') = Inr dependencies"
        "addPathAliases opts (depsThatNeedToBecomeAliases s1 dependencies) j = Inr j'"
    and s2: "s2 = treeWrite ?B (Json j') s1"
    by blast
  have w2: "writesWithin (\<lambda>p. p = ?B) s1 s2" unfolding s2 by (rule writesWithin_write) simp
  have c2: "treeRead s2 ?B = Some (Json j')" unfolding s2 by (simp add: treeRead_treeWrite)

  \<comment> \<open>step 3\<close>
  note w3 = updateLocalJestConfig_frame [OF d3]
  from updateLocalJestConfig_Done [OF d3] obtain pkg3 dependencies3 where
    p3: "treeRead s2 ?pj = Some (Json (JObj pkg3))"
        "objectOrEmpty ''dependencies'' (map_of pkg3 ''dependencies'') = Inr dependencies3"
    and s3: "s3 = (if treeExists (treeWrite ?jc (Text (jestTemplate (normalizedPkgName opts)
                                 (needsSnapshotSerializers opts dependencies3)
                                 (''./'' @ basename (configRoot (optPaths opts)) @ ''/tests.js''))) s2) ?tests
                   then treeWrite ?jc (Text (jestTemplate (normalizedPkgName opts)
                                 (needsSnapshotSerializers opts dependencies3)
                                 (''./'' @ basename (configRoot (optPaths opts)) @ ''/tests.js''))) s2
                   else treeWrite ?tests (Text jestSetup)
                          (treeWrite ?jc (Text (jestTemplate (normalizedPkgName opts)
                                 (needsSnapshotSerializers opts dependencies3)
                                 (''./'' @ basename (configRoot (optPaths opts)) @ ''/tests.js''))) s2))"
    unfolding Let_def by blast
  have "rp ?B \<noteq> rp ?pj" by (rule ne)
  then have "treeRead s2 ?pj = treeRead s1 ?pj"
    using writesWithin_read [OF w2, of ?pj] by simp
  with p2 p3 have same3: "pkg3 = pkg" "dependencies3 = dependencies" by simp_all
  have c3: "treeRead s3 ?jc = Some (Text (jestTemplate (normalizedPkgName opts)
                                 (needsSnapshotSerializers opts dependencies)
                                 (''./'' @ basename (configRoot (optPaths opts)) @ ''/tests.js'')))"
  proof -
    have "rp ?jc \<noteq> rp ?tests" by (rule ne)
    then show ?thesis
      unfolding s3 same3 by (simp add: treeRead_treeWrite del: joinPathFragments.simps)
  qed

  \<comment> \<open>step 4\<close>
  from d4 have u4: "updateJestConfig ev (pkgName opts) s3 = Done s4"
    by (simp add: updateRootJestConfig_def)
  with jest have "s4 = s3 \<or> (\<exists>c. s4 = treeWrite ''/jest.config.js'' c s3)"
    unfolding rootJestConfigUpdater_def by blast
  then have w4: "writesWithin (\<lambda>p. p = ?J) s3 s4"
    unfolding J by (auto intro: writesWithin_refl writesWithin_write)

  \<comment> \<open>step 5\<close>
  from d5 have s5: "s5 = treeWrite ?sbP (Text storybookPreview_template)
          (treeWrite ?sbM (Text storybookMain_template)
          (treeWrite ?sbT (Json storybookTsconfig_template) s4))"
    by (simp add: setupStorybook_def)
  note w5 = setupStorybook_writes(1) [OF d5]
  have c5: "treeRead s5 ?sbT = Some (Json storybookTsconfig_template)"
    "treeRead s5 ?sbM = Some (Text storybookMain_template)"
    "treeRead s5 ?sbP = Some (Text storybookPreview_template)"
  proof -
    have "rp ?sbT \<noteq> rp ?sbM" "rp ?sbT \<noteq> rp ?sbP" "rp ?sbM \<noteq> rp ?sbP" by (rule ne)+
    then show "treeRead s5 ?sbT = Some (Json storybookTsconfig_template)"
      "treeRead s5 ?sbM = Some (Text storybookMain_template)"
      "treeRead s5 ?sbP = Some (Text storybookPreview_template)"
      unfolding s5 by (simp_all add: treeRead_treeWrite)
  qed

  \<comment> \<open>step 6\<close>
  note w6 = moveStorybookFromReactExamples_writes [OF d6]

  \<comment> \<open>the registry up to step 10\<close>
  have pr6: "projects s6 = projects st" "npmScope s6 = npmScope st"
    "tsconfigTypes s6 = uniqueArray (tsconfigTypes st @ old)"
    using writesWithin_fields [OF w2] writesWithin_fields [OF w3(1)] writesWithin_fields [OF w4]
      writesWithin_fields [OF w5] writesWithin_fields [OF w6] f1 by simp_all
  have pr3: "projects s3 = projects st"
    using writesWithin_fields [OF w2] writesWithin_fields [OF w3(1)] f1 by simp
  from ex pr6 have ex6: "getReactExamplesProjectConfig s6 opts = Inr ex"
    by (simp add: getReactExamplesProjectConfig_def readProjectConfiguration_def)

  \<comment> \<open>step 7\<close>
  note f7 = removeMigrated_frame [OF d7 ex6 unrel(10)]

  \<comment> \<open>step 8\<close>
  from updateNpmScripts_Done [OF d8] obtain pkg8 pkg' where
    p8: "treeRead s7 ?pj = Some (Json (JObj pkg8))"
        "rewriteScripts opts (JObj pkg') = Inr (JObj pkg')"
        "map_of pkg' ''dependencies'' = map_of pkg8 ''dependencies''"
    and s8: "s8 = treeWrite ?pj (Json (JObj pkg')) s7"
    by blast
  have w8: "writesWithin (\<lambda>p. p = ?pj) s7 s8" unfolding s8 by (rule writesWithin_write) simp
  have c8: "treeRead s8 ?pj = Some (Json (JObj pkg'))" unfolding s8 by (simp add: treeRead_treeWrite)

  \<comment> \<open>steps 9 to 11\<close>
  note w9 = updateApiExtractorForLocalBuilds_frame [OF d9]
  from d9 have s9: "s9 = treeWrite ?api (Json apiExtractor) (treeWrite ?apiL (Json apiExtractorLocal) s8)"
    by (simp add: updateApiExtractorForLocalBuilds_def del: joinPathFragments.simps)
  have c9: "treeRead s9 ?apiL = Some (Json apiExtractorLocal)" "treeRead s9 ?api = Some (Json apiExtractor)"
  proof -
    have "rp ?apiL \<noteq> rp ?api" by (rule ne)
    then show "treeRead s9 ?apiL = Some (Json apiExtractorLocal)"
      "treeRead s9 ?api = Some (Json apiExtractor)"
      unfolding s9 by (simp_all add: treeRead_treeWrite del: joinPathFragments.simps)
  qed
  from d10 have s10: "s10 = treeWrite ?npm (Text npmIgnoreConfig) s9"
    by (simp add: setupNpmConfig_def)
  have w10: "writesWithin (\<lambda>p. p = ?npm) s9 s10" unfolding s10 by (rule writesWithin_write) simp
  have c10: "treeRead s10 ?npm = Some (Text npmIgnoreConfig)"
    unfolding s10 by (simp add: treeRead_treeWrite)
  from updateNxWorkspace_Done [OF d11] have
    st1: "st1 = s10\<lparr>projects := AList.update (pkgName opts) (migratedConfig (projectConfig opts))
                                  (projects s10)\<rparr>"
    by (simp add: migratedConfig_def)
  have pr10: "projects s10 = projects st" "npmScope s10 = npmScope st"
    "tsconfigTypes s10 = uniqueArray (tsconfigTypes st @ old)"
    using f7(4-6) writesWithin_fields [OF w8] writesWithin_fields [OF w9] writesWithin_fields [OF w10]
      pr6 by simp_all

  \<comment> \<open>reading a file after the later steps\<close>
  have k10: "treeRead st1 q = treeRead s10 q" for q unfolding st1 by simp
  have k9: "treeRead st1 q = treeRead s9 q" if "rp ?npm \<noteq> rp q" for q
    using that writesWithin_read [OF w10, of q] by (simp add: k10)
  have k8: "treeRead st1 q = treeRead s8 q"
    if "rp ?apiL \<noteq> rp q" "rp ?api \<noteq> rp q" "rp ?npm \<noteq> rp q" for q
    using that writesWithin_read [OF w9, of q] by (simp add: k9 del: joinPathFragments.simps)
  have k7: "treeRead st1 q = treeRead s7 q"
    if "rp ?pj \<noteq> rp q" "rp ?apiL \<noteq> rp q" "rp ?api \<noteq> rp q" "rp ?npm \<noteq> rp q" for q
    using that writesWithin_read [OF w8, of q] by (simp add: k8 del: joinPathFragments.simps)
  have k6: "treeRead st1 q = treeRead s6 q"
    if "rp ?X \<noteq> rp q" "unrelated ?D q"
       "rp ?pj \<noteq> rp q" "rp ?apiL \<noteq> rp q" "rp ?api \<noteq> rp q" "rp ?npm \<noteq> rp q" for q
    using that f7(2) [of q] by (simp add: k7 del: joinPathFragments.simps)
  have k5: "treeRead st1 q = treeRead s5 q"
    if "\<And>f. rp (joinPathFragments [root (projectConfig opts), ''src'', f]) \<noteq> rp q"
       "rp ?X \<noteq> rp q" "unrelated ?D q"
       "rp ?pj \<noteq> rp q" "rp ?apiL \<noteq> rp q" "rp ?api \<noteq> rp q" "rp ?npm \<noteq> rp q" for q
  proof -
    from that(1) have "\<forall>p. ?story p \<longrightarrow> rp p \<noteq> rp q" by blast
    from writesWithin_read [OF w6 this] k6 [OF that(2-)] show ?thesis by simp
  qed
  have k4: "treeRead st1 q = treeRead s4 q"
    if "rp ?sbT \<noteq> rp q" "rp ?sbM \<noteq> rp q" "rp ?sbP \<noteq> rp q"
       "\<And>f. rp (joinPathFragments [root (projectConfig opts), ''src'', f]) \<noteq> rp q"
       "rp ?X \<noteq> rp q" "unrelated ?D q"
       "rp ?pj \<noteq> rp q" "rp ?apiL \<noteq> rp q" "rp ?api \<noteq> rp q" "rp ?npm \<noteq> rp q" for q
  proof -
    from that(1-3) have "\<forall>p. p \<in> {?sbT, ?sbM, ?sbP} \<longrightarrow> rp p \<noteq> rp q" by blast
    from writesWithin_read [OF w5 this] k5 [OF that(4-)] show ?thesis by simp
  qed
  have k3: "treeRead st1 q = treeRead s3 q"
    if "rp ?J \<noteq> rp q"
       "rp ?sbT \<noteq> rp q" "rp ?sbM \<noteq> rp q" "rp ?sbP \<noteq> rp q"
       "\<And>f. rp (joinPathFragments [root (projectConfig opts), ''src'', f]) \<noteq> rp q"
       "rp ?X \<noteq> rp q" "unrelated ?D q"
       "rp ?pj \<noteq> rp q" "rp ?apiL \<noteq> rp q" "rp ?api \<noteq> rp q" "rp ?npm \<noteq> rp q" for q
  proof -
    from that(1) have "\<forall>p. p = ?J \<longrightarrow> rp p \<noteq> rp q" by blast
    from writesWithin_read [OF w4 this] k4 [OF that(2-)] show ?thesis by simp
  qed
  have k2: "treeRead st1 q = treeRead s2 q"
    if "rp ?jc \<noteq> rp q" "rp ?tests \<noteq> rp q" "rp ?J \<noteq> rp q"
       "rp ?sbT \<noteq> rp q" "rp ?sbM \<noteq> rp q" "rp ?sbP \<noteq> rp q"
       "\<And>f. rp (joinPathFragments [root (projectConfig opts), ''src'', f]) \<noteq> rp q"
       "rp ?X \<noteq> rp q" "unrelated ?D q"
       "rp ?pj \<noteq> rp q" "rp ?apiL \<noteq> rp q" "rp ?api \<noteq> rp q" "rp ?npm \<noteq> rp q" for q
  proof -
    from that(1,2) have "\<forall>p. p \<in> {?jc, ?tests} \<longrightarrow> rp p \<noteq> rp q" by blast
    from writesWithin_read [OF w3(1) this] k3 [OF that(3-)] show ?thesis by simp
  qed
  have k1: "treeRead st1 q = treeRead s1 q"
    if "rp ?B \<noteq> rp q" "rp ?jc \<noteq> rp q" "rp ?tests \<noteq> rp q" "rp ?J \<noteq> rp q"
       "rp ?sbT \<noteq> rp q" "rp ?sbM \<noteq> rp q" "rp ?sbP \<noteq> rp q"
       "\<And>f. rp (joinPathFragments [root (projectConfig opts), ''src'', f]) \<noteq> rp q"
       "rp ?X \<noteq> rp q" "unrelated ?D q"
       "rp ?pj \<noteq> rp q" "rp ?apiL \<noteq> rp q" "rp ?api \<noteq> rp q" "rp ?npm \<noteq> rp q" for q
  proof -
    from that(1) have "\<forall>p. p = ?B \<longrightarrow> rp p \<noteq> rp q" by blast
    from writesWithin_read [OF w2 this] k2 [OF that(2-)] show ?thesis by simp
  qed
  have m7: "treeRead s7 q = treeRead s2 q"
    if "rp ?jc \<noteq> rp q" "rp ?tests \<noteq> rp q" "rp ?J \<noteq> rp q"
       "rp ?sbT \<noteq> rp q" "rp ?sbM \<noteq> rp q" "rp ?sbP \<noteq> rp q"
       "\<And>f. rp (joinPathFragments [root (projectConfig opts), ''src'', f]) \<noteq> rp q"
       "rp ?X \<noteq> rp q" "unrelated ?D q" for q
  proof -
    from that(1,2) have a: "\<forall>p. p \<in> {?jc, ?tests} \<longrightarrow> rp p \<noteq> rp q" by blast
    from that(3) have b: "\<forall>p. p = ?J \<longrightarrow> rp p \<noteq> rp q" by blast
    from that(4-6) have c: "\<forall>p. p \<in> {?sbT, ?sbM, ?sbP} \<longrightarrow> rp p \<noteq> rp q" by blast
    from that(7) have d: "\<forall>p. ?story p \<longrightarrow> rp p \<noteq> rp q" by blast
    from writesWithin_read [OF w3(1) a] writesWithin_read [OF w4 b] writesWithin_read [OF w5 c]
      writesWithin_read [OF w6 d] f7(2) [OF that(8,9)]
    show ?thesis by simp
  qed

  have "treeRead st1 ?ts = treeRead s1 ?ts" by (rule k1; rule ne unrel story)
  with f1(4) have t_ts: "treeRead st1 ?ts = Some (Json (tsconfigTemplate (uniqueArray (tsconfigTypes st @ old))))"
    by simp
  have "treeRead st1 ?B = treeRead s2 ?B" by (rule k2; rule ne unrel story)
  with c2 have t_B: "treeRead st1 ?B = Some (Json j')" by simp
  have "treeRead st1 ?jc = treeRead s3 ?jc" by (rule k3; rule ne unrel story)
  with c3 have t_jc: "treeRead st1 ?jc = Some (Text (jestTemplate (normalizedPkgName opts)
                                 (needsSnapshotSerializers opts dependencies)
                                 (''./'' @ basename (configRoot (optPaths opts)) @ ''/tests.js'')))"
    by simp
  have "treeRead st1 ?J = treeRead s4 ?J" by (rule k4; rule ne unrel story)
  then have t_J: "treeRead st1 ''/jest.config.js'' = treeRead s4 ''/jest.config.js''"
    unfolding J .
  have "treeRead st1 ?sbT = treeRead s5 ?sbT" "treeRead st1 ?sbM = treeRead s5 ?sbM"
    "treeRead st1 ?sbP = treeRead s5 ?sbP"
    by (rule k5; rule ne unrel story)+
  with c5 have t_sb: "treeRead st1 ?sbT = Some (Json storybookTsconfig_template)"
    "treeRead st1 ?sbM = Some (Text storybookMain_template)"
    "treeRead st1 ?sbP = Some (Text storybookPreview_template)"
    by simp_all
  have "treeRead s7 ?pj = treeRead s2 ?pj" by (rule m7; rule ne unrel story)
  with p3 p8 same3 have same8: "pkg8 = pkg" by simp
  have "treeRead st1 ?pj = treeRead s8 ?pj" by (rule k8; rule ne)
  with c8 have t_pj: "treeRead st1 ?pj = Some (Json (JObj pkg'))" by simp
  have "treeRead st1 ?apiL = treeRead s9 ?apiL" "treeRead st1 ?api = treeRead s9 ?api"
    by (rule k9; rule ne)+
  with c9 have t_api: "treeRead st1 ?apiL = Some (Json apiExtractorLocal)"
    "treeRead st1 ?api = Some (Json apiExtractor)"
    by simp_all
  have t_npm: "treeRead st1 ?npm = Some (Text npmIgnoreConfig)"
    using c10 by (simp add: k10)

  \<comment> \<open>what exists\<close>
  have "treeExists s6 ?tests"
    using w3(2) writesWithin_exists [OF w4] writesWithin_exists [OF w5] writesWithin_exists [OF w6]
    by blast
  then have "treeExists s7 ?tests" using f7(3) unrel(5) by blast
  then have "treeExists s10 ?tests"
    using writesWithin_exists [OF w8] writesWithin_exists [OF w9] writesWithin_exists [OF w10]
    by blast
  then have e_tests: "treeExists st1 ?tests" unfolding st1 by simp
  have "\<not> treeExists s8 ?D"
    using writesWithin_not_exists [OF w8 f7(1)] unrel(3) by simp
  then have "\<not> treeExists s9 ?D"
    using writesWithin_not_exists [OF w9] unrel(11,12) by (simp del: joinPathFragments.simps)
  then have "\<not> treeExists s10 ?D"
    using writesWithin_not_exists [OF w10] unrel(13) by simp
  then have e_D: "\<not> treeExists st1 ?D" unfolding st1 by simp

  \<comment> \<open>the registry\<close>
  show pr: "projects st1 = AList.update (pkgName opts) (migratedConfig (projectConfig opts)) (projects st)"
    unfolding st1 using pr10 by simp
  show sc: "npmScope st1 = npmScope st" unfolding st1 using pr10 by simp
  have roots: "map_option root (map_of (projects st1) d) = map_option root (map_of (projects st) d)" for d
    unfolding pr using reg by (simp add: update_conv' migratedConfig_def)
  have ty: "tsconfigTypes st1 = uniqueArray (tsconfigTypes st @ old)" unfolding st1 using pr10 by simp

  \<comment> \<open>the aliases\<close>
  have al: "depsThatNeedToBecomeAliases st1 dependencies = depsThatNeedToBecomeAliases s1 dependencies"
    by (rule depsThatNeedToBecomeAliases_cong) (simp_all add: sc f1 roots)
  have "map_option root (map_of (projects s1) (pkgName opts)) = Some (root (projectConfig opts))"
    using reg f1 by simp
  from addPathAliases_fixpoint [OF p2(3) this] al
  have fixB: "addPathAliases opts (depsThatNeedToBecomeAliases st1 dependencies) j' = Inr j'" by simp
  from p2(2) p8(3) same8
  have deps': "objectOrEmpty ''dependencies'' (map_of pkg' ''dependencies'') = Inr dependencies" by simp

  \<comment> \<open>the examples project\<close>
  have "\<exists>ex2. readProjectConfiguration st1 (''@'' @ workspaceNpmScope opts @ ''/react-examples'') = Inr ex2
            \<and> root ex2 = root ex"
    using ex roots [of "''@'' @ workspaceNpmScope opts @ ''/react-examples''"]
    unfolding readProjectConfiguration_def
    by (auto split: option.splits)
  moreover have "\<exists>sa sb. updateJestConfig ev (pkgName opts) sa = Done sb
            \<and> treeRead st1 ''/jest.config.js'' = treeRead sb ''/jest.config.js''
            \<and> map_option root (map_of (projects st1) (pkgName opts))
                = map_option root (map_of (projects sa) (pkgName opts))"
    using u4 t_J roots [of "pkgName opts"] pr3 by metis
  ultimately show "settled ev opts ex st1"
    unfolding settled_def
    using t_ts ty t_pj p8(2) deps' t_B fixB t_jc e_tests t_sb e_D t_api t_npm
    by blast
qed

lemma runMigrationOnProject_overlapping:
  "runMigrationOnProject exampleEnv ''@scope/config'' overlappingWorkspace = Done overlappingMigrated"
  by (simp add: migration_evaluation overlappingWorkspace_def overlappingMigrated_def jestSetup_def)

lemma runMigrationOnProject_overlapping_again:
  "runMigrationOnProject exampleEnv ''@scope/config'' overlappingMigrated = Done overlappingMigratedTwice"
  by (simp add: migration_evaluation overlappingMigrated_def overlappingMigratedTwice_def
      jestSetup_def tsconfigTemplate_def)

text \<open>
  Claim C2 as stated fails: in \<open>overlappingWorkspace\<close> the configuration directory of the
  package is deleted as its stories directory and written again by a later step, so it
  exists after the first run, and the second run moves the two documents in it as stories.
  The tree after the second run has a file that the tree after the first run has not.
\<close>

theorem second_migration_adds_files:
  "runMigrationOnProject exampleEnv ''@scope/config'' overlappingWorkspace = Done overlappingMigrated
   \<and> runMigrationOnProject exampleEnv ''@scope/config'' overlappingMigrated
       = Done overlappingMigratedTwice
   \<and> treeExists overlappingMigrated ''apps/ui.stories.examples/src/config''
   \<and> treeRead overlappingMigrated ''apps/ui.stories.examples/src/src/api-extractor.json'' = None
   \<and> treeRead overlappingMigratedTwice ''apps/ui.stories.examples/src/src/api-extractor.json''
       = Some (Text (''{}'' @ ''\<newline>\<newline>'' @ storyDefaultExport ''api-extractor.json''))"
proof -
  have "treeExists overlappingMigrated ''apps/ui.stories.examples/src/config''"
    by (simp add: treeExists_def rp_def inDir_def overlappingMigrated_def)
  moreover have
    "treeRead overlappingMigrated ''apps/ui.stories.examples/src/src/api-extractor.json'' = None"
    by (simp add: treeRead_def rp_def overlappingMigrated_def)
  moreover have
    "treeRead overlappingMigratedTwice ''apps/ui.stories.examples/src/src/api-extractor.json''
       = Some (Text (''{}'' @ ''\<newline>\<newline>'' @ storyDefaultExport ''api-extractor.json''))"
    by (simp add: treeRead_def rp_def overlappingMigrated_def overlappingMigratedTwice_def)
  ultimately show ?thesis
    using runMigrationOnProject_overlapping runMigrationOnProject_overlapping_again by simp
qed

lemma migratedConfig_root [simp]: "root (migratedConfig cfg) = root cfg"
  by (simp add: migratedConfig_def)

lemma migratedConfig_twice: "migratedConfig (migratedConfig cfg) = migratedConfig cfg"
proof -
  have "uniqueArray (uniqueArray (ts @ [''vNext'', ''platform:web'']) @ [''vNext'', ''platform:web''])
        = uniqueArray (ts @ [''vNext'', ''platform:web''])" for ts :: "string list"
    by (rule uniqueArray_again) simp
  then show ?thesis by (simp add: migratedConfig_def)
qed

lemma settled_projectConfig:
  assumes "root cfg2 = root (projectConfig opts)"
  shows "settled ev (opts\<lparr>projectConfig := cfg2\<rparr>) ex s = settled ev opts ex s"
proof -
  have a: "rewriteScripts (opts\<lparr>projectConfig := cfg2\<rparr>) j = rewriteScripts opts j" for j
    by (simp add: rewriteScripts_def Let_def split: sum.splits)
  have b: "addPathAliases (opts\<lparr>projectConfig := cfg2\<rparr>) al j = addPathAliases opts al j" for al j
    using assms by (simp add: addPathAliases_def Let_def split: sum.splits)
  have c: "needsSnapshotSerializers (opts\<lparr>projectConfig := cfg2\<rparr>) d = needsSnapshotSerializers opts d" for d
    by (simp add: needsSnapshotSerializers_def)
  have d: "storiesDirectory ex (opts\<lparr>projectConfig := cfg2\<rparr>) = storiesDirectory ex opts"
    by (simp add: storiesDirectory_def)
  show ?thesis
    unfolding settled_def a b c d by simp
qed

lemma noop_updateNxWorkspace:
  assumes "map_of (projects s) (pkgName opts) = Some (projectConfig opts)"
    and "migratedConfig (projectConfig opts) = projectConfig opts"
  shows "updateNxWorkspace opts s = Done s"
proof -
  from assms(1) have "AList.update (pkgName opts) (projectConfig opts) (projects s) = projects s"
    by (rule update_triv)
  with assms show ?thesis
    unfolding updateNxWorkspace_def updateProjectConfiguration_def
    by (simp add: migratedConfig_def)
qed

lemma normalizeOptions_Inr:
  assumes "normalizeOptions st nm = Inr opts"
  shows "pkgName opts = nm" "workspaceNpmScope opts = npmScope st"
    "rootJestConfig (optPaths opts) = ''/jest.config.js''"
    "map_of (projects st) nm = Some (projectConfig opts)"
  using assms unfolding normalizeOptions_def readProjectConfiguration_def
  by (auto split: option.splits sum.splits)

lemma normalizeOptions_migrated:
  assumes "normalizeOptions st nm = Inr opts"
    and "projects st1 = AList.update nm (migratedConfig (projectConfig opts)) (projects st)"
    and "npmScope st1 = npmScope st"
  shows "normalizeOptions st1 nm = Inr (opts\<lparr>projectConfig := migratedConfig (projectConfig opts)\<rparr>)"
  using assms unfolding normalizeOptions_def readProjectConfiguration_def
  by (auto split: option.splits sum.splits simp: update_conv')

text \<open>
  Claim C2, amended.  Let the migration of a project have run to its end in a layout in
  which the maintained files are different files, unrelated to the stories directory of
  the package, and no story is moved onto one of them, with an \<^verbatim>\<open>updateJestConfig\<close> that behaves
  as the spec requires.  Then the stories directory no longer exists, and a second run on
  the resulting state runs to its end and leaves every file and every project as the first
  run left them: the story relocation finds nothing to move, and the run only adds to the
  user log.
\<close>

theorem migration_is_idempotent:
  assumes run: "runMigrationOnProject ev nm st = Done st1"
    and opts: "normalizeOptions st nm = Inr opts"
    and ex: "readProjectConfiguration st (''@'' @ npmScope st @ ''/react-examples'') = Inr reactExamplesConfig"
    and layout: "separateLayout opts reactExamplesConfig"
    and jest: "rootJestConfigUpdater ev nm"
  shows "\<exists>st2. runMigrationOnProject ev nm st1 = Done st2
           \<and> files st2 = files st1 \<and> projects st2 = projects st1
           \<and> \<not> treeExists st1 (storiesDirectory reactExamplesConfig opts)"
proof -
  note o = normalizeOptions_Inr [OF opts]
  let ?cfg' = "migratedConfig (projectConfig opts)"
  let ?opts' = "opts\<lparr>projectConfig := ?cfg'\<rparr>"
  from run opts have steps: "runSteps
            [updatedLocalTsConfig opts,
             updatedBaseTsConfig opts,
             updateLocalJestConfig opts,
             updateRootJestConfig ev opts,
             setupStorybook opts,
             moveStorybookFromReactExamples ev opts,
             removeMigratedPackageFromReactExamples opts,
             updateNpmScripts opts,
             updateApiExtractorForLocalBuilds opts,
             setupNpmConfig opts,
             updateNxWorkspace opts] st = Done st1"
    by (simp add: runMigrationOnProject_def)
  from ex o(2) have ex': "readProjectConfiguration st (''@'' @ workspaceNpmScope opts @ ''/react-examples'')
       = Inr reactExamplesConfig" by simp
  from jest o(1) have jest': "rootJestConfigUpdater ev (pkgName opts)" by simp
  from o(1,4) have reg: "map_of (projects st) (pkgName opts) = Some (projectConfig opts)" by simp
  note first = first_run_settles [OF steps ex' layout jest' o(3) reg]
  from first(2) o(1) have pr: "projects st1 = AList.update nm ?cfg' (projects st)" by simp
  from normalizeOptions_migrated [OF opts pr first(3)]
  have opts': "normalizeOptions st1 nm = Inr ?opts'" .
  have s': "settled ev ?opts' reactExamplesConfig st1"
    using first(1) by (simp add: settled_projectConfig)
  have jest'': "rootJestConfigUpdater ev (pkgName ?opts')" using jest' by simp
  let ?st2 = "st1\<lparr>userLog := userLog st1 @
       [(LogWarn, ''No package stories found within react-examples. Skipping storybook stories migration...'')]\<rparr>"
  have "map_of (projects ?st2) (pkgName ?opts') = Some (projectConfig ?opts')"
    using pr o(1) by (simp add: update_conv')
  moreover have "migratedConfig (projectConfig ?opts') = projectConfig ?opts'"
    by (simp add: migratedConfig_twice)
  ultimately have "updateNxWorkspace ?opts' ?st2 = Done ?st2" by (rule noop_updateNxWorkspace)
  with settled_steps [OF s' jest'', of "updateNxWorkspace ?opts'"] opts'
  have "runMigrationOnProject ev nm st1 = Done ?st2"
    by (simp add: runMigrationOnProject_def)
  moreover have "files ?st2 = files st1" "projects ?st2 = projects st1" by simp_all
  moreover from first(1) have "\<not> treeExists st1 (storiesDirectory reactExamplesConfig opts)"
    unfolding settled_def by blast
  ultimately show ?thesis by blast
qed

lemma separateLayout_y:
  "separateLayout yOptions \<lparr>root = ''packages/react-examples'', sourceRoot = None, tags = None\<rparr>"
proof -
  let ?ex = "\<lparr>root = ''packages/react-examples'', sourceRoot = None, tags = None\<rparr>"
  have m: "map rp (maintainedFiles yOptions ?ex) =
    [''packages/y/tsconfig.json'', ''tsconfig.base.json'', ''packages/y/package.json'',
     ''packages/y/jest.config.js'', ''packages/y/config/tests.js'', ''jest.config.js'',
     ''packages/y/.storybook/tsconfig.json'', ''packages/y/.storybook/main.js'',
     ''packages/y/.storybook/preview.js'', ''packages/react-examples/package.json'',
     ''packages/y/config/api-extractor.local.json'', ''packages/y/config/api-extractor.json'',
     ''packages/y/.npmignore'']"
    by (simp add: maintainedFiles_def yOptions_def examplesManifest_def rp_def)
  have d: "distinct (map rp (maintainedFiles yOptions ?ex))"
    unfolding m by simp
  have u: "\<forall>p \<in> set (maintainedFiles yOptions ?ex). unrelated (storiesDirectory ?ex yOptions) p"
    by (simp add: maintainedFiles_def yOptions_def examplesManifest_def storiesDirectory_def
        unrelated_def rp_def inDir_def)
  have s: "rp (joinPathFragments [root (projectConfig yOptions), ''src'', fileName])
             \<notin> set (map rp (maintainedFiles yOptions ?ex))" for fileName
    unfolding m by (simp add: yOptions_def rp_def)
  from d u s show ?thesis unfolding separateLayout_def by blast
qed

lemma rootJestConfigUpdater_exampleEnv: "rootJestConfigUpdater exampleEnv project"
  by (simp add: rootJestConfigUpdater_def exampleEnv_def)

text \<open>
  The migration of \<^verbatim>\<open>@scope/y\<close> turns \<open>migrationWorkspace\<close> into \<open>yMigrated\<close>, where the stories
  directory is gone; a second migration leaves the files and the projects of \<open>yMigrated\<close>
  as they are.
\<close>

theorem migration_is_idempotent_witness:
  "runMigrationOnProject exampleEnv ''@scope/y'' migrationWorkspace = Done yMigrated
   \<and> (\<exists>st2. runMigrationOnProject exampleEnv ''@scope/y'' yMigrated = Done st2
           \<and> files st2 = files yMigrated \<and> projects st2 = projects yMigrated)
   \<and> \<not> treeExists yMigrated ''packages/react-examples/src/y''"
proof -
  let ?ex = "\<lparr>root = ''packages/react-examples'', sourceRoot = None, tags = None\<rparr>"
  have run: "runMigrationOnProject exampleEnv ''@scope/y'' migrationWorkspace = Done yMigrated"
    using runMigrationOnProject_y [of "[]"] by (simp add: migrationWorkspace_def)
  have ex: "readProjectConfiguration migrationWorkspace (''@'' @ npmScope migrationWorkspace @ ''/react-examples'')
              = Inr ?ex"
    by (simp add: readProjectConfiguration_def migrationWorkspace_def)
  have d: "storiesDirectory ?ex yOptions = ''packages/react-examples/src/y''"
    by (simp add: storiesDirectory_def yOptions_def)
  from migration_is_idempotent [OF run normalizeOptions_y ex separateLayout_y
      rootJestConfigUpdater_exampleEnv]
  have "\<exists>st2. runMigrationOnProject exampleEnv ''@scope/y'' yMigrated = Done st2
           \<and> files st2 = files yMigrated \<and> projects st2 = projects yMigrated
           \<and> \<not> treeExists yMigrated ''packages/react-examples/src/y''"
    unfolding d .
  with run show ?thesis by blast
qed

end
